theory Spec2Isabelle
  imports Complex_Main "HOL-Library.Multiset"
begin

section \<open>Double-precision values\<close>

text \<open>
  The model class \<open>Class_VDM\<close> computes with C++ \<open>double\<close>. A \<open>double\<close> is
  modelled as a finite real or one of the three IEEE-754 special values, so that a
  division by zero is a value of the model (an infinity or NaN) exactly where it is one in
  the program. Two things are idealised and no theorem below depends on them: finite
  results are not rounded and never overflow, and the two zeros are not told apart (a
  zero divisor counts as \<open>+0\<close>).
\<close>

datatype dbl = Fin real | PInf | NInf | NaN

instantiation dbl :: "{plus, minus, uminus, times, inverse}"
begin

fun uminus_dbl :: "dbl \<Rightarrow> dbl" where
  "uminus_dbl (Fin a) = Fin (- a)"
| "uminus_dbl PInf = NInf"
| "uminus_dbl NInf = PInf"
| "uminus_dbl NaN = NaN"

fun plus_dbl :: "dbl \<Rightarrow> dbl \<Rightarrow> dbl" where
  "plus_dbl (Fin a) (Fin b) = Fin (a + b)"
| "plus_dbl NaN y = NaN"
| "plus_dbl x NaN = NaN"
| "plus_dbl PInf NInf = NaN"
| "plus_dbl NInf PInf = NaN"
| "plus_dbl PInf y = PInf"
| "plus_dbl NInf y = NInf"
| "plus_dbl x PInf = PInf"
| "plus_dbl x NInf = NInf"

definition minus_dbl :: "dbl \<Rightarrow> dbl \<Rightarrow> dbl" where
  "minus_dbl x y = x + (- y)"

fun times_dbl :: "dbl \<Rightarrow> dbl \<Rightarrow> dbl" where
  "times_dbl (Fin a) (Fin b) = Fin (a * b)"
| "times_dbl NaN y = NaN"
| "times_dbl x NaN = NaN"
| "times_dbl PInf (Fin b) = (if b = 0 then NaN else if 0 < b then PInf else NInf)"
| "times_dbl NInf (Fin b) = (if b = 0 then NaN else if 0 < b then NInf else PInf)"
| "times_dbl (Fin a) PInf = (if a = 0 then NaN else if 0 < a then PInf else NInf)"
| "times_dbl (Fin a) NInf = (if a = 0 then NaN else if 0 < a then NInf else PInf)"
| "times_dbl PInf PInf = PInf"
| "times_dbl PInf NInf = NInf"
| "times_dbl NInf PInf = NInf"
| "times_dbl NInf NInf = PInf"

fun divide_dbl :: "dbl \<Rightarrow> dbl \<Rightarrow> dbl" where
  "divide_dbl (Fin a) (Fin b) =
     (if b = 0 then (if a = 0 then NaN else if 0 < a then PInf else NInf)
      else Fin (a / b))"
| "divide_dbl NaN y = NaN"
| "divide_dbl x NaN = NaN"
| "divide_dbl (Fin a) PInf = Fin 0"
| "divide_dbl (Fin a) NInf = Fin 0"
| "divide_dbl PInf (Fin b) = (if 0 \<le> b then PInf else NInf)"
| "divide_dbl NInf (Fin b) = (if 0 \<le> b then NInf else PInf)"
| "divide_dbl PInf y = NaN"
| "divide_dbl NInf y = NaN"

fun inverse_dbl :: "dbl \<Rightarrow> dbl" where
  "inverse_dbl (Fin a) = (if a = 0 then PInf else Fin (1 / a))"
| "inverse_dbl PInf = Fin 0"
| "inverse_dbl NInf = Fin 0"
| "inverse_dbl NaN = NaN"

instance ..

end

text \<open>\<open>sin\<close>, \<open>cos\<close> and \<open>pow\<close> of \<open><cmath>\<close>; \<open>pow\<close> is only called with an integer exponent.\<close>

fun sin_dbl :: "dbl \<Rightarrow> dbl" where
  "sin_dbl (Fin a) = Fin (sin a)"
| "sin_dbl x = NaN"

fun cos_dbl :: "dbl \<Rightarrow> dbl" where
  "cos_dbl (Fin a) = Fin (cos a)"
| "cos_dbl x = NaN"

fun pow_dbl :: "dbl \<Rightarrow> int \<Rightarrow> dbl" where
  "pow_dbl (Fin a) n = (if a = 0 \<and> n < 0 then PInf else Fin (power_int a n))"
| "pow_dbl PInf n = (if n = 0 then Fin 1 else if 0 < n then PInf else Fin 0)"
| "pow_dbl NInf n =
     (if n = 0 then Fin 1 else if n < 0 then Fin 0 else if even n then PInf else NInf)"
| "pow_dbl NaN n = (if n = 0 then Fin 1 else NaN)"

definition is_Fin :: "dbl \<Rightarrow> bool" where
  "is_Fin x = (case x of Fin a \<Rightarrow> True | _ \<Rightarrow> False)"

section \<open>Errors\<close>

text \<open>
  \<open>runtime_error\<close> is the \<open>std::runtime_error\<close> that \<open>calc_CT\<close> throws with its message.
  \<open>out_of_range\<close> stands for an access beyond the end of a \<open>std::vector\<close>: the exception of
  \<open>at\<close>, and the undefined behaviour of \<open>operator[]\<close>, which the model reports instead of
  inventing a value.
\<close>

datatype error = runtime_error string | out_of_range

section \<open>The input record as a stream\<close>

text \<open>
  \<open>ReadAndSet\<close> reads its line through \<open>std::stringstream\<close> and \<open>operator>>\<close> into a
  \<open>double\<close>. The standard library is not part of the repository; its formatted extraction
  is modelled on the whitespace-separated tokens of the line. A token is a numeral with its
  value, or text that cannot be converted. An extraction on a stream that has failed, or
  that has no token left, leaves the target unchanged and sets \<open>failbit\<close>; a failed
  conversion stores zero (C++11) and sets \<open>failbit\<close>. Nothing throws.
\<close>

datatype token = Num real | NotNum

record stringstream =
  tokens :: "token list"
  failbit :: bool

definition stream_extract :: "stringstream \<Rightarrow> dbl \<Rightarrow> stringstream \<times> dbl" where
  "stream_extract ss tmp =
     (if failbit ss then (ss, tmp)
      else case tokens ss of
        [] \<Rightarrow> (ss\<lparr>failbit := True\<rparr>, tmp)
      | Num x # rest \<Rightarrow> (ss\<lparr>tokens := rest\<rparr>, Fin x)
      | NotNum # rest \<Rightarrow> (ss\<lparr>failbit := True\<rparr>, Fin 0))"

section \<open>The model class\<close>

text \<open>The constants the constructor of \<open>Class_VDM\<close> fixes.\<close>

definition NNeutralHiggs :: nat where "NNeutralHiggs = 4"
definition NChargedHiggs :: nat where "NChargedHiggs = 2"
definition nPar :: nat where "nPar = 6"
definition nParCT :: nat where "nParCT = 11"
definition nVEV :: nat where "nVEV = 2"
definition NHiggs :: nat where "NHiggs = NNeutralHiggs + NChargedHiggs"
definition VevOrder :: "nat list" where "VevOrder = [2, 4]"

text \<open>
  Of the Standard Model constants only \<open>C_vev0\<close> is read by the functions modelled here.
  The gauge and Yukawa tensors that \<open>SetCurvatureArrays\<close> also fills (from \<open>C_g\<close>, \<open>C_gs\<close>,
  the fermion masses and the CKM matrix) are read by no function of this file and are left
  out of the state.
\<close>

record ISMConstants =
  C_vev0 :: dbl

type_synonym tensor1 = "nat \<Rightarrow> dbl"
type_synonym tensor2 = "nat \<times> nat \<Rightarrow> dbl"
type_synonym tensor3 = "nat \<times> nat \<times> nat \<Rightarrow> dbl"
type_synonym tensor4 = "nat \<times> nat \<times> nat \<times> nat \<Rightarrow> dbl"

text \<open>
  The members of the object. A nested \<open>std::vector\<close> is a function of its index tuple
  together with its extent; only indices below \<open>NHiggs\<close> are ever read or written.
  \<open>Curvature_Higgs_extent\<close> is the extent of the Higgs curvature tensors, tree-level and
  counterterm, which \<open>initVectors\<close> sizes together; \<open>Couplings_extent\<close> is the extent of
  \<open>HiggsRotationMatrix\<close>, \<open>LambdaHiggs_3\<close> and \<open>LambdaHiggs_3_CT\<close>, which
  \<open>CalculatePhysicalCouplings\<close> sizes together. A vector member is empty in a new object,
  so both extents start at 0, and an access to a tensor whose extent is below \<open>NHiggs\<close> is
  out of range.
\<close>

record Class_VDM =
  SMConstants :: ISMConstants
  UseIndexCol :: bool
  SetCurvatureDone :: bool
  CalcCouplingsdone :: bool
  MH1 :: dbl
  MH2 :: dbl
  MX :: dbl
  alpha :: dbl
  v :: dbl
  vs :: dbl
  gX :: dbl
  lambdaH :: dbl
  lambdaS :: dbl
  kappa :: dbl
  muHSq :: dbl
  muSSq :: dbl
  scale :: dbl
  dmuHSq :: dbl
  dlambdaH :: dbl
  dkappa :: dbl
  dmuSSq :: dbl
  dlambdaS :: dbl
  dT1 :: dbl
  dT2 :: dbl
  dT3 :: dbl
  dT4 :: dbl
  dT5 :: dbl
  dT6 :: dbl
  vevTreeMin :: "dbl list"
  vevTree :: "dbl list"
  HiggsVev :: "dbl list"
  Curvature_Higgs_extent :: nat
  Curvature_Higgs_L1 :: tensor1
  Curvature_Higgs_L2 :: tensor2
  Curvature_Higgs_L3 :: tensor3
  Curvature_Higgs_L4 :: tensor4
  Curvature_Higgs_CT_L1 :: tensor1
  Curvature_Higgs_CT_L2 :: tensor2
  Curvature_Higgs_CT_L3 :: tensor3
  Curvature_Higgs_CT_L4 :: tensor4
  Couplings_extent :: nat
  HiggsRotationMatrix :: tensor2
  LambdaHiggs_3 :: tensor3
  LambdaHiggs_3_CT :: tensor3
  TripleHiggsCorrectionsCWPhysical :: tensor3
  TripleHiggsCorrectionsTreePhysical :: tensor3
  TripleHiggsCorrectionsCTPhysical :: tensor3

subsection \<open>Legends\<close>

definition addLegendCT :: "string list" where
  "addLegendCT =
     [''dmuHSq'', ''dlambdaH'', ''dmuSSq'', ''dlambdaS'', ''dkappa'',
      ''dT1'', ''dT2'', ''dT3'', ''dT4'', ''dT5'', ''dT6'']"

subsection \<open>Helpers of the base class\<close>

text \<open>
  Modelled from the spec: \<open>MinimizeOrderVEV\<close> of the base class \<open>Class_Potential_Origin\<close> is
  not among the sources. The spec's VEVConfiguration is a sequence of length \<open>NHiggs\<close> that
  is nonzero only at the positions \<open>VevOrder\<close> designates for the \<open>nVEV\<close> independent
  directions.
\<close>

definition MinimizeOrderVEV :: "dbl list \<Rightarrow> dbl list" where
  "MinimizeOrderVEV vevminimizer =
     fold (\<lambda>i r. r[VevOrder ! i := vevminimizer ! i]) [0..<nVEV] (replicate NHiggs (Fin 0))"

text \<open>
  Modelled from the spec: \<open>initVectors\<close> of the base class is not among the sources. The
  spec's curvature tensors hold zero wherever nothing is assigned (absent entries are
  zero), so \<open>initVectors\<close> gives every Higgs tensor, tree-level and counterterm, the
  extent \<open>NHiggs\<close> with all entries zero, and sizes \<open>HiggsVev\<close>.
\<close>

definition initVectors :: "Class_VDM \<Rightarrow> Class_VDM" where
  "initVectors s = s\<lparr>
     Curvature_Higgs_extent := NHiggs,
     Curvature_Higgs_L1 := (\<lambda>_. Fin 0),
     Curvature_Higgs_L2 := (\<lambda>_. Fin 0),
     Curvature_Higgs_L3 := (\<lambda>_. Fin 0),
     Curvature_Higgs_L4 := (\<lambda>_. Fin 0),
     Curvature_Higgs_CT_L1 := (\<lambda>_. Fin 0),
     Curvature_Higgs_CT_L2 := (\<lambda>_. Fin 0),
     Curvature_Higgs_CT_L3 := (\<lambda>_. Fin 0),
     Curvature_Higgs_CT_L4 := (\<lambda>_. Fin 0),
     HiggsVev := replicate NHiggs (Fin 0)\<rparr>"

text \<open>A run of assignments \<open>T[i]...[l] = x;\<close> in the order of the source.\<close>

definition assign :: "('k \<times> dbl) list \<Rightarrow> ('k \<Rightarrow> dbl) \<Rightarrow> ('k \<Rightarrow> dbl)" where
  "assign entries T = fold (\<lambda>(k, x) T'. T'(k := x)) entries T"

subsection \<open>\<open>SetCurvatureArrays\<close>\<close>

definition Higgs_L2_entries :: "dbl \<Rightarrow> dbl \<Rightarrow> ((nat \<times> nat) \<times> dbl) list" where
  "Higgs_L2_entries muH muS =
   [((0, 0), - muH), ((1, 1), - muH), ((2, 2), - muH), ((3, 3), - muH),
    ((4, 4), - muS), ((5, 5), - muS)]"

definition Higgs_L4_entries ::
  "dbl \<Rightarrow> dbl \<Rightarrow> dbl \<Rightarrow> ((nat \<times> nat \<times> nat \<times> nat) \<times> dbl) list" where
  "Higgs_L4_entries lamH kap lamS =
   [
    ((0, 0, 0, 0), Fin 3 * Fin 2 * lamH), ((0, 0, 1, 1), Fin 2 * lamH),
    ((0, 0, 2, 2), Fin 2 * lamH), ((0, 0, 3, 3), Fin 2 * lamH),
    ((0, 0, 4, 4), kap), ((0, 0, 5, 5), kap),
    ((0, 1, 0, 1), Fin 2 * lamH), ((0, 1, 1, 0), Fin 2 * lamH),
    ((0, 2, 0, 2), Fin 2 * lamH), ((0, 2, 2, 0), Fin 2 * lamH),
    ((0, 3, 0, 3), Fin 2 * lamH), ((0, 3, 3, 0), Fin 2 * lamH),
    ((0, 4, 0, 4), kap), ((0, 4, 4, 0), kap),
    ((0, 5, 0, 5), kap), ((0, 5, 5, 0), kap),
    ((1, 0, 0, 1), Fin 2 * lamH), ((1, 0, 1, 0), Fin 2 * lamH),
    ((1, 1, 0, 0), Fin 2 * lamH), ((1, 1, 1, 1), Fin 3 * Fin 2 * lamH),
    ((1, 1, 2, 2), Fin 2 * lamH), ((1, 1, 3, 3), Fin 2 * lamH),
    ((1, 1, 4, 4), kap), ((1, 1, 5, 5), kap),
    ((1, 2, 1, 2), Fin 2 * lamH), ((1, 2, 2, 1), Fin 2 * lamH),
    ((1, 3, 1, 3), Fin 2 * lamH), ((1, 3, 3, 1), Fin 2 * lamH),
    ((1, 4, 1, 4), kap), ((1, 4, 4, 1), kap),
    ((1, 5, 1, 5), kap), ((1, 5, 5, 1), kap),
    ((2, 0, 0, 2), Fin 2 * lamH), ((2, 0, 2, 0), Fin 2 * lamH),
    ((2, 1, 1, 2), Fin 2 * lamH), ((2, 1, 2, 1), Fin 2 * lamH),
    ((2, 2, 0, 0), Fin 2 * lamH), ((2, 2, 1, 1), Fin 2 * lamH),
    ((2, 2, 2, 2), Fin 3 * Fin 2 * lamH), ((2, 2, 3, 3), Fin 2 * lamH),
    ((2, 2, 4, 4), kap), ((2, 2, 5, 5), kap),
    ((2, 3, 2, 3), Fin 2 * lamH), ((2, 3, 3, 2), Fin 2 * lamH),
    ((2, 4, 2, 4), kap), ((2, 4, 4, 2), kap),
    ((2, 5, 2, 5), kap), ((2, 5, 5, 2), kap),
    ((3, 0, 0, 3), Fin 2 * lamH), ((3, 0, 3, 0), Fin 2 * lamH),
    ((3, 1, 1, 3), Fin 2 * lamH), ((3, 1, 3, 1), Fin 2 * lamH),
    ((3, 2, 2, 3), Fin 2 * lamH), ((3, 2, 3, 2), Fin 2 * lamH),
    ((3, 3, 0, 0), Fin 2 * lamH), ((3, 3, 1, 1), Fin 2 * lamH),
    ((3, 3, 2, 2), Fin 2 * lamH), ((3, 3, 3, 3), Fin 3 * Fin 2 * lamH),
    ((3, 3, 4, 4), kap), ((3, 3, 5, 5), kap),
    ((3, 4, 3, 4), kap), ((3, 4, 4, 3), kap),
    ((3, 5, 3, 5), kap), ((3, 5, 5, 3), kap),
    ((4, 0, 0, 4), kap), ((4, 0, 4, 0), kap),
    ((4, 1, 1, 4), kap), ((4, 1, 4, 1), kap),
    ((4, 2, 2, 4), kap), ((4, 2, 4, 2), kap),
    ((4, 3, 3, 4), kap), ((4, 3, 4, 3), kap),
    ((4, 4, 0, 0), kap), ((4, 4, 1, 1), kap),
    ((4, 4, 2, 2), kap), ((4, 4, 3, 3), kap),
    ((4, 4, 4, 4), Fin 3 * Fin 2 * lamS), ((4, 4, 5, 5), Fin 2 * lamS),
    ((4, 5, 4, 5), Fin 2 * lamS), ((4, 5, 5, 4), Fin 2 * lamS),
    ((5, 0, 0, 5), kap), ((5, 0, 5, 0), kap),
    ((5, 1, 1, 5), kap), ((5, 1, 5, 1), kap),
    ((5, 2, 2, 5), kap), ((5, 2, 5, 2), kap),
    ((5, 3, 3, 5), kap), ((5, 3, 5, 3), kap),
    ((5, 4, 4, 5), Fin 2 * lamS), ((5, 4, 5, 4), Fin 2 * lamS),
    ((5, 5, 0, 0), kap), ((5, 5, 1, 1), kap),
    ((5, 5, 2, 2), kap), ((5, 5, 3, 3), kap),
    ((5, 5, 4, 4), Fin 2 * lamS), ((5, 5, 5, 5), Fin 3 * Fin 2 * lamS)]"

definition SetCurvatureArrays :: "Class_VDM \<Rightarrow> error + Class_VDM" where
  "SetCurvatureArrays s =
     (let s1 = initVectors s in
      if length (vevTree s1) < NHiggs then Inl out_of_range
      else Inr (s1\<lparr>
        HiggsVev := map (\<lambda>i. vevTree s1 ! i) [0..<NHiggs],
        Curvature_Higgs_L2 :=
          assign (Higgs_L2_entries (muHSq s1) (muSSq s1)) (Curvature_Higgs_L2 s1),
        Curvature_Higgs_L4 :=
          assign (Higgs_L4_entries (lambdaH s1) (kappa s1) (lambdaS s1)) (Curvature_Higgs_L4 s1),
        SetCurvatureDone := True\<rparr>))"

subsection \<open>\<open>set_gen\<close> and \<open>ReadAndSet\<close>\<close>

text \<open>
  The primed names are the values the members take, in the order of the assignments of the
  source; a member read after its assignment is read at its new value.
\<close>

definition set_gen :: "Class_VDM \<Rightarrow> dbl list \<Rightarrow> error + Class_VDM" where
  "set_gen s par =
     (if length par < 6 then Inl out_of_range
      else
        let v' = C_vev0 (SMConstants s);
            vs' = par ! 3;
            lambdaH' =
              (par ! 0 * par ! 0 * cos_dbl (par ! 4) * cos_dbl (par ! 4) +
               par ! 1 * par ! 1 * sin_dbl (par ! 4) * sin_dbl (par ! 4)) /
              (Fin 2 * par ! 2 * par ! 2);
            kappa' =
              (par ! 0 * par ! 0 - par ! 1 * par ! 1) * sin_dbl (par ! 4) * cos_dbl (par ! 4) /
              (par ! 2 * par ! 3);
            lambdaS' =
              (par ! 1 * par ! 1 * cos_dbl (par ! 4) * cos_dbl (par ! 4) +
               par ! 0 * par ! 0 * sin_dbl (par ! 4) * sin_dbl (par ! 4)) /
              (Fin 2 * par ! 3 * par ! 3);
            gX' = par ! 5 / par ! 3;
            muHSq' = vs' * vs' * kappa' / Fin 2 + v' * v' * lambdaH';
            muSSq' = kappa' * v' * v' / Fin 2 + lambdaS' * vs' * vs';
            scale' = v';
            vevTreeMin' = [v', vs'];
            vevTree' = MinimizeOrderVEV vevTreeMin';
            s' = s\<lparr>v := v', vs := vs', lambdaH := lambdaH', kappa := kappa',
                   lambdaS := lambdaS', gX := gX', muHSq := muHSq', muSSq := muSSq',
                   scale := scale', vevTreeMin := vevTreeMin', vevTree := vevTree'\<rparr>
        in if \<not> SetCurvatureDone s' then SetCurvatureArrays s' else Inr s')"

text \<open>
  The loop \<open>for (int k = 1; k < 7; k++)\<close> of \<open>ReadAndSet\<close>: one extraction into \<open>tmp\<close>, then
  the store selected by \<open>k\<close>.
\<close>

definition store_field :: "nat \<Rightarrow> dbl \<Rightarrow> Class_VDM \<Rightarrow> Class_VDM" where
  "store_field k tmp s =
     (if k = 1 then s\<lparr>MH1 := tmp\<rparr>
      else if k = 2 then s\<lparr>MH2 := tmp\<rparr>
      else if k = 3 then s\<lparr>MX := tmp\<rparr>
      else if k = 4 then s\<lparr>alpha := tmp\<rparr>
      else if k = 5 then s\<lparr>v := tmp\<rparr>
      else if k = 6 then s\<lparr>gX := tmp\<rparr>
      else s)"

definition read_step ::
  "nat \<Rightarrow> stringstream \<times> dbl \<times> Class_VDM \<Rightarrow> stringstream \<times> dbl \<times> Class_VDM" where
  "read_step k st =
     (case st of (ss, tmp, s) \<Rightarrow>
        (case stream_extract ss tmp of (ss', tmp') \<Rightarrow> (ss', tmp', store_field k tmp' s)))"

text \<open>
  \<open>tmp0\<close> is the indeterminate initial value of the local \<open>double tmp\<close>. The vector \<open>par\<close>
  is written through the reference and is returned with the state.
\<close>

definition ReadAndSet ::
  "Class_VDM \<Rightarrow> dbl \<Rightarrow> token list \<Rightarrow> dbl list \<Rightarrow> error + (dbl list \<times> Class_VDM)" where
  "ReadAndSet s tmp0 linestr par =
     (let ss = \<lparr>tokens = linestr, failbit = False\<rparr>;
          st0 = (if UseIndexCol s
                 then (case stream_extract ss tmp0 of (ss', tmp') \<Rightarrow> (ss', tmp', s))
                 else (ss, tmp0, s));
          s1 = snd (snd (fold read_step [1..<7] st0));
          vs' = MX s1 / gX s1;
          s2 = s1\<lparr>vs := vs'\<rparr>
      in if length par < 6 then Inl out_of_range
         else
           let par' = par[0 := MH1 s1, 1 := MH2 s1, 2 := v s1, 3 := vs',
                          4 := alpha s1, 5 := MX s1]
           in case set_gen s2 par' of
                Inl e \<Rightarrow> Inl e
              | Inr s3 \<Rightarrow> Inr (par', s3))"

subsection \<open>\<open>set_CT_Pot_Par\<close>\<close>

text \<open>
  \<open>set_CT_Pot_Par\<close> reads \<open>par[0]\<close> to \<open>par[10]\<close> and writes the counterterm tensors at
  indices below \<open>NHiggs\<close>. It does not size them: on an object whose tensors
  \<open>initVectors\<close> has not sized, the writes fall outside the vectors.
\<close>

definition Higgs_CT_L4_entries ::
  "dbl \<Rightarrow> dbl \<Rightarrow> dbl \<Rightarrow> ((nat \<times> nat \<times> nat \<times> nat) \<times> dbl) list" where
  "Higgs_CT_L4_entries dlamH dkap dlamS =
   [
    ((0, 0, 0, 0), Fin 6 * dlamH), ((0, 0, 1, 1), Fin 2 * dlamH),
    ((0, 0, 2, 2), Fin 2 * dlamH), ((0, 0, 3, 3), Fin 2 * dlamH),
    ((0, 0, 4, 4), dkap), ((0, 0, 5, 5), dkap),
    ((0, 1, 0, 1), Fin 2 * dlamH), ((0, 1, 1, 0), Fin 2 * dlamH),
    ((0, 2, 0, 2), Fin 2 * dlamH), ((0, 2, 2, 0), Fin 2 * dlamH),
    ((0, 3, 0, 3), Fin 2 * dlamH), ((0, 3, 3, 0), Fin 2 * dlamH),
    ((0, 4, 0, 4), dkap), ((0, 4, 4, 0), dkap),
    ((0, 5, 0, 5), dkap), ((0, 5, 5, 0), dkap),
    ((1, 0, 0, 1), Fin 2 * dlamH), ((1, 0, 1, 0), Fin 2 * dlamH),
    ((1, 1, 0, 0), Fin 2 * dlamH), ((1, 1, 1, 1), Fin 6 * dlamH),
    ((1, 1, 2, 2), Fin 2 * dlamH), ((1, 1, 3, 3), Fin 2 * dlamH),
    ((1, 1, 4, 4), dkap), ((1, 1, 5, 5), dkap),
    ((1, 2, 1, 2), Fin 2 * dlamH), ((1, 2, 2, 1), Fin 2 * dlamH),
    ((1, 3, 1, 3), Fin 2 * dlamH), ((1, 3, 3, 1), Fin 2 * dlamH),
    ((1, 4, 1, 4), dkap), ((1, 4, 4, 1), dkap),
    ((1, 5, 1, 5), dkap), ((1, 5, 5, 1), dkap),
    ((2, 0, 0, 2), Fin 2 * dlamH), ((2, 0, 2, 0), Fin 2 * dlamH),
    ((2, 1, 1, 2), Fin 2 * dlamH), ((2, 1, 2, 1), Fin 2 * dlamH),
    ((2, 2, 0, 0), Fin 2 * dlamH), ((2, 2, 1, 1), Fin 2 * dlamH),
    ((2, 2, 2, 2), Fin 6 * dlamH), ((2, 2, 3, 3), Fin 2 * dlamH),
    ((2, 2, 4, 4), dkap), ((2, 2, 5, 5), dkap),
    ((2, 3, 2, 3), Fin 2 * dlamH), ((2, 3, 3, 2), Fin 2 * dlamH),
    ((2, 4, 2, 4), dkap), ((2, 4, 4, 2), dkap),
    ((2, 5, 2, 5), dkap), ((2, 5, 5, 2), dkap),
    ((3, 0, 0, 3), Fin 2 * dlamH), ((3, 0, 3, 0), Fin 2 * dlamH),
    ((3, 1, 1, 3), Fin 2 * dlamH), ((3, 1, 3, 1), Fin 2 * dlamH),
    ((3, 2, 2, 3), Fin 2 * dlamH), ((3, 2, 3, 2), Fin 2 * dlamH),
    ((3, 3, 0, 0), Fin 2 * dlamH), ((3, 3, 1, 1), Fin 2 * dlamH),
    ((3, 3, 2, 2), Fin 2 * dlamH), ((3, 3, 3, 3), Fin 6 * dlamH),
    ((3, 3, 4, 4), dkap), ((3, 3, 5, 5), dkap),
    ((3, 4, 3, 4), dkap), ((3, 4, 4, 3), dkap),
    ((3, 5, 3, 5), dkap), ((3, 5, 5, 3), dkap),
    ((4, 0, 0, 4), dkap), ((4, 0, 4, 0), dkap),
    ((4, 1, 1, 4), dkap), ((4, 1, 4, 1), dkap),
    ((4, 2, 2, 4), dkap), ((4, 2, 4, 2), dkap),
    ((4, 3, 3, 4), dkap), ((4, 3, 4, 3), dkap),
    ((4, 4, 0, 0), dkap), ((4, 4, 1, 1), dkap),
    ((4, 4, 2, 2), dkap), ((4, 4, 3, 3), dkap),
    ((4, 4, 4, 4), Fin 6 * dlamS), ((4, 4, 5, 5), Fin 2 * dlamS),
    ((4, 5, 4, 5), Fin 2 * dlamS), ((4, 5, 5, 4), Fin 2 * dlamS),
    ((5, 0, 0, 5), dkap), ((5, 0, 5, 0), dkap),
    ((5, 1, 1, 5), dkap), ((5, 1, 5, 1), dkap),
    ((5, 2, 2, 5), dkap), ((5, 2, 5, 2), dkap),
    ((5, 3, 3, 5), dkap), ((5, 3, 5, 3), dkap),
    ((5, 4, 4, 5), Fin 2 * dlamS), ((5, 4, 5, 4), Fin 2 * dlamS),
    ((5, 5, 0, 0), dkap), ((5, 5, 1, 1), dkap),
    ((5, 5, 2, 2), dkap), ((5, 5, 3, 3), dkap),
    ((5, 5, 4, 4), Fin 2 * dlamS), ((5, 5, 5, 5), Fin 6 * dlamS)]"

definition set_CT_Pot_Par :: "Class_VDM \<Rightarrow> dbl list \<Rightarrow> error + Class_VDM" where
  "set_CT_Pot_Par s par =
     (if length par < 11 \<or> Curvature_Higgs_extent s < NHiggs then Inl out_of_range
      else
        let dmuHSq' = par ! 0; dlambdaH' = par ! 1; dkappa' = par ! 2;
            dmuSSq' = par ! 3; dlambdaS' = par ! 4;
            dT1' = par ! 5; dT2' = par ! 6; dT3' = par ! 7;
            dT4' = par ! 8; dT5' = par ! 9; dT6' = par ! 10
        in Inr (s\<lparr>
          dmuHSq := dmuHSq', dlambdaH := dlambdaH', dkappa := dkappa',
          dmuSSq := dmuSSq', dlambdaS := dlambdaS',
          dT1 := dT1', dT2 := dT2', dT3 := dT3', dT4 := dT4', dT5 := dT5', dT6 := dT6',
          Curvature_Higgs_CT_L1 :=
            assign [(0, dT1'), (1, dT2'), (2, dT3'), (3, dT4'), (4, dT5'), (5, dT6')]
              (Curvature_Higgs_CT_L1 s),
          Curvature_Higgs_CT_L2 :=
            assign (Higgs_L2_entries dmuHSq' dmuSSq') (Curvature_Higgs_CT_L2 s),
          Curvature_Higgs_CT_L4 :=
            assign (Higgs_CT_L4_entries dlambdaH' dkappa' dlambdaS')
              (Curvature_Higgs_CT_L4 s)\<rparr>))"

subsection \<open>\<open>calc_CT\<close>\<close>

text \<open>
  \<open>WeinbergNabla\<close> and \<open>WeinbergHesse\<close> are what \<open>WeinbergFirstDerivative()\<close> and
  \<open>WeinbergSecondDerivative()\<close> of the base class return: the one-loop gradient and the
  flattened one-loop Hessian at the tree-level VEV, supplied from outside.
\<close>

definition HesseWeinberg :: "dbl list \<Rightarrow> nat \<Rightarrow> nat \<Rightarrow> dbl" where
  "HesseWeinberg WeinbergHesse i j = WeinbergHesse ! (j * NHiggs + i)"

definition calc_CT :: "Class_VDM \<Rightarrow> dbl list \<Rightarrow> dbl list \<Rightarrow> error + dbl list" where
  "calc_CT s WeinbergNabla WeinbergHesse =
     (if \<not> SetCurvatureDone s
      then Inl (runtime_error (''calc_CT was called before SetCurvatureArrays()!'' @ [CHR 0x0A]))
      else if \<not> CalcCouplingsdone s
      then Inl (runtime_error
                  (''calc_CT was called before CalculatePhysicalCouplings()!'' @ [CHR 0x0A]))
      else if length WeinbergNabla < NHiggs \<or> length WeinbergHesse < NHiggs * NHiggs
      then Inl out_of_range
      else
        let NablaWeinberg = (\<lambda>i. WeinbergNabla ! i);
            H = HesseWeinberg WeinbergHesse
        in Inr
          [(- H 2 2 * v s - H 2 4 * vs s + Fin 3 * H 3 3 * v s) / v s / Fin 2,
           (- H 2 2 + H 3 3) * pow_dbl (v s) (- 2) / Fin 2,
           - H 2 4 / v s / vs s,
           (- H 2 4 * v s - vs s * (H 4 4 - Fin 3 * H 5 5)) / vs s / Fin 2,
           (- H 4 4 + H 5 5) * pow_dbl (vs s) (- 2) / Fin 2,
           - NablaWeinberg 0,
           - NablaWeinberg 1,
           H 3 3 * v s - NablaWeinberg 2,
           - NablaWeinberg 3,
           H 5 5 * vs s - NablaWeinberg 4,
           - NablaWeinberg 5])"

subsection \<open>\<open>TripleHiggsCouplings\<close>\<close>

text \<open>
  Modelled from the spec: \<open>CalculatePhysicalCouplings\<close> of the base class is not among the
  sources. The spec's mass-matrix diagonalizer consumes the populated tensors and the VEV,
  produces the rotation matrix (and the field-basis triple couplings) and sets the
  "couplings diagonalized" gate. What it produces is the parameter \<open>ext\<close>; the tensors it
  produces have the extent \<open>NHiggs\<close>.
\<close>

record collaborator =
  rotation :: "Class_VDM \<Rightarrow> tensor2"
  triple_tree :: "Class_VDM \<Rightarrow> tensor3"
  triple_CT :: "Class_VDM \<Rightarrow> tensor3"
  WeinbergThirdDerivative :: "Class_VDM \<Rightarrow> dbl list"

definition CalculatePhysicalCouplings :: "collaborator \<Rightarrow> Class_VDM \<Rightarrow> Class_VDM" where
  "CalculatePhysicalCouplings ext s =
     s\<lparr>Couplings_extent := NHiggs,
       HiggsRotationMatrix := rotation ext s,
       LambdaHiggs_3 := triple_tree ext s,
       LambdaHiggs_3_CT := triple_CT ext s,
       CalcCouplingsdone := True\<rparr>"

text \<open>The six nested loops: \<open>T[i][j][k] = 0\<close>, then \<open>+=\<close> over \<open>l\<close>, \<open>m\<close>, \<open>n\<close>.\<close>

definition rotate3 :: "tensor2 \<Rightarrow> tensor3 \<Rightarrow> tensor3" where
  "rotate3 R B = (\<lambda>(i, j, k).
     if i < NHiggs \<and> j < NHiggs \<and> k < NHiggs
     then fold (\<lambda>l acc. fold (\<lambda>m acc'. fold (\<lambda>n acc''.
            acc'' + R (i, l) * R (j, m) * R (k, n) * B (l, m, n))
            [0..<NHiggs] acc') [0..<NHiggs] acc) [0..<NHiggs] (Fin 0)
     else Fin 0)"

definition TripleHiggsCouplings :: "collaborator \<Rightarrow> Class_VDM \<Rightarrow> error + Class_VDM" where
  "TripleHiggsCouplings ext s =
     (case (if \<not> SetCurvatureDone s then SetCurvatureArrays s else Inr s) of
        Inl e \<Rightarrow> Inl e
      | Inr s1 \<Rightarrow>
        let s2 = (if \<not> CalcCouplingsdone s1 then CalculatePhysicalCouplings ext s1 else s1);
            HiggsOrder = map (\<lambda>i. i) [0..<NHiggs];
            TripleDeriv = WeinbergThirdDerivative ext s2
        in if length TripleDeriv < NHiggs * NHiggs * NHiggs \<or> Couplings_extent s2 < NHiggs
           then Inl out_of_range
           else
             let GaugeBasis = (\<lambda>(i, j, k). TripleDeriv ! (i + j * NHiggs + k * NHiggs * NHiggs));
                 HiggsRotSort = (\<lambda>(i, j). HiggsRotationMatrix s2 (HiggsOrder ! i, j))
             in Inr (s2\<lparr>
                  TripleHiggsCorrectionsCWPhysical := rotate3 HiggsRotSort GaugeBasis,
                  TripleHiggsCorrectionsTreePhysical := rotate3 HiggsRotSort (LambdaHiggs_3 s2),
                  TripleHiggsCorrectionsCTPhysical :=
                    rotate3 HiggsRotSort (LambdaHiggs_3_CT s2)\<rparr>))"

subsection \<open>Construction and the order of the calls\<close>

text \<open>
  The object as the constructor leaves it: both gates unset and every vector empty, so
  the tensors have extent 0. The numeric members, which the constructor does not
  initialise, are set to zero; no theorem depends on their values.
\<close>

definition Class_VDM_new :: "ISMConstants \<Rightarrow> Class_VDM" where
  "Class_VDM_new smConstants = \<lparr>
     SMConstants = smConstants, UseIndexCol = False,
     SetCurvatureDone = False, CalcCouplingsdone = False,
     MH1 = Fin 0, MH2 = Fin 0, MX = Fin 0, alpha = Fin 0, v = Fin 0, vs = Fin 0, gX = Fin 0,
     lambdaH = Fin 0, lambdaS = Fin 0, kappa = Fin 0, muHSq = Fin 0, muSSq = Fin 0,
     scale = Fin 0,
     dmuHSq = Fin 0, dlambdaH = Fin 0, dkappa = Fin 0, dmuSSq = Fin 0, dlambdaS = Fin 0,
     dT1 = Fin 0, dT2 = Fin 0, dT3 = Fin 0, dT4 = Fin 0, dT5 = Fin 0, dT6 = Fin 0,
     vevTreeMin = [], vevTree = [], HiggsVev = [],
     Curvature_Higgs_extent = 0,
     Curvature_Higgs_L1 = (\<lambda>_. Fin 0), Curvature_Higgs_L2 = (\<lambda>_. Fin 0),
     Curvature_Higgs_L3 = (\<lambda>_. Fin 0), Curvature_Higgs_L4 = (\<lambda>_. Fin 0),
     Curvature_Higgs_CT_L1 = (\<lambda>_. Fin 0), Curvature_Higgs_CT_L2 = (\<lambda>_. Fin 0),
     Curvature_Higgs_CT_L3 = (\<lambda>_. Fin 0), Curvature_Higgs_CT_L4 = (\<lambda>_. Fin 0),
     Couplings_extent = 0,
     HiggsRotationMatrix = (\<lambda>_. Fin 0),
     LambdaHiggs_3 = (\<lambda>_. Fin 0), LambdaHiggs_3_CT = (\<lambda>_. Fin 0),
     TripleHiggsCorrectionsCWPhysical = (\<lambda>_. Fin 0),
     TripleHiggsCorrectionsTreePhysical = (\<lambda>_. Fin 0),
     TripleHiggsCorrectionsCTPhysical = (\<lambda>_. Fin 0)\<rparr>"

text \<open>A collaborator that returns zeros, for concrete runs.\<close>

definition zero_collaborator :: collaborator where
  "zero_collaborator = \<lparr>
     rotation = (\<lambda>_ _. Fin 0), triple_tree = (\<lambda>_ _. Fin 0), triple_CT = (\<lambda>_ _. Fin 0),
     WeinbergThirdDerivative = (\<lambda>_. replicate 216 (Fin 0))\<rparr>"

text \<open>Reading a component of a result, and running a call on the state of a result.\<close>

definition result_of :: "('a \<Rightarrow> 'b) \<Rightarrow> error + 'a \<Rightarrow> error + 'b" where
  "result_of f r = (case r of Inl e \<Rightarrow> Inl e | Inr x \<Rightarrow> Inr (f x))"

definition and_then :: "error + 'a \<Rightarrow> ('a \<Rightarrow> error + 'b) \<Rightarrow> error + 'b" where
  "and_then r f = (case r of Inl e \<Rightarrow> Inl e | Inr x \<Rightarrow> f x)"

text \<open>
  Modelled from the spec: the driver that calls the stages in order is in the base class,
  not among the sources. The spec's control flow is \<open>set_gen\<close> (which populates the
  curvature tensors), the external mass diagonalization, \<open>calc_CT\<close> on the externally
  supplied one-loop derivatives, then \<open>set_CT_Pot_Par\<close> on the vector \<open>calc_CT\<close> returned.
\<close>

definition init_CT ::
  "collaborator \<Rightarrow> Class_VDM \<Rightarrow> dbl list \<Rightarrow> dbl list \<Rightarrow> dbl list \<Rightarrow> error + Class_VDM" where
  "init_CT ext s par WeinbergNabla WeinbergHesse =
     and_then (set_gen s par) (\<lambda>s1.
       and_then (calc_CT (CalculatePhysicalCouplings ext s1) WeinbergNabla WeinbergHesse)
         (set_CT_Pot_Par (CalculatePhysicalCouplings ext s1)))"

section \<open>Derivatives of the potentials\<close>

text \<open>
  Modelled from the spec: the base class evaluates the potentials and their derivatives by
  contracting the curvature tensors; it is not among the sources. The spec fixes the
  convention \<open>V = \<Sum> (1/k!) T\<^sub>i\<^sub>1\<^sub>.\<^sub>.\<^sub>i\<^sub>k \<phi>\<^sub>i\<^sub>1 \<dots> \<phi>\<^sub>i\<^sub>k\<close> with index-symmetric tensors, each
  entry being the k-th partial derivative. The first and second derivatives of \<open>V\<close> at a
  field point are then the contractions below.
\<close>

definition sum_dbl :: "(nat \<Rightarrow> dbl) \<Rightarrow> dbl" where
  "sum_dbl f = fold (\<lambda>i acc. acc + f i) [0..<NHiggs] (Fin 0)"

definition Nabla ::
  "tensor1 \<Rightarrow> tensor2 \<Rightarrow> tensor3 \<Rightarrow> tensor4 \<Rightarrow> dbl list \<Rightarrow> nat \<Rightarrow> dbl" where
  "Nabla T1 T2 T3 T4 phi a =
     T1 a + sum_dbl (\<lambda>j. T2 (a, j) * phi ! j) +
     Fin (1 / 2) * sum_dbl (\<lambda>j. sum_dbl (\<lambda>k. T3 (a, j, k) * phi ! j * phi ! k)) +
     Fin (1 / 6) * sum_dbl (\<lambda>j. sum_dbl (\<lambda>k. sum_dbl (\<lambda>l.
        T4 (a, j, k, l) * phi ! j * phi ! k * phi ! l)))"

definition Hesse :: "tensor2 \<Rightarrow> tensor3 \<Rightarrow> tensor4 \<Rightarrow> dbl list \<Rightarrow> nat \<Rightarrow> nat \<Rightarrow> dbl" where
  "Hesse T2 T3 T4 phi a b =
     T2 (a, b) + sum_dbl (\<lambda>k. T3 (a, b, k) * phi ! k) +
     Fin (1 / 2) * sum_dbl (\<lambda>k. sum_dbl (\<lambda>l. T4 (a, b, k, l) * phi ! k * phi ! l))"

definition VTree_Hesse :: "Class_VDM \<Rightarrow> dbl list \<Rightarrow> nat \<Rightarrow> nat \<Rightarrow> dbl" where
  "VTree_Hesse s phi a b =
     Hesse (Curvature_Higgs_L2 s) (Curvature_Higgs_L3 s) (Curvature_Higgs_L4 s) phi a b"

definition VCounter_Nabla :: "Class_VDM \<Rightarrow> dbl list \<Rightarrow> nat \<Rightarrow> dbl" where
  "VCounter_Nabla s phi a =
     Nabla (Curvature_Higgs_CT_L1 s) (Curvature_Higgs_CT_L2 s) (Curvature_Higgs_CT_L3 s)
       (Curvature_Higgs_CT_L4 s) phi a"

definition VCounter_Hesse :: "Class_VDM \<Rightarrow> dbl list \<Rightarrow> nat \<Rightarrow> nat \<Rightarrow> dbl" where
  "VCounter_Hesse s phi a b =
     Hesse (Curvature_Higgs_CT_L2 s) (Curvature_Higgs_CT_L3 s) (Curvature_Higgs_CT_L4 s)
       phi a b"

text \<open>
  Modelled from the spec: the diagonalization of the mass matrix is done by an external
  library. For the symmetric block \<open>[[a, b], [b, d]]\<close> in the two VEV directions the two
  eigenvalues are written out; the masses are their square roots, the lighter first.
\<close>

definition the_Fin :: "dbl \<Rightarrow> real" where
  "the_Fin x = (case x of Fin a \<Rightarrow> a | _ \<Rightarrow> 0)"

definition eigenvalues2 :: "real \<Rightarrow> real \<Rightarrow> real \<Rightarrow> real \<times> real" where
  "eigenvalues2 a b d =
     ((a + d) / 2 - sqrt (((a - d) / 2)\<^sup>2 + b\<^sup>2), (a + d) / 2 + sqrt (((a - d) / 2)\<^sup>2 + b\<^sup>2))"

definition mass_block :: "Class_VDM \<Rightarrow> dbl \<times> dbl \<times> dbl" where
  "mass_block s =
     (VTree_Hesse s (vevTree s) 2 2, VTree_Hesse s (vevTree s) 2 4,
      VTree_Hesse s (vevTree s) 4 4)"

definition diag_masses :: "dbl \<times> dbl \<times> dbl \<Rightarrow> (real \<times> real) option" where
  "diag_masses M =
     (case M of
        (Fin a, Fin b, Fin d) \<Rightarrow>
          Some (sqrt (fst (eigenvalues2 a b d)), sqrt (snd (eigenvalues2 a b d)))
      | _ \<Rightarrow> None)"

definition within_rel :: "real \<Rightarrow> real \<Rightarrow> real \<Rightarrow> bool" where
  "within_rel tol x m = (\<bar>x - m\<bar> \<le> tol * \<bar>m\<bar>)"

definition round_trip :: "real \<Rightarrow> real \<Rightarrow> Class_VDM \<Rightarrow> bool" where
  "round_trip m1 m2 s =
     (case diag_masses (mass_block s) of
        Some (x1, x2) \<Rightarrow> within_rel (1 / 10 ^ 8) x1 m1 \<and> within_rel (1 / 10 ^ 8) x2 m2
      | None \<Rightarrow> False)"

section \<open>Index symmetry\<close>

definition symmetric4 :: "tensor4 \<Rightarrow> bool" where
  "symmetric4 T =
     (\<forall>i j k l i' j' k' l'.
        mset [i, j, k, l] = mset [i', j', k', l'] \<longrightarrow> T (i, j, k, l) = T (i', j', k', l'))"

section \<open>The counterterm parameters by name\<close>

text \<open>
  The eleven counterterm members, the name each has in the source, and the member itself.
\<close>

datatype ct_param =
  P_dmuHSq | P_dlambdaH | P_dkappa | P_dmuSSq | P_dlambdaS |
  P_dT1 | P_dT2 | P_dT3 | P_dT4 | P_dT5 | P_dT6

fun ct_name :: "ct_param \<Rightarrow> string" where
  "ct_name P_dmuHSq = ''dmuHSq''"
| "ct_name P_dlambdaH = ''dlambdaH''"
| "ct_name P_dkappa = ''dkappa''"
| "ct_name P_dmuSSq = ''dmuSSq''"
| "ct_name P_dlambdaS = ''dlambdaS''"
| "ct_name P_dT1 = ''dT1''"
| "ct_name P_dT2 = ''dT2''"
| "ct_name P_dT3 = ''dT3''"
| "ct_name P_dT4 = ''dT4''"
| "ct_name P_dT5 = ''dT5''"
| "ct_name P_dT6 = ''dT6''"

fun ct_member :: "ct_param \<Rightarrow> Class_VDM \<Rightarrow> dbl" where
  "ct_member P_dmuHSq = dmuHSq"
| "ct_member P_dlambdaH = dlambdaH"
| "ct_member P_dkappa = dkappa"
| "ct_member P_dmuSSq = dmuSSq"
| "ct_member P_dlambdaS = dlambdaS"
| "ct_member P_dT1 = dT1"
| "ct_member P_dT2 = dT2"
| "ct_member P_dT3 = dT3"
| "ct_member P_dT4 = dT4"
| "ct_member P_dT5 = dT5"
| "ct_member P_dT6 = dT6"

section \<open>What a record is read as\<close>

text \<open>
  The physical inputs as \<open>ReadAndSet\<close> leaves them: the two masses, the mixing angle, the
  electroweak VEV, the hidden-sector mass and the hidden-sector VEV. The masses, the angle
  and the hidden-sector mass are the members \<open>MH1\<close>, \<open>MH2\<close>, \<open>alpha\<close> and \<open>MX\<close>; the two VEVs
  are what \<open>ReadAndSet\<close> hands to \<open>set_gen\<close> in \<open>par[2]\<close> and \<open>par[3]\<close> (the members \<open>v\<close>
  and \<open>gX\<close> are overwritten by \<open>set_gen\<close>).
\<close>

definition fields_as_read :: "dbl list \<times> Class_VDM \<Rightarrow> dbl \<times> dbl \<times> dbl \<times> dbl \<times> dbl \<times> dbl" where
  "fields_as_read r = (case r of (par, s) \<Rightarrow> (MH1 s, MH2 s, alpha s, par ! 2, MX s, par ! 3))"

section \<open>The tadpole sum\<close>

text \<open>
  The sum of the tree-level rank-1 entry, the counterterm rank-1 entry and the one-loop
  gradient component in the field direction \<open>i\<close>.
\<close>

definition tadpole_sum :: "dbl list \<Rightarrow> nat \<Rightarrow> Class_VDM \<Rightarrow> dbl" where
  "tadpole_sum WeinbergNabla i s =
     Curvature_Higgs_L1 s i + Curvature_Higgs_CT_L1 s i + WeinbergNabla ! i"

section \<open>Basic facts\<close>

lemma Fin_minus [simp]: "Fin a - Fin b = Fin (a - b)"
  by (simp add: minus_dbl_def)

lemma NaN_absorbs [simp]:
  "x + NaN = NaN" "NaN + x = NaN" "x * NaN = NaN" "NaN * x = NaN"
  "x / NaN = NaN" "NaN / x = NaN" "x - NaN = NaN" "NaN - x = NaN"
  by (cases x; simp add: minus_dbl_def)+

lemma the_Fin_Fin [simp]: "the_Fin (Fin a) = a"
  by (simp add: the_Fin_def)

lemma is_Fin_simps [simp]: "is_Fin (Fin a)" "\<not> is_Fin PInf" "\<not> is_Fin NInf" "\<not> is_Fin NaN"
  by (simp_all add: is_Fin_def)

lemma is_Fin_conv: "is_Fin x \<Longrightarrow> x = Fin (the_Fin x)"
  by (cases x) simp_all

lemma NHiggs_eq: "NHiggs = 6"
  by (simp add: NHiggs_def NNeutralHiggs_def NChargedHiggs_def)

lemma upt_NHiggs: "[0..<NHiggs] = [0, 1, 2, 3, 4, 5]"
  by (simp add: NHiggs_eq upt_rec)

lemma MinimizeOrderVEV_pair:
  "MinimizeOrderVEV [a, b] = [Fin 0, Fin 0, a, Fin 0, b, Fin 0]"
  by (simp add: MinimizeOrderVEV_def VevOrder_def nVEV_def NHiggs_eq upt_rec
      eval_nat_numeral)

lemma result_of_simps [simp]:
  "result_of f (Inl e) = Inl e" "result_of f (Inr x) = Inr (f x)"
  by (simp_all add: result_of_def)

lemma and_then_simps [simp]:
  "and_then (Inl e) f = Inl e" "and_then (Inr x) f = f x"
  by (simp_all add: and_then_def)

subsection \<open>Runs of assignments\<close>

lemma assign_Nil [simp]: "assign [] T = T"
  by (simp add: assign_def)

lemma assign_Cons [simp]: "assign ((k, x) # es) T = assign es (T(k := x))"
  by (simp add: assign_def)

lemma assign_lookup_distinct:
  assumes "distinct (map fst es)"
  shows "assign es T k = (case map_of es k of Some x \<Rightarrow> x | None \<Rightarrow> T k)"
  using assms
proof (induction es arbitrary: T)
  case Nil
  then show ?case by simp
next
  case (Cons e es)
  obtain k' x where e: "e = (k', x)" by (cases e)
  from Cons.prems have d: "distinct (map fst es)" and n: "k' \<notin> fst ` set es"
    by (auto simp: e)
  have "map_of es k' = None" using n by (simp add: map_of_eq_None_iff)
  then show ?case
    unfolding e assign_Cons Cons.IH[OF d]
    by (auto split: option.splits)
qed

lemma L2_distinct: "distinct (map fst (Higgs_L2_entries a b))"
  unfolding Higgs_L2_entries_def by simp

lemma L4_distinct: "distinct (map fst (Higgs_L4_entries a b c))"
  unfolding Higgs_L4_entries_def by simp

lemma CT_L4_distinct: "distinct (map fst (Higgs_CT_L4_entries a b c))"
  unfolding Higgs_CT_L4_entries_def by simp

subsection \<open>What \<open>SetCurvatureArrays\<close> and \<open>set_gen\<close> leave in the state\<close>

lemma SetCurvatureArrays_Inr:
  "NHiggs \<le> length (vevTree s) \<Longrightarrow> \<exists>s'. SetCurvatureArrays s = Inr s'"
  by (simp add: SetCurvatureArrays_def Let_def initVectors_def)

lemma SetCurvatureArrays_fields:
  assumes "SetCurvatureArrays s = Inr s'"
  shows "SetCurvatureDone s'"
    and "CalcCouplingsdone s' = CalcCouplingsdone s"
    and "v s' = v s" and "vs s' = vs s"
    and "lambdaH s' = lambdaH s" and "kappa s' = kappa s" and "lambdaS s' = lambdaS s"
    and "muHSq s' = muHSq s" and "muSSq s' = muSSq s"
    and "vevTree s' = vevTree s"
    and "SMConstants s' = SMConstants s"
    and "HiggsVev s' = map (\<lambda>i. vevTree s ! i) [0..<NHiggs]"
    and "Curvature_Higgs_L1 s' = (\<lambda>_. Fin 0)"
    and "Curvature_Higgs_L2 s' = assign (Higgs_L2_entries (muHSq s) (muSSq s)) (\<lambda>_. Fin 0)"
    and "Curvature_Higgs_L3 s' = (\<lambda>_. Fin 0)"
    and "Curvature_Higgs_L4 s' =
           assign (Higgs_L4_entries (lambdaH s) (kappa s) (lambdaS s)) (\<lambda>_. Fin 0)"
    and "Curvature_Higgs_CT_L1 s' = (\<lambda>_. Fin 0)"
    and "Curvature_Higgs_CT_L2 s' = (\<lambda>_. Fin 0)"
    and "Curvature_Higgs_CT_L3 s' = (\<lambda>_. Fin 0)"
    and "Curvature_Higgs_CT_L4 s' = (\<lambda>_. Fin 0)"
    and "Curvature_Higgs_extent s' = NHiggs"
    and "Couplings_extent s' = Couplings_extent s"
  using assms
  by (auto simp: SetCurvatureArrays_def Let_def initVectors_def split: if_splits)

lemma set_gen_Inr: "6 \<le> length par \<Longrightarrow> \<exists>s'. set_gen s par = Inr s'"
  by (simp add: set_gen_def Let_def SetCurvatureArrays_def initVectors_def
      MinimizeOrderVEV_pair NHiggs_eq)

lemma set_gen_fields:
  assumes "set_gen s par = Inr s'"
  shows "6 \<le> length par"
    and "SMConstants s' = SMConstants s"
    and "v s' = C_vev0 (SMConstants s)"
    and "vs s' = par ! 3"
    and "lambdaH s' =
           (par ! 0 * par ! 0 * cos_dbl (par ! 4) * cos_dbl (par ! 4) +
            par ! 1 * par ! 1 * sin_dbl (par ! 4) * sin_dbl (par ! 4)) /
           (Fin 2 * par ! 2 * par ! 2)"
    and "kappa s' =
           (par ! 0 * par ! 0 - par ! 1 * par ! 1) * sin_dbl (par ! 4) * cos_dbl (par ! 4) /
           (par ! 2 * par ! 3)"
    and "lambdaS s' =
           (par ! 1 * par ! 1 * cos_dbl (par ! 4) * cos_dbl (par ! 4) +
            par ! 0 * par ! 0 * sin_dbl (par ! 4) * sin_dbl (par ! 4)) /
           (Fin 2 * par ! 3 * par ! 3)"
    and "gX s' = par ! 5 / par ! 3"
    and "muHSq s' = vs s' * vs s' * kappa s' / Fin 2 + v s' * v s' * lambdaH s'"
    and "muSSq s' = kappa s' * v s' * v s' / Fin 2 + lambdaS s' * vs s' * vs s'"
    and "scale s' = v s'"
    and "vevTreeMin s' = [v s', vs s']"
    and "vevTree s' = [Fin 0, Fin 0, v s', Fin 0, vs s', Fin 0]"
    and "MH1 s' = MH1 s" and "MH2 s' = MH2 s" and "MX s' = MX s" and "alpha s' = alpha s"
    and "CalcCouplingsdone s' = CalcCouplingsdone s"
    and "SetCurvatureDone s'"
    and "Couplings_extent s' = Couplings_extent s"
  using assms
  by (auto simp: set_gen_def Let_def SetCurvatureArrays_def initVectors_def
      MinimizeOrderVEV_pair NHiggs_eq split: if_splits)

lemma set_gen_tensors:
  assumes "set_gen s par = Inr s'" and "\<not> SetCurvatureDone s"
  shows "HiggsVev s' = vevTree s'"
    and "Curvature_Higgs_L1 s' = (\<lambda>_. Fin 0)"
    and "Curvature_Higgs_L2 s' = assign (Higgs_L2_entries (muHSq s') (muSSq s')) (\<lambda>_. Fin 0)"
    and "Curvature_Higgs_L3 s' = (\<lambda>_. Fin 0)"
    and "Curvature_Higgs_L4 s' =
           assign (Higgs_L4_entries (lambdaH s') (kappa s') (lambdaS s')) (\<lambda>_. Fin 0)"
    and "Curvature_Higgs_CT_L1 s' = (\<lambda>_. Fin 0)"
    and "Curvature_Higgs_CT_L2 s' = (\<lambda>_. Fin 0)"
    and "Curvature_Higgs_CT_L3 s' = (\<lambda>_. Fin 0)"
    and "Curvature_Higgs_CT_L4 s' = (\<lambda>_. Fin 0)"
    and "Curvature_Higgs_extent s' = NHiggs"
  using assms
  by (auto simp: set_gen_def Let_def SetCurvatureArrays_def initVectors_def
      MinimizeOrderVEV_pair upt_NHiggs split: if_splits)

subsection \<open>What \<open>ReadAndSet\<close> reads\<close>

lemma length6E:
  assumes "6 \<le> length xs"
  obtains a b c d e f rest where "xs = a # b # c # d # e # f # rest"
proof -
  from assms obtain a x1 where 1: "xs = a # x1" "5 \<le> length x1" by (cases xs) auto
  from 1 obtain b x2 where 2: "x1 = b # x2" "4 \<le> length x2" by (cases x1) auto
  from 2 obtain c x3 where 3: "x2 = c # x3" "3 \<le> length x3" by (cases x2) auto
  from 3 obtain d x4 where 4: "x3 = d # x4" "2 \<le> length x4" by (cases x3) auto
  from 4 obtain e x5 where 5: "x4 = e # x5" "1 \<le> length x5" by (cases x4) auto
  from 5 obtain f x6 where 6: "x5 = f # x6" by (cases x5) auto
  show ?thesis using that 1 2 3 4 5 6 by simp
qed

lemma par_update:
  assumes "6 \<le> length par"
  shows "par[0 := x0, 1 := x1, 2 := x2, 3 := x3, 4 := x4, 5 := x5] =
    x0 # x1 # x2 # x3 # x4 # x5 # drop 6 par"
proof -
  from assms obtain a b c d e f rest where "par = a # b # c # d # e # f # rest"
    by (rule length6E)
  then show ?thesis by (simp add: eval_nat_numeral)
qed

lemma upt_1_7: "[1..<7] = [1, 2, 3, 4, 5, 6]"
  by (simp add: upt_rec)

lemma read_six:
  "fold read_step [1..<7]
     (\<lparr>tokens = Num a # Num b # Num c # Num d # Num e # Num f # rest, failbit = False\<rparr>,
      tmp0, s) =
   (\<lparr>tokens = rest, failbit = False\<rparr>, Fin f,
    s\<lparr>MH1 := Fin a, MH2 := Fin b, MX := Fin c, alpha := Fin d, v := Fin e, gX := Fin f\<rparr>)"
  unfolding upt_1_7
  by (simp add: read_step_def stream_extract_def store_field_def)

lemma ReadAndSet_Inr:
  assumes "6 \<le> length par"
  shows "\<exists>par' s'. ReadAndSet s tmp0 linestr par = Inr (par', s')"
proof -
  define s1 where "s1 =
    snd (snd (fold read_step [1..<7]
          (if UseIndexCol s
           then (case stream_extract \<lparr>tokens = linestr, failbit = False\<rparr> tmp0 of
                   (ss', tmp') \<Rightarrow> (ss', tmp', s))
           else (\<lparr>tokens = linestr, failbit = False\<rparr>, tmp0, s))))"
  define par' where "par' = par[0 := MH1 s1, 1 := MH2 s1, 2 := v s1, 3 := MX s1 / gX s1,
                          4 := alpha s1, 5 := MX s1]"
  have "6 \<le> length par'" using assms by (simp add: par'_def)
  then obtain s3 where "set_gen (s1\<lparr>vs := MX s1 / gX s1\<rparr>) par' = Inr s3"
    using set_gen_Inr by blast
  then have "ReadAndSet s tmp0 linestr par = Inr (par', s3)"
    using assms unfolding ReadAndSet_def Let_def s1_def[symmetric] par'_def[symmetric]
    by simp
  then show ?thesis by blast
qed

lemma ReadAndSet_six:
  assumes "6 \<le> length par" and "\<not> UseIndexCol s"
  shows "ReadAndSet s tmp0 (Num a # Num b # Num c # Num d # Num e # Num f # rest) par =
    result_of (Pair (Fin a # Fin b # Fin e # Fin c / Fin f # Fin d # Fin c # drop 6 par))
      (set_gen (s\<lparr>MH1 := Fin a, MH2 := Fin b, MX := Fin c, alpha := Fin d, v := Fin e,
                   gX := Fin f, vs := Fin c / Fin f\<rparr>)
         (Fin a # Fin b # Fin e # Fin c / Fin f # Fin d # Fin c # drop 6 par))"
proof -
  have l: "\<not> length par < 6" using assms(1) by simp
  show ?thesis
    unfolding ReadAndSet_def Let_def if_not_P[OF assms(2)] read_six snd_conv if_not_P[OF l]
      par_update[OF assms(1)]
    by (simp add: result_of_def del: divide_dbl.simps split: sum.splits)
qed

lemma ReadAndSet_six_index:
  assumes "6 \<le> length par" and "UseIndexCol s"
  shows "ReadAndSet s tmp0 (Num ix # Num a # Num b # Num c # Num d # Num e # Num f # rest) par =
    result_of (Pair (Fin a # Fin b # Fin e # Fin c / Fin f # Fin d # Fin c # drop 6 par))
      (set_gen (s\<lparr>MH1 := Fin a, MH2 := Fin b, MX := Fin c, alpha := Fin d, v := Fin e,
                   gX := Fin f, vs := Fin c / Fin f\<rparr>)
         (Fin a # Fin b # Fin e # Fin c / Fin f # Fin d # Fin c # drop 6 par))"
proof -
  have l: "\<not> length par < 6" using assms(1) by simp
  have x: "stream_extract
      \<lparr>tokens = Num ix # Num a # Num b # Num c # Num d # Num e # Num f # rest,
        failbit = False\<rparr> tmp0 =
    (\<lparr>tokens = Num a # Num b # Num c # Num d # Num e # Num f # rest, failbit = False\<rparr>,
     Fin ix)"
    by (simp add: stream_extract_def)
  show ?thesis
    unfolding ReadAndSet_def Let_def if_P[OF assms(2)] x prod.case read_six snd_conv
      if_not_P[OF l] par_update[OF assms(1)]
    by (simp add: result_of_def del: divide_dbl.simps split: sum.splits)
qed

subsection \<open>What \<open>set_CT_Pot_Par\<close> and the diagonalization leave in the state\<close>

lemma set_CT_Pot_Par_Inr:
  assumes "11 \<le> length par" and "NHiggs \<le> Curvature_Higgs_extent s"
  shows "\<exists>s'. set_CT_Pot_Par s par = Inr s'"
  using assms by (simp add: set_CT_Pot_Par_def Let_def)

lemma set_CT_Pot_Par_unsized:
  "Curvature_Higgs_extent s < NHiggs \<Longrightarrow> set_CT_Pot_Par s par = Inl out_of_range"
  by (simp add: set_CT_Pot_Par_def)

lemma set_CT_Pot_Par_fields:
  assumes "set_CT_Pot_Par s par = Inr s'"
  shows "11 \<le> length par"
    and "Curvature_Higgs_CT_L1 s' =
           assign [(0, par ! 5), (1, par ! 6), (2, par ! 7), (3, par ! 8), (4, par ! 9),
                   (5, par ! 10)] (Curvature_Higgs_CT_L1 s)"
    and "Curvature_Higgs_CT_L2 s' =
           assign (Higgs_L2_entries (par ! 0) (par ! 3)) (Curvature_Higgs_CT_L2 s)"
    and "Curvature_Higgs_CT_L3 s' = Curvature_Higgs_CT_L3 s"
    and "Curvature_Higgs_CT_L4 s' =
           assign (Higgs_CT_L4_entries (par ! 1) (par ! 2) (par ! 4)) (Curvature_Higgs_CT_L4 s)"
    and "Curvature_Higgs_L1 s' = Curvature_Higgs_L1 s"
    and "Curvature_Higgs_L2 s' = Curvature_Higgs_L2 s"
    and "Curvature_Higgs_L3 s' = Curvature_Higgs_L3 s"
    and "Curvature_Higgs_L4 s' = Curvature_Higgs_L4 s"
    and "vevTree s' = vevTree s" and "v s' = v s" and "vs s' = vs s"
    and "SetCurvatureDone s' = SetCurvatureDone s"
    and "CalcCouplingsdone s' = CalcCouplingsdone s"
    and "Curvature_Higgs_extent s' = Curvature_Higgs_extent s"
    and "NHiggs \<le> Curvature_Higgs_extent s"
  using assms
  by (auto simp: set_CT_Pot_Par_def Let_def split: if_splits)

lemma CalculatePhysicalCouplings_fields:
  "Curvature_Higgs_L1 (CalculatePhysicalCouplings ext s) = Curvature_Higgs_L1 s"
  "Curvature_Higgs_L2 (CalculatePhysicalCouplings ext s) = Curvature_Higgs_L2 s"
  "Curvature_Higgs_L3 (CalculatePhysicalCouplings ext s) = Curvature_Higgs_L3 s"
  "Curvature_Higgs_L4 (CalculatePhysicalCouplings ext s) = Curvature_Higgs_L4 s"
  "Curvature_Higgs_CT_L1 (CalculatePhysicalCouplings ext s) = Curvature_Higgs_CT_L1 s"
  "Curvature_Higgs_CT_L2 (CalculatePhysicalCouplings ext s) = Curvature_Higgs_CT_L2 s"
  "Curvature_Higgs_CT_L3 (CalculatePhysicalCouplings ext s) = Curvature_Higgs_CT_L3 s"
  "Curvature_Higgs_CT_L4 (CalculatePhysicalCouplings ext s) = Curvature_Higgs_CT_L4 s"
  "vevTree (CalculatePhysicalCouplings ext s) = vevTree s"
  "v (CalculatePhysicalCouplings ext s) = v s"
  "vs (CalculatePhysicalCouplings ext s) = vs s"
  "SetCurvatureDone (CalculatePhysicalCouplings ext s) = SetCurvatureDone s"
  "CalcCouplingsdone (CalculatePhysicalCouplings ext s)"
  "Curvature_Higgs_extent (CalculatePhysicalCouplings ext s) = Curvature_Higgs_extent s"
  "Couplings_extent (CalculatePhysicalCouplings ext s) = NHiggs"
  by (simp_all add: CalculatePhysicalCouplings_def)

lemma ReadAndSet_fields:
  assumes "6 \<le> length par"
  shows "result_of fields_as_read
           (ReadAndSet s tmp0
              ((if UseIndexCol s then [Num ix] else []) @
               [Num a, Num b, Num c, Num d, Num e, Num f]) par) =
         Inr (Fin a, Fin b, Fin d, Fin e, Fin c, Fin c / Fin f)"
proof -
  let ?par = "Fin a # Fin b # Fin e # Fin c / Fin f # Fin d # Fin c # drop 6 par"
  let ?s = "s\<lparr>MH1 := Fin a, MH2 := Fin b, MX := Fin c, alpha := Fin d, v := Fin e,
               gX := Fin f, vs := Fin c / Fin f\<rparr>"
  have "6 \<le> length ?par" by simp
  then obtain s' where s': "set_gen ?s ?par = Inr s'" using set_gen_Inr by blast
  have R: "ReadAndSet s tmp0
      ((if UseIndexCol s then [Num ix] else []) @ [Num a, Num b, Num c, Num d, Num e, Num f])
      par = Inr (?par, s')"
  proof (cases "UseIndexCol s")
    case True
    then show ?thesis
      using ReadAndSet_six_index[OF assms True, of tmp0 ix a b c d e f "[]"] s' by simp
  next
    case False
    then show ?thesis
      using ReadAndSet_six[OF assms False, of tmp0 a b c d e f "[]"] s' by simp
  qed
  show ?thesis
    unfolding R using set_gen_fields(14-17)[OF s']
    by (simp add: fields_as_read_def del: divide_dbl.simps)
qed

section \<open>The order of the input fields\<close>

text \<open>
  C7 (as the code has it). \<open>ReadAndSet\<close> skips one leading token when \<open>UseIndexCol\<close> is set
  and then reads six numbers in the order: first mass, second mass, hidden-sector mass
  \<open>MX\<close>, mixing angle, electroweak VEV, gauge coupling. The hidden-sector mass is the third
  field, not the fifth, and the angle and the electroweak VEV are the fourth and fifth.
\<close>

theorem ReadAndSet_field_order:
  assumes "6 \<le> length par"
  shows "result_of fields_as_read
           (ReadAndSet s tmp0
              ((if UseIndexCol s then [Num ix] else []) @
               [Num m1, Num m2, Num mx, Num ang, Num vew, Num g]) par) =
         Inr (Fin m1, Fin m2, Fin ang, Fin vew, Fin mx, Fin mx / Fin g)"
  using assms by (rule ReadAndSet_fields)

theorem ReadAndSet_field_order_witness:
  "(6::nat) \<le> length (replicate 6 (Fin 0)) \<and>
   result_of fields_as_read
     (ReadAndSet (Class_VDM_new \<lparr>C_vev0 = Fin 246\<rparr>) (Fin 0)
        [Num 95, Num 650, Num 1000, Num (3 / 10), Num 246, Num 1] (replicate 6 (Fin 0))) =
   Inr (Fin 95, Fin 650, Fin (3 / 10), Fin 246, Fin 1000, Fin 1000)"
proof -
  have h: "(6::nat) \<le> length (replicate 6 (Fin 0))" by simp
  have u: "\<not> UseIndexCol (Class_VDM_new \<lparr>C_vev0 = Fin 246\<rparr>)"
    by (simp add: Class_VDM_new_def)
  show ?thesis
    using h u ReadAndSet_field_order[OF h, of "Class_VDM_new \<lparr>C_vev0 = Fin 246\<rparr>" "Fin 0"
        0 95 650 1000 "3 / 10" 246 1]
    by simp
qed

text \<open>
  The claim as stated, at the record written in the order the spec gives (masses, angle,
  electroweak VEV, hidden-sector mass, gauge coupling): the code takes 0.3 for the
  hidden-sector mass, 246 for the angle and 1000 for the electroweak VEV.
\<close>

theorem ReadAndSet_spec_order_counterexample:
  "result_of fields_as_read
     (ReadAndSet (Class_VDM_new \<lparr>C_vev0 = Fin 246\<rparr>) (Fin 0)
        [Num 95, Num 650, Num (3 / 10), Num 246, Num 1000, Num 1] (replicate 6 (Fin 0))) =
   Inr (Fin 95, Fin 650, Fin 246, Fin 1000, Fin (3 / 10), Fin (3 / 10)) \<and>
   result_of fields_as_read
     (ReadAndSet (Class_VDM_new \<lparr>C_vev0 = Fin 246\<rparr>) (Fin 0)
        [Num 95, Num 650, Num (3 / 10), Num 246, Num 1000, Num 1] (replicate 6 (Fin 0))) \<noteq>
   Inr (Fin 95, Fin 650, Fin (3 / 10), Fin 246, Fin 1000, Fin 1000)"
proof -
  have h: "(6::nat) \<le> length (replicate 6 (Fin 0))" by simp
  have u: "\<not> UseIndexCol (Class_VDM_new \<lparr>C_vev0 = Fin 246\<rparr>)"
    by (simp add: Class_VDM_new_def)
  show ?thesis
    using u ReadAndSet_fields[OF h, of "Class_VDM_new \<lparr>C_vev0 = Fin 246\<rparr>" "Fin 0"
        0 95 650 "3 / 10" 246 1000 1]
    by simp
qed

section \<open>The electroweak VEV in \<open>set_gen\<close>\<close>

text \<open>
  C10. For every parameter vector, \<open>set_gen\<close> overwrites the member \<open>v\<close> with the constant
  \<open>C_vev0\<close>; \<open>muHSq\<close>, \<open>muSSq\<close> and the tree-level VEV configuration are computed from that
  value, while \<open>lambdaH\<close> and \<open>kappa\<close> are computed from the electroweak VEV of the input
  record, \<open>par[2]\<close>. The value \<open>v\<close> holds afterwards is the input's exactly when the input
  equals \<open>C_vev0\<close>. For a record of six numbers \<open>par[2]\<close> is the fifth field.
\<close>

theorem set_gen_overwrites_v:
  assumes "6 \<le> length par"
  shows "(\<exists>s'. set_gen s par = Inr s' \<and>
           v s' = C_vev0 (SMConstants s) \<and>
           lambdaH s' =
             (par ! 0 * par ! 0 * cos_dbl (par ! 4) * cos_dbl (par ! 4) +
              par ! 1 * par ! 1 * sin_dbl (par ! 4) * sin_dbl (par ! 4)) /
             (Fin 2 * par ! 2 * par ! 2) \<and>
           kappa s' =
             (par ! 0 * par ! 0 - par ! 1 * par ! 1) * sin_dbl (par ! 4) * cos_dbl (par ! 4) /
             (par ! 2 * par ! 3) \<and>
           muHSq s' =
             par ! 3 * par ! 3 * kappa s' / Fin 2 +
             C_vev0 (SMConstants s) * C_vev0 (SMConstants s) * lambdaH s' \<and>
           muSSq s' =
             kappa s' * C_vev0 (SMConstants s) * C_vev0 (SMConstants s) / Fin 2 +
             lambdaS s' * par ! 3 * par ! 3 \<and>
           vevTree s' = [Fin 0, Fin 0, C_vev0 (SMConstants s), Fin 0, par ! 3, Fin 0] \<and>
           (v s' = par ! 2) = (C_vev0 (SMConstants s) = par ! 2)) \<and>
         (\<not> UseIndexCol s \<longrightarrow>
          (\<exists>par' s'. ReadAndSet s tmp0 [Num a, Num b, Num c, Num d, Num e, Num f] par =
                      Inr (par', s') \<and>
                    par' ! 2 = Fin e \<and> set_gen (s\<lparr>MH1 := Fin a, MH2 := Fin b, MX := Fin c,
                      alpha := Fin d, v := Fin e, gX := Fin f, vs := Fin c / Fin f\<rparr>) par' =
                      Inr s' \<and>
                    v s' = C_vev0 (SMConstants s)))"
proof (intro conjI impI)
  from assms obtain s' where s': "set_gen s par = Inr s'" using set_gen_Inr by blast
  show "\<exists>s'. set_gen s par = Inr s' \<and>
           v s' = C_vev0 (SMConstants s) \<and>
           lambdaH s' =
             (par ! 0 * par ! 0 * cos_dbl (par ! 4) * cos_dbl (par ! 4) +
              par ! 1 * par ! 1 * sin_dbl (par ! 4) * sin_dbl (par ! 4)) /
             (Fin 2 * par ! 2 * par ! 2) \<and>
           kappa s' =
             (par ! 0 * par ! 0 - par ! 1 * par ! 1) * sin_dbl (par ! 4) * cos_dbl (par ! 4) /
             (par ! 2 * par ! 3) \<and>
           muHSq s' =
             par ! 3 * par ! 3 * kappa s' / Fin 2 +
             C_vev0 (SMConstants s) * C_vev0 (SMConstants s) * lambdaH s' \<and>
           muSSq s' =
             kappa s' * C_vev0 (SMConstants s) * C_vev0 (SMConstants s) / Fin 2 +
             lambdaS s' * par ! 3 * par ! 3 \<and>
           vevTree s' = [Fin 0, Fin 0, C_vev0 (SMConstants s), Fin 0, par ! 3, Fin 0] \<and>
           (v s' = par ! 2) = (C_vev0 (SMConstants s) = par ! 2)"
    using s' set_gen_fields(3-6)[OF s'] set_gen_fields(9,10,13)[OF s'] by simp
next
  assume u: "\<not> UseIndexCol s"
  let ?par = "Fin a # Fin b # Fin e # Fin c / Fin f # Fin d # Fin c # drop 6 par"
  let ?s = "s\<lparr>MH1 := Fin a, MH2 := Fin b, MX := Fin c, alpha := Fin d, v := Fin e,
               gX := Fin f, vs := Fin c / Fin f\<rparr>"
  have "6 \<le> length ?par" by simp
  then obtain s' where s': "set_gen ?s ?par = Inr s'" using set_gen_Inr by blast
  have "ReadAndSet s tmp0 [Num a, Num b, Num c, Num d, Num e, Num f] par = Inr (?par, s')"
    using ReadAndSet_six[OF assms u, of tmp0 a b c d e f "[]"] s' by simp
  moreover have "v s' = C_vev0 (SMConstants s)" using set_gen_fields(3)[OF s'] by simp
  ultimately show "\<exists>par' s'. ReadAndSet s tmp0 [Num a, Num b, Num c, Num d, Num e, Num f] par =
                      Inr (par', s') \<and>
                    par' ! 2 = Fin e \<and> set_gen (s\<lparr>MH1 := Fin a, MH2 := Fin b, MX := Fin c,
                      alpha := Fin d, v := Fin e, gX := Fin f, vs := Fin c / Fin f\<rparr>) par' =
                      Inr s' \<and>
                    v s' = C_vev0 (SMConstants s)"
    using s' by simp
qed

theorem set_gen_overwrites_v_witness:
  "(6::nat) \<le> length [Fin 95, Fin 650, Fin 246, Fin 1000, Fin (3 / 10), Fin 1000] \<and>
   \<not> UseIndexCol (Class_VDM_new \<lparr>C_vev0 = Fin (24622 / 100)\<rparr>) \<and>
   (\<exists>s'. set_gen (Class_VDM_new \<lparr>C_vev0 = Fin (24622 / 100)\<rparr>)
            [Fin 95, Fin 650, Fin 246, Fin 1000, Fin (3 / 10), Fin 1000] = Inr s' \<and>
          v s' = Fin (24622 / 100) \<and>
          vevTree s' = [Fin 0, Fin 0, Fin (24622 / 100), Fin 0, Fin 1000, Fin 0] \<and>
          v s' \<noteq> Fin 246)"
proof -
  have h: "(6::nat) \<le> length [Fin 95, Fin 650, Fin 246, Fin 1000, Fin (3 / 10), Fin 1000]"
    by simp
  have u: "\<not> UseIndexCol (Class_VDM_new \<lparr>C_vev0 = Fin (24622 / 100)\<rparr>)"
    by (simp add: Class_VDM_new_def)
  have c: "C_vev0 (SMConstants (Class_VDM_new \<lparr>C_vev0 = Fin (24622 / 100)\<rparr>)) =
    Fin (24622 / 100)"
    by (simp add: Class_VDM_new_def)
  let ?S = "Class_VDM_new \<lparr>C_vev0 = Fin (24622 / 100)\<rparr>"
  let ?P = "[Fin 95, Fin 650, Fin 246, Fin 1000, Fin (3 / 10), Fin 1000]"
  from set_gen_overwrites_v[OF h, of ?S, THEN conjunct1]
  obtain s' where 1: "set_gen ?S ?P = Inr s'"
    and 2: "v s' = C_vev0 (SMConstants ?S)"
    and 3: "vevTree s' = [Fin 0, Fin 0, C_vev0 (SMConstants ?S), Fin 0, ?P ! 3, Fin 0]"
    by blast
  have "set_gen ?S ?P = Inr s' \<and> v s' = Fin (24622 / 100) \<and>
    vevTree s' = [Fin 0, Fin 0, Fin (24622 / 100), Fin 0, Fin 1000, Fin 0] \<and>
    v s' \<noteq> Fin 246"
    using 1 2 3 unfolding c by simp
  then show ?thesis using h u by blast
qed

section \<open>Malformed records\<close>

lemma ReadAndSet_cong:
  assumes "\<not> UseIndexCol s"
    and "snd (snd (fold read_step [1..<7] (\<lparr>tokens = l1, failbit = False\<rparr>, tmp0, s))) =
         snd (snd (fold read_step [1..<7] (\<lparr>tokens = l2, failbit = False\<rparr>, tmp0, s)))"
  shows "ReadAndSet s tmp0 l1 par = ReadAndSet s tmp0 l2 par"
  unfolding ReadAndSet_def Let_def if_not_P[OF assms(1)] assms(2) ..

lemma short_lists:
  assumes "length (xs :: 'a list) < 6"
  shows "xs = [] \<or> (\<exists>a. xs = [a]) \<or> (\<exists>a b. xs = [a, b]) \<or> (\<exists>a b c. xs = [a, b, c]) \<or>
    (\<exists>a b c d. xs = [a, b, c, d]) \<or> (\<exists>a b c d e. xs = [a, b, c, d, e])"
proof -
  have "length xs = 0 \<or> length xs = Suc 0 \<or> length xs = Suc (Suc 0) \<or>
    length xs = Suc (Suc (Suc 0)) \<or> length xs = Suc (Suc (Suc (Suc 0))) \<or>
    length xs = Suc (Suc (Suc (Suc (Suc 0))))"
    using assms by arith
  then show ?thesis by (auto simp: length_Suc_conv)
qed

lemma read_short:
  assumes "xs \<noteq> []" and "length xs < 6"
  shows "snd (snd (fold read_step [1..<7]
             (\<lparr>tokens = map Num xs, failbit = False\<rparr>, tmp0, s))) =
         snd (snd (fold read_step [1..<7]
             (\<lparr>tokens = map Num (xs @ replicate (6 - length xs) (last xs)), failbit = False\<rparr>,
              tmp0, s)))"
  using short_lists[OF assms(2)] assms(1) unfolding upt_1_7
  by (auto simp: read_step_def stream_extract_def store_field_def eval_nat_numeral)

lemma read_junk:
  assumes "length xs < 6"
  shows "snd (snd (fold read_step [1..<7]
             (\<lparr>tokens = map Num xs @ NotNum # rest, failbit = False\<rparr>, tmp0, s))) =
         snd (snd (fold read_step [1..<7]
             (\<lparr>tokens = map Num (xs @ replicate (6 - length xs) 0), failbit = False\<rparr>,
              tmp0, s)))"
  using short_lists[OF assms] unfolding upt_1_7
  by (auto simp: read_step_def stream_extract_def store_field_def eval_nat_numeral)

text \<open>
  C8 (as the code has it). \<open>ReadAndSet\<close> has no parse error. Whatever the record holds, it
  runs to the end and calls \<open>set_gen\<close> (given the six entries of \<open>par\<close> it writes). A record
  of fewer than six numbers is read as if it were padded with copies of its last number;
  a token that is not a number, and everything after it, is read as zero.
\<close>

theorem ReadAndSet_no_parse_error:
  assumes "6 \<le> length par"
  shows "\<not> isl (ReadAndSet s tmp0 linestr par) \<and>
    (\<not> UseIndexCol s \<and> xs \<noteq> [] \<and> length xs < 6 \<longrightarrow>
       ReadAndSet s tmp0 (map Num xs) par =
       ReadAndSet s tmp0 (map Num (xs @ replicate (6 - length xs) (last xs))) par) \<and>
    (\<not> UseIndexCol s \<and> length xs < 6 \<longrightarrow>
       ReadAndSet s tmp0 (map Num xs @ NotNum # rest) par =
       ReadAndSet s tmp0 (map Num (xs @ replicate (6 - length xs) 0)) par)"
proof (intro conjI impI)
  from ReadAndSet_Inr[OF assms] obtain par' s'
    where "ReadAndSet s tmp0 linestr par = Inr (par', s')" by blast
  then show "\<not> isl (ReadAndSet s tmp0 linestr par)" by simp
next
  assume "\<not> UseIndexCol s \<and> xs \<noteq> [] \<and> length xs < 6"
  then show "ReadAndSet s tmp0 (map Num xs) par =
       ReadAndSet s tmp0 (map Num (xs @ replicate (6 - length xs) (last xs))) par"
    by (intro ReadAndSet_cong read_short) simp_all
next
  assume "\<not> UseIndexCol s \<and> length xs < 6"
  then show "ReadAndSet s tmp0 (map Num xs @ NotNum # rest) par =
       ReadAndSet s tmp0 (map Num (xs @ replicate (6 - length xs) 0)) par"
    by (intro ReadAndSet_cong read_junk) simp_all
qed

theorem ReadAndSet_no_parse_error_witness:
  "(6::nat) \<le> length (replicate 6 (Fin 0)) \<and>
   \<not> UseIndexCol (Class_VDM_new \<lparr>C_vev0 = Fin 246\<rparr>) \<and>
   [95, 650] \<noteq> ([]::real list) \<and> length [95, 650 :: real] < 6 \<and>
   \<not> isl (ReadAndSet (Class_VDM_new \<lparr>C_vev0 = Fin 246\<rparr>) (Fin 0) [Num 95, Num 650]
            (replicate 6 (Fin 0))) \<and>
   ReadAndSet (Class_VDM_new \<lparr>C_vev0 = Fin 246\<rparr>) (Fin 0) [Num 95, Num 650]
     (replicate 6 (Fin 0)) =
   ReadAndSet (Class_VDM_new \<lparr>C_vev0 = Fin 246\<rparr>) (Fin 0)
     [Num 95, Num 650, Num 650, Num 650, Num 650, Num 650] (replicate 6 (Fin 0)) \<and>
   ReadAndSet (Class_VDM_new \<lparr>C_vev0 = Fin 246\<rparr>) (Fin 0) [Num 95, Num 650, NotNum, Num 1]
     (replicate 6 (Fin 0)) =
   ReadAndSet (Class_VDM_new \<lparr>C_vev0 = Fin 246\<rparr>) (Fin 0)
     [Num 95, Num 650, Num 0, Num 0, Num 0, Num 0] (replicate 6 (Fin 0))"
proof -
  have h: "(6::nat) \<le> length (replicate 6 (Fin 0))" by simp
  have u: "\<not> UseIndexCol (Class_VDM_new \<lparr>C_vev0 = Fin 246\<rparr>)"
    by (simp add: Class_VDM_new_def)
  have r: "replicate (6 - length [95, 650 :: real]) x = [x, x, x, x]" for x :: real
    by (simp add: eval_nat_numeral)
  note T = ReadAndSet_no_parse_error[OF h, of "Class_VDM_new \<lparr>C_vev0 = Fin 246\<rparr>" "Fin 0"
        "[Num 95, Num 650]" "[95, 650]" "[Num 1]"]
  have a: "\<not> isl (ReadAndSet (Class_VDM_new \<lparr>C_vev0 = Fin 246\<rparr>) (Fin 0) [Num 95, Num 650]
            (replicate 6 (Fin 0)))"
    using T by (rule conjunct1)
  have b: "ReadAndSet (Class_VDM_new \<lparr>C_vev0 = Fin 246\<rparr>) (Fin 0) [Num 95, Num 650]
     (replicate 6 (Fin 0)) =
   ReadAndSet (Class_VDM_new \<lparr>C_vev0 = Fin 246\<rparr>) (Fin 0)
     [Num 95, Num 650, Num 650, Num 650, Num 650, Num 650] (replicate 6 (Fin 0))"
    using T[THEN conjunct2, THEN conjunct1] u unfolding r by simp
  have c: "ReadAndSet (Class_VDM_new \<lparr>C_vev0 = Fin 246\<rparr>) (Fin 0)
     [Num 95, Num 650, NotNum, Num 1] (replicate 6 (Fin 0)) =
   ReadAndSet (Class_VDM_new \<lparr>C_vev0 = Fin 246\<rparr>) (Fin 0)
     [Num 95, Num 650, Num 0, Num 0, Num 0, Num 0] (replicate 6 (Fin 0))"
    using T[THEN conjunct2, THEN conjunct2] u unfolding r by simp
  have d: "[95, 650] \<noteq> ([]::real list)" "length [95, 650 :: real] < 6" by simp_all
  show ?thesis using h u d a b c by (intro conjI)
qed

text \<open>
  The claim as stated, at the two-field record \<open>95 650\<close>: no error is signalled, and the
  four missing fields all take the stale value 650.
\<close>

theorem ReadAndSet_short_record_counterexample:
  "\<not> isl (ReadAndSet (Class_VDM_new \<lparr>C_vev0 = Fin 246\<rparr>) (Fin 0) [Num 95, Num 650]
            (replicate 6 (Fin 0))) \<and>
   result_of fields_as_read
     (ReadAndSet (Class_VDM_new \<lparr>C_vev0 = Fin 246\<rparr>) (Fin 0) [Num 95, Num 650]
        (replicate 6 (Fin 0))) =
   Inr (Fin 95, Fin 650, Fin 650, Fin 650, Fin 650, Fin 1)"
proof -
  have h: "(6::nat) \<le> length (replicate 6 (Fin 0))" by simp
  have u: "\<not> UseIndexCol (Class_VDM_new \<lparr>C_vev0 = Fin 246\<rparr>)"
    by (simp add: Class_VDM_new_def)
  have n: "[95, 650] \<noteq> ([]::real list)" "length [95, 650 :: real] < 6" by simp_all
  have e: "ReadAndSet (Class_VDM_new \<lparr>C_vev0 = Fin 246\<rparr>) (Fin 0) [Num 95, Num 650]
     (replicate 6 (Fin 0)) =
    ReadAndSet (Class_VDM_new \<lparr>C_vev0 = Fin 246\<rparr>) (Fin 0)
     [Num 95, Num 650, Num 650, Num 650, Num 650, Num 650] (replicate 6 (Fin 0))"
    using ReadAndSet_cong[OF u read_short[OF n], of "Fin 0" "replicate 6 (Fin 0)"]
    by (simp add: eval_nat_numeral)
  have f: "result_of fields_as_read
     (ReadAndSet (Class_VDM_new \<lparr>C_vev0 = Fin 246\<rparr>) (Fin 0)
        [Num 95, Num 650, Num 650, Num 650, Num 650, Num 650] (replicate 6 (Fin 0))) =
    Inr (Fin 95, Fin 650, Fin 650, Fin 650, Fin 650, Fin 1)"
    using u ReadAndSet_fields[OF h, of "Class_VDM_new \<lparr>C_vev0 = Fin 246\<rparr>" "Fin 0"
        0 95 650 650 650 650 650]
    by simp
  from f have "\<not> isl (ReadAndSet (Class_VDM_new \<lparr>C_vev0 = Fin 246\<rparr>) (Fin 0)
        [Num 95, Num 650, Num 650, Num 650, Num 650, Num 650] (replicate 6 (Fin 0)))"
    by (auto simp: result_of_def split: sum.splits)
  then show ?thesis using f unfolding e by simp
qed

section \<open>Zero divisors\<close>

lemma L2_lookup_22:
  "assign (Higgs_L2_entries muH muS) (\<lambda>_. Fin 0) (2, 2) = - muH"
  by (simp add: Higgs_L2_entries_def)

lemma ReadAndSet_zero_coupling:
  assumes "6 \<le> length par" and "\<not> UseIndexCol s" and "c \<noteq> 0"
  shows "\<exists>par' s'. ReadAndSet s tmp0 [Num a, Num b, Num c, Num d, Num e, Num 0] par =
                     Inr (par', s') \<and>
           par' ! 3 = (if 0 < c then PInf else NInf) \<and> vs s' = par' ! 3 \<and>
           muHSq s' = NaN \<and> muSSq s' = NaN \<and> SetCurvatureDone s' \<and>
           (\<not> SetCurvatureDone s \<longrightarrow> Curvature_Higgs_L2 s' (2, 2) = NaN)"
proof -
  let ?par = "Fin a # Fin b # Fin e # Fin c / Fin 0 # Fin d # Fin c # drop 6 par"
  let ?s = "s\<lparr>MH1 := Fin a, MH2 := Fin b, MX := Fin c, alpha := Fin d, v := Fin e,
               gX := Fin 0, vs := Fin c / Fin 0\<rparr>"
  have "6 \<le> length ?par" by simp
  then obtain s' where s': "set_gen ?s ?par = Inr s'" using set_gen_Inr by blast
  have R: "ReadAndSet s tmp0 [Num a, Num b, Num c, Num d, Num e, Num 0] par = Inr (?par, s')"
    using ReadAndSet_six[OF assms(1,2), of tmp0 a b c d e 0 "[]"] s' by simp
  have p3: "?par ! 3 = (if 0 < c then PInf else NInf)" using assms(3) by simp
  have vs: "vs s' = ?par ! 3" using set_gen_fields(4)[OF s'] .
  have k: "kappa s' = Fin 0 \<or> kappa s' = NaN"
    unfolding set_gen_fields(6)[OF s'] using assms(3) by simp
  have l: "lambdaS s' = Fin 0"
    unfolding set_gen_fields(7)[OF s'] using assms(3) by simp
  have mH: "muHSq s' = NaN"
    unfolding set_gen_fields(9)[OF s'] vs p3 using k by auto
  have mS: "muSSq s' = NaN"
    unfolding set_gen_fields(10)[OF s'] vs p3 l by simp
  have t: "Curvature_Higgs_L2 s' (2, 2) = NaN" if "\<not> SetCurvatureDone s"
  proof -
    have "\<not> SetCurvatureDone ?s" using that by simp
    from set_gen_tensors(3)[OF s' this] show ?thesis
      by (simp add: L2_lookup_22 mH)
  qed
  show ?thesis
    using R p3 vs mH mS t set_gen_fields(19)[OF s'] by blast
qed

lemma set_gen_zero_vev:
  assumes "6 \<le> length par" and "par ! 2 = Fin 0"
    and "is_Fin (par ! 0)" and "is_Fin (par ! 1)" and "is_Fin (par ! 4)"
  shows "\<exists>s'. set_gen s par = Inr s' \<and> \<not> is_Fin (lambdaH s')"
proof -
  from assms(1) obtain s' where s': "set_gen s par = Inr s'" using set_gen_Inr by blast
  obtain a where a: "par ! 0 = Fin a" using is_Fin_conv[OF assms(3)] by blast
  obtain b where b: "par ! 1 = Fin b" using is_Fin_conv[OF assms(4)] by blast
  obtain t where t: "par ! 4 = Fin t" using is_Fin_conv[OF assms(5)] by blast
  have "\<not> is_Fin (lambdaH s')"
    unfolding set_gen_fields(5)[OF s'] a b t assms(2) by simp
  then show ?thesis using s' by blast
qed

text \<open>
  C9 (as the code has it). Neither \<open>ReadAndSet\<close> nor \<open>set_gen\<close> checks a divisor; both
  run to the end on every input (given the six entries of \<open>par\<close>). With a gauge coupling of
  zero and a nonzero \<open>MX\<close> the hidden-sector VEV is an infinity, it is handed to \<open>set_gen\<close>,
  \<open>muHSq\<close> and \<open>muSSq\<close> become NaN and are written into the curvature tensor. With an
  electroweak VEV \<open>par[2]\<close> of zero, \<open>lambdaH\<close> is an infinity or NaN.
\<close>

theorem zero_divisor_not_checked:
  assumes "6 \<le> length par"
  shows "\<not> isl (ReadAndSet s tmp0 linestr par) \<and> \<not> isl (set_gen s par) \<and>
    (\<not> UseIndexCol s \<and> c \<noteq> 0 \<longrightarrow>
       (\<exists>par' s'. ReadAndSet s tmp0 [Num a, Num b, Num c, Num d, Num e, Num 0] par =
                     Inr (par', s') \<and>
           par' ! 3 = (if 0 < c then PInf else NInf) \<and> vs s' = par' ! 3 \<and>
           muHSq s' = NaN \<and> muSSq s' = NaN \<and> SetCurvatureDone s' \<and>
           (\<not> SetCurvatureDone s \<longrightarrow> Curvature_Higgs_L2 s' (2, 2) = NaN))) \<and>
    (par ! 2 = Fin 0 \<and> is_Fin (par ! 0) \<and> is_Fin (par ! 1) \<and> is_Fin (par ! 4) \<longrightarrow>
       (\<exists>s'. set_gen s par = Inr s' \<and> \<not> is_Fin (lambdaH s')))"
proof (intro conjI impI)
  from ReadAndSet_Inr[OF assms] obtain par' s'
    where "ReadAndSet s tmp0 linestr par = Inr (par', s')" by blast
  then show "\<not> isl (ReadAndSet s tmp0 linestr par)" by simp
next
  from set_gen_Inr[OF assms] obtain s' where "set_gen s par = Inr s'" by blast
  then show "\<not> isl (set_gen s par)" by simp
next
  assume "\<not> UseIndexCol s \<and> c \<noteq> 0"
  then show "\<exists>par' s'. ReadAndSet s tmp0 [Num a, Num b, Num c, Num d, Num e, Num 0] par =
                     Inr (par', s') \<and>
           par' ! 3 = (if 0 < c then PInf else NInf) \<and> vs s' = par' ! 3 \<and>
           muHSq s' = NaN \<and> muSSq s' = NaN \<and> SetCurvatureDone s' \<and>
           (\<not> SetCurvatureDone s \<longrightarrow> Curvature_Higgs_L2 s' (2, 2) = NaN)"
    using ReadAndSet_zero_coupling[OF assms] by blast
next
  assume "par ! 2 = Fin 0 \<and> is_Fin (par ! 0) \<and> is_Fin (par ! 1) \<and> is_Fin (par ! 4)"
  then show "\<exists>s'. set_gen s par = Inr s' \<and> \<not> is_Fin (lambdaH s')"
    using set_gen_zero_vev[OF assms] by blast
qed

theorem zero_divisor_not_checked_witness:
  "(6::nat) \<le> length [Fin 95, Fin 650, Fin 0, Fin 1000, Fin (3 / 10), Fin 1000] \<and>
   \<not> UseIndexCol (Class_VDM_new \<lparr>C_vev0 = Fin 246\<rparr>) \<and> (1000::real) \<noteq> 0 \<and>
   [Fin 95, Fin 650, Fin 0, Fin 1000, Fin (3 / 10), Fin 1000] ! 2 = Fin 0 \<and>
   is_Fin ([Fin 95, Fin 650, Fin 0, Fin 1000, Fin (3 / 10), Fin 1000] ! 0) \<and>
   is_Fin ([Fin 95, Fin 650, Fin 0, Fin 1000, Fin (3 / 10), Fin 1000] ! 1) \<and>
   is_Fin ([Fin 95, Fin 650, Fin 0, Fin 1000, Fin (3 / 10), Fin 1000] ! 4) \<and>
   (\<exists>par' s'. ReadAndSet (Class_VDM_new \<lparr>C_vev0 = Fin 246\<rparr>) (Fin 0)
        [Num 95, Num 650, Num 1000, Num (3 / 10), Num 246, Num 0]
        [Fin 95, Fin 650, Fin 0, Fin 1000, Fin (3 / 10), Fin 1000] = Inr (par', s') \<and>
      par' ! 3 = PInf \<and> muHSq s' = NaN) \<and>
   (\<exists>s'. set_gen (Class_VDM_new \<lparr>C_vev0 = Fin 246\<rparr>)
        [Fin 95, Fin 650, Fin 0, Fin 1000, Fin (3 / 10), Fin 1000] = Inr s' \<and>
      \<not> is_Fin (lambdaH s'))"
proof -
  let ?S = "Class_VDM_new \<lparr>C_vev0 = Fin 246\<rparr>"
  let ?P = "[Fin 95, Fin 650, Fin 0, Fin 1000, Fin (3 / 10), Fin 1000]"
  have h: "(6::nat) \<le> length ?P" by simp
  have u: "\<not> UseIndexCol ?S" by (simp add: Class_VDM_new_def)
  have z: "(1000::real) \<noteq> 0" by simp
  have p: "?P ! 2 = Fin 0" "is_Fin (?P ! 0)" "is_Fin (?P ! 1)" "is_Fin (?P ! 4)" by simp_all
  note T = zero_divisor_not_checked[OF h, of ?S "Fin 0" "[]" 1000 95 650 "3 / 10" 246]
  from T u z obtain par' s' where
    "ReadAndSet ?S (Fin 0) [Num 95, Num 650, Num 1000, Num (3 / 10), Num 246, Num 0] ?P =
       Inr (par', s')"
    "par' ! 3 = (if 0 < (1000::real) then PInf else NInf)" "muHSq s' = NaN"
    by blast
  then have A: "\<exists>par' s'. ReadAndSet ?S (Fin 0)
        [Num 95, Num 650, Num 1000, Num (3 / 10), Num 246, Num 0] ?P = Inr (par', s') \<and>
      par' ! 3 = PInf \<and> muHSq s' = NaN"
    by simp
  from T p have B: "\<exists>s'. set_gen ?S ?P = Inr s' \<and> \<not> is_Fin (lambdaH s')"
    by blast
  show ?thesis using h u z p A B by (intro conjI)
qed

text \<open>
  The claim as stated, at the record \<open>95 650 1000 0.3 246 0\<close> (gauge coupling zero) on a
  new object: \<open>ReadAndSet\<close> returns normally, the hidden-sector VEV it hands on is
  \<open>+\<infinity>\<close>, and \<open>muHSq\<close> is NaN.
\<close>

theorem zero_coupling_counterexample:
  "\<not> isl (ReadAndSet (Class_VDM_new \<lparr>C_vev0 = Fin 246\<rparr>) (Fin 0)
            [Num 95, Num 650, Num 1000, Num (3 / 10), Num 246, Num 0] (replicate 6 (Fin 0))) \<and>
   result_of fields_as_read
     (ReadAndSet (Class_VDM_new \<lparr>C_vev0 = Fin 246\<rparr>) (Fin 0)
        [Num 95, Num 650, Num 1000, Num (3 / 10), Num 246, Num 0] (replicate 6 (Fin 0))) =
   Inr (Fin 95, Fin 650, Fin (3 / 10), Fin 246, Fin 1000, PInf) \<and>
   result_of (muHSq \<circ> snd)
     (ReadAndSet (Class_VDM_new \<lparr>C_vev0 = Fin 246\<rparr>) (Fin 0)
        [Num 95, Num 650, Num 1000, Num (3 / 10), Num 246, Num 0] (replicate 6 (Fin 0))) =
   Inr NaN"
proof -
  let ?S = "Class_VDM_new \<lparr>C_vev0 = Fin 246\<rparr>"
  have h: "(6::nat) \<le> length (replicate 6 (Fin 0))" by simp
  have u: "\<not> UseIndexCol ?S" by (simp add: Class_VDM_new_def)
  have z: "(1000::real) \<noteq> 0" by simp
  from ReadAndSet_zero_coupling[OF h u z, of "Fin 0" 95 650 "3 / 10" 246]
  obtain par' s' where R: "ReadAndSet ?S (Fin 0)
       [Num 95, Num 650, Num 1000, Num (3 / 10), Num 246, Num 0] (replicate 6 (Fin 0)) =
       Inr (par', s')"
    and m: "muHSq s' = NaN"
    by blast
  have f: "result_of fields_as_read
     (ReadAndSet ?S (Fin 0)
        [Num 95, Num 650, Num 1000, Num (3 / 10), Num 246, Num 0] (replicate 6 (Fin 0))) =
    Inr (Fin 95, Fin 650, Fin (3 / 10), Fin 246, Fin 1000, PInf)"
    using u ReadAndSet_fields[OF h, of ?S "Fin 0" 0 95 650 1000 "3 / 10" 246 0]
    by simp
  show ?thesis unfolding f unfolding R using m by simp
qed

section \<open>The gates\<close>

lemma calc_CT_gate:
  assumes "\<not> SetCurvatureDone s \<or> \<not> CalcCouplingsdone s"
  shows "\<exists>msg. calc_CT s WeinbergNabla WeinbergHesse = Inl (runtime_error msg)"
  using assms by (auto simp: calc_CT_def)

lemma calc_CT_new:
  "calc_CT (Class_VDM_new c) WeinbergNabla WeinbergHesse =
     Inl (runtime_error (''calc_CT was called before SetCurvatureArrays()!'' @ [CHR 0x0A]))"
  by (simp add: calc_CT_def Class_VDM_new_def)

lemma TripleHiggsCouplings_new:
  "TripleHiggsCouplings ext (Class_VDM_new c) = Inl out_of_range"
  by (simp add: TripleHiggsCouplings_def SetCurvatureArrays_def initVectors_def
      Class_VDM_new_def NHiggs_eq)

lemma set_CT_Pot_Par_new: "set_CT_Pot_Par (Class_VDM_new c) par = Inl out_of_range"
  by (rule set_CT_Pot_Par_unsized) (simp add: Class_VDM_new_def NHiggs_eq)

lemma rotate3_cong:
  assumes "\<And>i j. i < NHiggs \<Longrightarrow> R (i, j) = R' (i, j)"
  shows "rotate3 R B = rotate3 R' B"
  unfolding rotate3_def using assms by (auto simp: fun_eq_iff)

lemma HiggsOrder_nth: "i < NHiggs \<Longrightarrow> map (\<lambda>i. i) [0..<NHiggs] ! i = i"
  by simp

lemma TripleHiggsCouplings_self_init:
  assumes d: "SetCurvatureDone s" and c: "\<not> CalcCouplingsdone s"
    and l: "NHiggs * NHiggs * NHiggs \<le>
      length (WeinbergThirdDerivative ext (CalculatePhysicalCouplings ext s))"
  shows "\<exists>s'. TripleHiggsCouplings ext s = Inr s' \<and>
    SetCurvatureDone s' \<and> CalcCouplingsdone s' \<and>
    TripleHiggsCorrectionsCWPhysical s' =
      rotate3 (rotation ext s)
        (\<lambda>(i, j, k). WeinbergThirdDerivative ext (CalculatePhysicalCouplings ext s) !
           (i + j * NHiggs + k * NHiggs * NHiggs)) \<and>
    TripleHiggsCorrectionsTreePhysical s' = rotate3 (rotation ext s) (triple_tree ext s) \<and>
    TripleHiggsCorrectionsCTPhysical s' = rotate3 (rotation ext s) (triple_CT ext s)"
proof -
  let ?s2 = "CalculatePhysicalCouplings ext s"
  let ?R = "\<lambda>(i, j). HiggsRotationMatrix ?s2 (map (\<lambda>i. i) [0..<NHiggs] ! i, j)"
  have R: "rotate3 ?R B = rotate3 (rotation ext s) B" for B
    by (rule rotate3_cong) (simp add: CalculatePhysicalCouplings_def)
  have g: "\<not> (length (WeinbergThirdDerivative ext ?s2) < NHiggs * NHiggs * NHiggs \<or>
    Couplings_extent ?s2 < NHiggs)"
    using l by (simp add: CalculatePhysicalCouplings_fields)
  have "TripleHiggsCouplings ext s = Inr (?s2\<lparr>
      TripleHiggsCorrectionsCWPhysical :=
        rotate3 ?R (\<lambda>(i, j, k). WeinbergThirdDerivative ext ?s2 !
          (i + j * NHiggs + k * NHiggs * NHiggs)),
      TripleHiggsCorrectionsTreePhysical := rotate3 ?R (LambdaHiggs_3 ?s2),
      TripleHiggsCorrectionsCTPhysical := rotate3 ?R (LambdaHiggs_3_CT ?s2)\<rparr>)"
    unfolding TripleHiggsCouplings_def Let_def using d c g by simp
  then show ?thesis
    unfolding R using d by (simp add: CalculatePhysicalCouplings_def)
qed

text \<open>
  C5 (as the code has it). Only \<open>calc_CT\<close> checks the gates: called while either gate is
  unset, in particular on a new object, it fails at once with the \<open>runtime_error\<close> and
  computes nothing. \<open>TripleHiggsCouplings\<close> and \<open>set_CT_Pot_Par\<close> raise no precondition
  error. On a new object \<open>TripleHiggsCouplings\<close> calls \<open>SetCurvatureArrays\<close> itself, which
  reads \<open>vevTree\<close> beyond its end, and \<open>set_CT_Pot_Par\<close> writes to tensors that have no
  extent yet: both are accesses out of range, not checks. On the object that \<open>set_gen\<close>
  leaves from a new one, whose couplings are not diagonalized, \<open>TripleHiggsCouplings\<close>
  returns normally when the third derivative supplied from outside has its
  \<open>NHiggs\<^sup>3\<close> entries: it runs \<open>CalculatePhysicalCouplings\<close> itself, which sets the gate,
  and stores the three triple-coupling tensors rotated by the rotation matrix;
  \<open>set_CT_Pot_Par\<close> returns normally there too and stores the counterterms, with the gate
  still unset.
\<close>

theorem gates_checked_by_calc_CT_only:
  "(\<not> SetCurvatureDone s \<or> \<not> CalcCouplingsdone s \<longrightarrow>
      (\<exists>msg. calc_CT s WeinbergNabla WeinbergHesse = Inl (runtime_error msg))) \<and>
   calc_CT (Class_VDM_new c) WeinbergNabla WeinbergHesse =
     Inl (runtime_error (''calc_CT was called before SetCurvatureArrays()!'' @ [CHR 0x0A])) \<and>
   TripleHiggsCouplings ext (Class_VDM_new c) = Inl out_of_range \<and>
   set_CT_Pot_Par (Class_VDM_new c) parCT = Inl out_of_range \<and>
   (6 \<le> length par \<and> 11 \<le> length parCT \<and>
    (\<forall>t. NHiggs * NHiggs * NHiggs \<le> length (WeinbergThirdDerivative ext t)) \<longrightarrow>
      (\<exists>s1 s2 s3.
         set_gen (Class_VDM_new c) par = Inr s1 \<and>
         SetCurvatureDone s1 \<and> \<not> CalcCouplingsdone s1 \<and>
         TripleHiggsCouplings ext s1 = Inr s2 \<and>
         SetCurvatureDone s2 \<and> CalcCouplingsdone s2 \<and>
         TripleHiggsCorrectionsCWPhysical s2 =
           rotate3 (rotation ext s1)
             (\<lambda>(i, j, k). WeinbergThirdDerivative ext (CalculatePhysicalCouplings ext s1) !
                (i + j * NHiggs + k * NHiggs * NHiggs)) \<and>
         TripleHiggsCorrectionsTreePhysical s2 = rotate3 (rotation ext s1) (triple_tree ext s1) \<and>
         TripleHiggsCorrectionsCTPhysical s2 = rotate3 (rotation ext s1) (triple_CT ext s1) \<and>
         set_CT_Pot_Par s1 parCT = Inr s3 \<and>
         \<not> CalcCouplingsdone s3 \<and>
         Curvature_Higgs_CT_L4 s3 =
           assign (Higgs_CT_L4_entries (parCT ! 1) (parCT ! 2) (parCT ! 4)) (\<lambda>_. Fin 0)))"
proof (intro conjI impI)
  assume "\<not> SetCurvatureDone s \<or> \<not> CalcCouplingsdone s"
  then show "\<exists>msg. calc_CT s WeinbergNabla WeinbergHesse = Inl (runtime_error msg)"
    by (rule calc_CT_gate)
next
  show "calc_CT (Class_VDM_new c) WeinbergNabla WeinbergHesse =
     Inl (runtime_error (''calc_CT was called before SetCurvatureArrays()!'' @ [CHR 0x0A]))"
    by (rule calc_CT_new)
next
  show "TripleHiggsCouplings ext (Class_VDM_new c) = Inl out_of_range"
    by (rule TripleHiggsCouplings_new)
next
  show "set_CT_Pot_Par (Class_VDM_new c) parCT = Inl out_of_range"
    by (rule set_CT_Pot_Par_new)
next
  assume h: "6 \<le> length par \<and> 11 \<le> length parCT \<and>
    (\<forall>t. NHiggs * NHiggs * NHiggs \<le> length (WeinbergThirdDerivative ext t))"
  let ?S = "Class_VDM_new c"
  have f: "\<not> SetCurvatureDone ?S" "\<not> CalcCouplingsdone ?S"
    by (simp_all add: Class_VDM_new_def)
  from h obtain s1 where s1: "set_gen ?S par = Inr s1" using set_gen_Inr by blast
  have d1: "SetCurvatureDone s1" using set_gen_fields(19)[OF s1] .
  have c1: "\<not> CalcCouplingsdone s1" using set_gen_fields(18)[OF s1] f(2) by simp
  have e1: "NHiggs \<le> Curvature_Higgs_extent s1"
    using set_gen_tensors(10)[OF s1 f(1)] by simp
  have l: "NHiggs * NHiggs * NHiggs \<le>
      length (WeinbergThirdDerivative ext (CalculatePhysicalCouplings ext s1))"
    using h by blast
  from TripleHiggsCouplings_self_init[OF d1 c1 l]
  obtain s2 where s2: "TripleHiggsCouplings ext s1 = Inr s2"
    "SetCurvatureDone s2" "CalcCouplingsdone s2"
    "TripleHiggsCorrectionsCWPhysical s2 =
       rotate3 (rotation ext s1)
         (\<lambda>(i, j, k). WeinbergThirdDerivative ext (CalculatePhysicalCouplings ext s1) !
            (i + j * NHiggs + k * NHiggs * NHiggs))"
    "TripleHiggsCorrectionsTreePhysical s2 = rotate3 (rotation ext s1) (triple_tree ext s1)"
    "TripleHiggsCorrectionsCTPhysical s2 = rotate3 (rotation ext s1) (triple_CT ext s1)"
    by blast
  from h e1 obtain s3 where s3: "set_CT_Pot_Par s1 parCT = Inr s3"
    using set_CT_Pot_Par_Inr by blast
  have c3: "\<not> CalcCouplingsdone s3" using set_CT_Pot_Par_fields(14)[OF s3] c1 by simp
  have t3: "Curvature_Higgs_CT_L4 s3 =
      assign (Higgs_CT_L4_entries (parCT ! 1) (parCT ! 2) (parCT ! 4)) (\<lambda>_. Fin 0)"
    using set_CT_Pot_Par_fields(5)[OF s3] set_gen_tensors(9)[OF s1 f(1)] by simp
  show "\<exists>s1 s2 s3.
         set_gen (Class_VDM_new c) par = Inr s1 \<and>
         SetCurvatureDone s1 \<and> \<not> CalcCouplingsdone s1 \<and>
         TripleHiggsCouplings ext s1 = Inr s2 \<and>
         SetCurvatureDone s2 \<and> CalcCouplingsdone s2 \<and>
         TripleHiggsCorrectionsCWPhysical s2 =
           rotate3 (rotation ext s1)
             (\<lambda>(i, j, k). WeinbergThirdDerivative ext (CalculatePhysicalCouplings ext s1) !
                (i + j * NHiggs + k * NHiggs * NHiggs)) \<and>
         TripleHiggsCorrectionsTreePhysical s2 = rotate3 (rotation ext s1) (triple_tree ext s1) \<and>
         TripleHiggsCorrectionsCTPhysical s2 = rotate3 (rotation ext s1) (triple_CT ext s1) \<and>
         set_CT_Pot_Par s1 parCT = Inr s3 \<and>
         \<not> CalcCouplingsdone s3 \<and>
         Curvature_Higgs_CT_L4 s3 =
           assign (Higgs_CT_L4_entries (parCT ! 1) (parCT ! 2) (parCT ! 4)) (\<lambda>_. Fin 0)"
    using s1 d1 c1 s2 s3 c3 t3 by blast
qed

lemma zero_collaborator_third:
  "NHiggs * NHiggs * NHiggs \<le> length (WeinbergThirdDerivative zero_collaborator t)"
  by (simp add: zero_collaborator_def NHiggs_eq)

theorem gates_checked_by_calc_CT_only_witness:
  "\<not> SetCurvatureDone (Class_VDM_new \<lparr>C_vev0 = Fin 246\<rparr>) \<and>
   \<not> CalcCouplingsdone (Class_VDM_new \<lparr>C_vev0 = Fin 246\<rparr>) \<and>
   (\<exists>msg. calc_CT (Class_VDM_new \<lparr>C_vev0 = Fin 246\<rparr>) [] [] = Inl (runtime_error msg)) \<and>
   TripleHiggsCouplings zero_collaborator (Class_VDM_new \<lparr>C_vev0 = Fin 246\<rparr>) =
     Inl out_of_range \<and>
   set_CT_Pot_Par (Class_VDM_new \<lparr>C_vev0 = Fin 246\<rparr>) (replicate 11 (Fin 1)) =
     Inl out_of_range \<and>
   (6::nat) \<le> length [Fin 95, Fin 650, Fin 246, Fin 1000, Fin (3 / 10), Fin 1000] \<and>
   (11::nat) \<le> length (replicate 11 (Fin 1)) \<and>
   (\<exists>s1 s2 s3.
      set_gen (Class_VDM_new \<lparr>C_vev0 = Fin 246\<rparr>)
        [Fin 95, Fin 650, Fin 246, Fin 1000, Fin (3 / 10), Fin 1000] = Inr s1 \<and>
      SetCurvatureDone s1 \<and> \<not> CalcCouplingsdone s1 \<and>
      TripleHiggsCouplings zero_collaborator s1 = Inr s2 \<and>
      SetCurvatureDone s2 \<and> CalcCouplingsdone s2 \<and>
      TripleHiggsCorrectionsTreePhysical s2 =
        rotate3 (rotation zero_collaborator s1) (triple_tree zero_collaborator s1) \<and>
      set_CT_Pot_Par s1 (replicate 11 (Fin 1)) = Inr s3 \<and>
      \<not> CalcCouplingsdone s3 \<and>
      Curvature_Higgs_CT_L4 s3 (0, 0, 0, 0) = Fin 6)"
proof -
  let ?S = "Class_VDM_new \<lparr>C_vev0 = Fin 246\<rparr>"
  let ?P = "[Fin 95, Fin 650, Fin 246, Fin 1000, Fin (3 / 10), Fin 1000]"
  let ?C = "replicate 11 (Fin 1)"
  note T = gates_checked_by_calc_CT_only[of ?S "[]" "[]" "\<lparr>C_vev0 = Fin 246\<rparr>"
      zero_collaborator ?C ?P]
  have g: "\<not> SetCurvatureDone ?S" "\<not> CalcCouplingsdone ?S"
    by (simp_all add: Class_VDM_new_def)
  have p: "(6::nat) \<le> length ?P" "(11::nat) \<le> length ?C" by simp_all
  have a: "\<exists>msg. calc_CT ?S [] [] = Inl (runtime_error msg)"
    using T g by blast
  have b: "TripleHiggsCouplings zero_collaborator ?S = Inl out_of_range"
    using T by blast
  have c: "set_CT_Pot_Par ?S ?C = Inl out_of_range"
    using T by blast
  from T p zero_collaborator_third
  obtain s1 s2 s3 where r: "set_gen ?S ?P = Inr s1"
    "SetCurvatureDone s1" "\<not> CalcCouplingsdone s1"
    "TripleHiggsCouplings zero_collaborator s1 = Inr s2"
    "SetCurvatureDone s2" "CalcCouplingsdone s2"
    "TripleHiggsCorrectionsTreePhysical s2 =
       rotate3 (rotation zero_collaborator s1) (triple_tree zero_collaborator s1)"
    "set_CT_Pot_Par s1 ?C = Inr s3"
    "\<not> CalcCouplingsdone s3"
    and t: "Curvature_Higgs_CT_L4 s3 =
      assign (Higgs_CT_L4_entries (?C ! 1) (?C ! 2) (?C ! 4)) (\<lambda>_. Fin 0)"
    by blast
  have "Curvature_Higgs_CT_L4 s3 (0, 0, 0, 0) = Fin 6"
    unfolding t by (simp add: Higgs_CT_L4_entries_def)
  with r have d: "\<exists>s1 s2 s3.
      set_gen ?S ?P = Inr s1 \<and>
      SetCurvatureDone s1 \<and> \<not> CalcCouplingsdone s1 \<and>
      TripleHiggsCouplings zero_collaborator s1 = Inr s2 \<and>
      SetCurvatureDone s2 \<and> CalcCouplingsdone s2 \<and>
      TripleHiggsCorrectionsTreePhysical s2 =
        rotate3 (rotation zero_collaborator s1) (triple_tree zero_collaborator s1) \<and>
      set_CT_Pot_Par s1 ?C = Inr s3 \<and>
      \<not> CalcCouplingsdone s3 \<and>
      Curvature_Higgs_CT_L4 s3 (0, 0, 0, 0) = Fin 6"
    by blast
  show ?thesis using g a b c p d by (intro conjI)
qed

text \<open>
  The claim as stated, on an object whose parameters are set and whose curvature tensors
  are populated (\<open>set_gen\<close> has run) but whose couplings are not diagonalized:
  \<open>TripleHiggsCouplings\<close> returns normally, with the gate set by itself.
\<close>

theorem TripleHiggsCouplings_gate_counterexample:
  "result_of CalcCouplingsdone
     (set_gen (Class_VDM_new \<lparr>C_vev0 = Fin 246\<rparr>)
        [Fin 95, Fin 650, Fin 246, Fin 1000, Fin (3 / 10), Fin 1000]) = Inr False \<and>
   result_of CalcCouplingsdone
     (and_then
        (set_gen (Class_VDM_new \<lparr>C_vev0 = Fin 246\<rparr>)
           [Fin 95, Fin 650, Fin 246, Fin 1000, Fin (3 / 10), Fin 1000])
        (TripleHiggsCouplings zero_collaborator)) = Inr True"
proof -
  let ?S = "Class_VDM_new \<lparr>C_vev0 = Fin 246\<rparr>"
  let ?P = "[Fin 95, Fin 650, Fin 246, Fin 1000, Fin (3 / 10), Fin 1000]"
  have "(6::nat) \<le> length ?P" by simp
  then obtain s1 where s1: "set_gen ?S ?P = Inr s1" using set_gen_Inr by blast
  have c1: "\<not> CalcCouplingsdone s1"
    using set_gen_fields(18)[OF s1] by (simp add: Class_VDM_new_def)
  have d1: "SetCurvatureDone s1" using set_gen_fields(19)[OF s1] .
  from TripleHiggsCouplings_self_init[OF d1 c1 zero_collaborator_third]
  obtain s' where "TripleHiggsCouplings zero_collaborator s1 = Inr s'" "CalcCouplingsdone s'"
    by blast
  then show ?thesis unfolding s1 using c1 by simp
qed

section \<open>The legend of the counterterms\<close>

text \<open>
  C6. \<open>addLegendCT\<close> returns eleven labels, but not in the order of the counterterm vector.
  On the vector \<open>[0, 1, \<dots>, 10]\<close> \<open>set_CT_Pot_Par\<close>, called on an object whose tensors are
  sized, assigns \<open>par[2]\<close> to \<open>dkappa\<close>, \<open>par[3]\<close> to \<open>dmuSSq\<close> and \<open>par[4]\<close> to
  \<open>dlambdaS\<close>, while the labels at positions 2, 3 and 4 are \<open>dmuSSq\<close>, \<open>dlambdaS\<close> and
  \<open>dkappa\<close>: each of the three labels names a member that is assigned from another
  position.
\<close>

theorem addLegendCT_order_mismatch:
  assumes "NHiggs \<le> Curvature_Higgs_extent s"
  shows "length addLegendCT = 11 \<and>
   addLegendCT ! 2 = ct_name P_dmuSSq \<and>
   addLegendCT ! 3 = ct_name P_dlambdaS \<and>
   addLegendCT ! 4 = ct_name P_dkappa \<and>
   result_of (ct_member P_dmuSSq)
     (set_CT_Pot_Par s [Fin 0, Fin 1, Fin 2, Fin 3, Fin 4, Fin 5, Fin 6, Fin 7, Fin 8, Fin 9,
        Fin 10]) = Inr (Fin 3) \<and>
   result_of (ct_member P_dlambdaS)
     (set_CT_Pot_Par s [Fin 0, Fin 1, Fin 2, Fin 3, Fin 4, Fin 5, Fin 6, Fin 7, Fin 8, Fin 9,
        Fin 10]) = Inr (Fin 4) \<and>
   result_of (ct_member P_dkappa)
     (set_CT_Pot_Par s [Fin 0, Fin 1, Fin 2, Fin 3, Fin 4, Fin 5, Fin 6, Fin 7, Fin 8, Fin 9,
        Fin 10]) = Inr (Fin 2)"
  using assms by (simp add: addLegendCT_def set_CT_Pot_Par_def Let_def)

text \<open>
  The same on the object that \<open>set_gen\<close> leaves from a new one, where \<open>SetCurvatureArrays\<close>
  has sized the tensors.
\<close>

theorem addLegendCT_order_mismatch_witness:
  "\<exists>s1. set_gen (Class_VDM_new \<lparr>C_vev0 = Fin 246\<rparr>)
          [Fin 95, Fin 650, Fin 246, Fin 1000, Fin (3 / 10), Fin 1000] = Inr s1 \<and>
     NHiggs \<le> Curvature_Higgs_extent s1 \<and>
     addLegendCT ! 2 = ct_name P_dmuSSq \<and>
     addLegendCT ! 3 = ct_name P_dlambdaS \<and>
     addLegendCT ! 4 = ct_name P_dkappa \<and>
     result_of (ct_member P_dmuSSq)
       (set_CT_Pot_Par s1 [Fin 0, Fin 1, Fin 2, Fin 3, Fin 4, Fin 5, Fin 6, Fin 7, Fin 8, Fin 9,
          Fin 10]) = Inr (Fin 3) \<and>
     result_of (ct_member P_dlambdaS)
       (set_CT_Pot_Par s1 [Fin 0, Fin 1, Fin 2, Fin 3, Fin 4, Fin 5, Fin 6, Fin 7, Fin 8, Fin 9,
          Fin 10]) = Inr (Fin 4) \<and>
     result_of (ct_member P_dkappa)
       (set_CT_Pot_Par s1 [Fin 0, Fin 1, Fin 2, Fin 3, Fin 4, Fin 5, Fin 6, Fin 7, Fin 8, Fin 9,
          Fin 10]) = Inr (Fin 2)"
proof -
  let ?S = "Class_VDM_new \<lparr>C_vev0 = Fin 246\<rparr>"
  let ?P = "[Fin 95, Fin 650, Fin 246, Fin 1000, Fin (3 / 10), Fin 1000]"
  have "(6::nat) \<le> length ?P" by simp
  then obtain s1 where s1: "set_gen ?S ?P = Inr s1" using set_gen_Inr by blast
  have f: "\<not> SetCurvatureDone ?S" by (simp add: Class_VDM_new_def)
  have e: "NHiggs \<le> Curvature_Higgs_extent s1"
    using set_gen_tensors(10)[OF s1 f] by simp
  show ?thesis
    using s1 e addLegendCT_order_mismatch[OF e] by blast
qed

section \<open>Index symmetry of the rank-4 tensors\<close>

lemma map_of_involution:
  assumes inv: "\<And>k. f (f k) = k"
    and closed: "list_all (\<lambda>(k, x). map_of es (f k) = Some x) es"
  shows "map_of es (f k) = map_of es k"
proof (cases "map_of es k")
  case (Some x)
  then have "(k, x) \<in> set es" by (rule map_of_SomeD)
  with closed have "map_of es (f k) = Some x" by (auto simp: list_all_iff)
  then show ?thesis using Some by simp
next
  case None
  show ?thesis
  proof (cases "map_of es (f k)")
    case None': None
    then show ?thesis using None by simp
  next
    case (Some y)
    then have "(f k, y) \<in> set es" by (rule map_of_SomeD)
    with closed have "map_of es (f (f k)) = Some y" by (auto simp: list_all_iff)
    then show ?thesis using None inv by simp
  qed
qed

lemma assign_involution:
  assumes "distinct (map fst es)"
    and "\<And>k. f (f k) = k"
    and "list_all (\<lambda>(k, x). map_of es (f k) = Some x) es"
    and "\<And>k. T (f k) = T k"
  shows "assign es T (f k) = assign es T k"
  unfolding assign_lookup_distinct[OF assms(1)] map_of_involution[of f es, OF assms(2,3)]
    assms(4) ..

lemma L4_closed12:
  "list_all (\<lambda>(k, x). map_of (Higgs_L4_entries a b c)
      (case k of (i, j, k', l) \<Rightarrow> (j, i, k', l)) = Some x) (Higgs_L4_entries a b c)"
  by code_simp

lemma L4_closed23:
  "list_all (\<lambda>(k, x). map_of (Higgs_L4_entries a b c)
      (case k of (i, j, k', l) \<Rightarrow> (i, k', j, l)) = Some x) (Higgs_L4_entries a b c)"
  by code_simp

lemma L4_closed34:
  "list_all (\<lambda>(k, x). map_of (Higgs_L4_entries a b c)
      (case k of (i, j, k', l) \<Rightarrow> (i, j, l, k')) = Some x) (Higgs_L4_entries a b c)"
  by code_simp

lemma CT_L4_closed12:
  "list_all (\<lambda>(k, x). map_of (Higgs_CT_L4_entries a b c)
      (case k of (i, j, k', l) \<Rightarrow> (j, i, k', l)) = Some x) (Higgs_CT_L4_entries a b c)"
  by code_simp

lemma CT_L4_closed23:
  "list_all (\<lambda>(k, x). map_of (Higgs_CT_L4_entries a b c)
      (case k of (i, j, k', l) \<Rightarrow> (i, k', j, l)) = Some x) (Higgs_CT_L4_entries a b c)"
  by code_simp

lemma CT_L4_closed34:
  "list_all (\<lambda>(k, x). map_of (Higgs_CT_L4_entries a b c)
      (case k of (i, j, k', l) \<Rightarrow> (i, j, l, k')) = Some x) (Higgs_CT_L4_entries a b c)"
  by code_simp

lemma sort4_canonical:
  fixes T :: tensor4
  assumes g12: "\<And>i j k l. T (j, i, k, l) = T (i, j, k, l)"
    and g23: "\<And>i j k l. T (i, k, j, l) = T (i, j, k, l)"
    and g34: "\<And>i j k l. T (i, j, l, k) = T (i, j, k, l)"
  shows "T (i, j, k, l) =
    T (sort [i, j, k, l] ! 0, sort [i, j, k, l] ! 1, sort [i, j, k, l] ! 2,
       sort [i, j, k, l] ! 3)"
proof -
  have s: "T (a, b, c, d) = T (b, a, c, d)" "T (a, b, c, d) = T (a, c, b, d)"
    "T (a, b, c, d) = T (a, b, d, c)" for a b c d
    using g12 g23 g34 by simp_all
  show ?thesis
    by (simp add: s)
qed

lemma symmetric4_generators:
  fixes T :: tensor4
  assumes g12: "\<And>i j k l. T (j, i, k, l) = T (i, j, k, l)"
    and g23: "\<And>i j k l. T (i, k, j, l) = T (i, j, k, l)"
    and g34: "\<And>i j k l. T (i, j, l, k) = T (i, j, k, l)"
  shows "symmetric4 T"
  unfolding symmetric4_def
proof (intro allI impI)
  fix i j k l i' j' k' l' :: nat
  assume m: "mset [i, j, k, l] = mset [i', j', k', l']"
  have "sorted_list_of_multiset (mset [i, j, k, l]) =
    sorted_list_of_multiset (mset [i', j', k', l'])"
    using m by simp
  then have e: "sort [i, j, k, l] = sort [i', j', k', l']"
    unfolding sorted_list_of_multiset_mset .
  show "T (i, j, k, l) = T (i', j', k', l')"
    unfolding sort4_canonical[of T i j k l, OF g12 g23 g34]
      sort4_canonical[of T i' j' k' l', OF g12 g23 g34] e ..
qed

lemma symmetric4D:
  assumes "symmetric4 T"
  shows "T (j, i, k, l) = T (i, j, k, l)" "T (i, k, j, l) = T (i, j, k, l)"
    "T (i, j, l, k) = T (i, j, k, l)"
proof -
  have m: "mset [j, i, k, l] = mset [i, j, k, l]" "mset [i, k, j, l] = mset [i, j, k, l]"
    "mset [i, j, l, k] = mset [i, j, k, l]"
    by (simp_all add: add_mset_commute)
  note r = assms[unfolded symmetric4_def, rule_format]
  show "T (j, i, k, l) = T (i, j, k, l)" by (rule r[OF m(1)])
  show "T (i, k, j, l) = T (i, j, k, l)" by (rule r[OF m(2)])
  show "T (i, j, l, k) = T (i, j, k, l)" by (rule r[OF m(3)])
qed

lemma symmetric4_zero: "symmetric4 (\<lambda>_. Fin 0)"
  by (simp add: symmetric4_def)

lemma symmetric4_L4:
  assumes "symmetric4 T"
  shows "symmetric4 (assign (Higgs_L4_entries a b c) T)"
proof (rule symmetric4_generators)
  fix i j k l
  show "assign (Higgs_L4_entries a b c) T (j, i, k, l) =
    assign (Higgs_L4_entries a b c) T (i, j, k, l)"
    using assign_involution[of "Higgs_L4_entries a b c"
        "\<lambda>k. case k of (i, j, k', l) \<Rightarrow> (j, i, k', l)" T "(i, j, k, l)",
        OF L4_distinct _ L4_closed12]
      symmetric4D(1)[OF assms]
    by auto
  show "assign (Higgs_L4_entries a b c) T (i, k, j, l) =
    assign (Higgs_L4_entries a b c) T (i, j, k, l)"
    using assign_involution[of "Higgs_L4_entries a b c"
        "\<lambda>k. case k of (i, j, k', l) \<Rightarrow> (i, k', j, l)" T "(i, j, k, l)",
        OF L4_distinct _ L4_closed23]
      symmetric4D(2)[OF assms]
    by auto
  show "assign (Higgs_L4_entries a b c) T (i, j, l, k) =
    assign (Higgs_L4_entries a b c) T (i, j, k, l)"
    using assign_involution[of "Higgs_L4_entries a b c"
        "\<lambda>k. case k of (i, j, k', l) \<Rightarrow> (i, j, l, k')" T "(i, j, k, l)",
        OF L4_distinct _ L4_closed34]
      symmetric4D(3)[OF assms]
    by auto
qed

lemma symmetric4_CT_L4:
  assumes "symmetric4 T"
  shows "symmetric4 (assign (Higgs_CT_L4_entries a b c) T)"
proof (rule symmetric4_generators)
  fix i j k l
  show "assign (Higgs_CT_L4_entries a b c) T (j, i, k, l) =
    assign (Higgs_CT_L4_entries a b c) T (i, j, k, l)"
    using assign_involution[of "Higgs_CT_L4_entries a b c"
        "\<lambda>k. case k of (i, j, k', l) \<Rightarrow> (j, i, k', l)" T "(i, j, k, l)",
        OF CT_L4_distinct _ CT_L4_closed12]
      symmetric4D(1)[OF assms]
    by auto
  show "assign (Higgs_CT_L4_entries a b c) T (i, k, j, l) =
    assign (Higgs_CT_L4_entries a b c) T (i, j, k, l)"
    using assign_involution[of "Higgs_CT_L4_entries a b c"
        "\<lambda>k. case k of (i, j, k', l) \<Rightarrow> (i, k', j, l)" T "(i, j, k, l)",
        OF CT_L4_distinct _ CT_L4_closed23]
      symmetric4D(2)[OF assms]
    by auto
  show "assign (Higgs_CT_L4_entries a b c) T (i, j, l, k) =
    assign (Higgs_CT_L4_entries a b c) T (i, j, k, l)"
    using assign_involution[of "Higgs_CT_L4_entries a b c"
        "\<lambda>k. case k of (i, j, k', l) \<Rightarrow> (i, j, l, k')" T "(i, j, k, l)",
        OF CT_L4_distinct _ CT_L4_closed34]
      symmetric4D(3)[OF assms]
    by auto
qed

text \<open>
  C4. After \<open>SetCurvatureArrays\<close> the tree-level rank-4 tensor, and after
  \<open>set_CT_Pot_Par\<close> (called once the couplings are diagonalized) the counterterm rank-4
  tensor, hold the same value at any two index tuples that are permutations of each
  other; an entry that is not assigned holds the zero of \<open>initVectors\<close>.
\<close>

theorem rank4_tensors_symmetric:
  assumes "NHiggs \<le> length (vevTree s)" and "11 \<le> length par"
  shows "\<exists>s1 s2. SetCurvatureArrays s = Inr s1 \<and>
           set_CT_Pot_Par (CalculatePhysicalCouplings ext s1) par = Inr s2 \<and>
           symmetric4 (Curvature_Higgs_L4 s1) \<and> symmetric4 (Curvature_Higgs_CT_L4 s1) \<and>
           symmetric4 (Curvature_Higgs_L4 s2) \<and> symmetric4 (Curvature_Higgs_CT_L4 s2)"
proof -
  from assms(1) obtain s1 where s1: "SetCurvatureArrays s = Inr s1"
    using SetCurvatureArrays_Inr by blast
  have e: "NHiggs \<le> Curvature_Higgs_extent (CalculatePhysicalCouplings ext s1)"
    by (simp add: CalculatePhysicalCouplings_fields SetCurvatureArrays_fields(21)[OF s1])
  from assms(2) e obtain s2
    where s2: "set_CT_Pot_Par (CalculatePhysicalCouplings ext s1) par = Inr s2"
    using set_CT_Pot_Par_Inr by blast
  have a: "symmetric4 (Curvature_Higgs_L4 s1)"
    unfolding SetCurvatureArrays_fields(16)[OF s1]
    by (rule symmetric4_L4[OF symmetric4_zero])
  have b: "symmetric4 (Curvature_Higgs_CT_L4 s1)"
    unfolding SetCurvatureArrays_fields(20)[OF s1] by (rule symmetric4_zero)
  have c: "symmetric4 (Curvature_Higgs_L4 s2)"
    unfolding set_CT_Pot_Par_fields(9)[OF s2] CalculatePhysicalCouplings_fields by (rule a)
  have d: "symmetric4 (Curvature_Higgs_CT_L4 s2)"
    unfolding set_CT_Pot_Par_fields(5)[OF s2] CalculatePhysicalCouplings_fields
    by (rule symmetric4_CT_L4[OF b])
  show ?thesis using s1 s2 a b c d by blast
qed

theorem rank4_tensors_symmetric_witness:
  "NHiggs \<le> length (vevTree (Class_VDM_new \<lparr>C_vev0 = Fin 246\<rparr>
                               \<lparr>vevTree := replicate 6 (Fin 0)\<rparr>)) \<and>
   (11::nat) \<le> length (replicate 11 (Fin 1)) \<and>
   (\<exists>s1 s2. SetCurvatureArrays
               (Class_VDM_new \<lparr>C_vev0 = Fin 246\<rparr>\<lparr>vevTree := replicate 6 (Fin 0)\<rparr>) = Inr s1 \<and>
            set_CT_Pot_Par (CalculatePhysicalCouplings zero_collaborator s1)
              (replicate 11 (Fin 1)) = Inr s2 \<and>
            symmetric4 (Curvature_Higgs_L4 s1) \<and> symmetric4 (Curvature_Higgs_CT_L4 s2))"
proof -
  let ?S = "Class_VDM_new \<lparr>C_vev0 = Fin 246\<rparr>\<lparr>vevTree := replicate 6 (Fin 0)\<rparr>"
  have h: "NHiggs \<le> length (vevTree ?S)" by (simp add: NHiggs_eq)
  have p: "(11::nat) \<le> length (replicate 11 (Fin 1))" by simp
  from rank4_tensors_symmetric[OF h p, of zero_collaborator]
  have "\<exists>s1 s2. SetCurvatureArrays ?S = Inr s1 \<and>
            set_CT_Pot_Par (CalculatePhysicalCouplings zero_collaborator s1)
              (replicate 11 (Fin 1)) = Inr s2 \<and>
            symmetric4 (Curvature_Higgs_L4 s1) \<and> symmetric4 (Curvature_Higgs_CT_L4 s2)"
    by blast
  then show ?thesis using h p by (intro conjI)
qed

section \<open>Contractions at a VEV with two nonzero entries\<close>

lemma plus_cancel_Fin: "x + Fin (- h) + Fin h = x"
  by (cases x) simp_all

lemma sum_dbl_unroll:
  "sum_dbl f = Fin 0 + f 0 + f 1 + f 2 + f 3 + f 4 + f 5"
  by (simp add: sum_dbl_def upt_NHiggs)

lemma assign_is_Fin:
  assumes "list_all (\<lambda>(k, x). is_Fin x) es" and "\<And>k. is_Fin (T k)"
  shows "is_Fin (assign es T k)"
  using assms
proof (induction es arbitrary: T)
  case Nil
  then show ?case by simp
next
  case (Cons e es)
  obtain k' x where e: "e = (k', x)" by (cases e)
  have "is_Fin ((T(k' := x)) j)" for j
    using Cons.prems by (simp add: e)
  moreover have "list_all (\<lambda>(k, x). is_Fin x) es" using Cons.prems(1) by simp
  ultimately show ?case unfolding e assign_Cons by (intro Cons.IH)
qed

lemma L2_is_Fin: "is_Fin (assign (Higgs_L2_entries (Fin a) (Fin b)) (\<lambda>_. Fin 0) k)"
  by (rule assign_is_Fin) (simp_all add: Higgs_L2_entries_def)

lemma L4_is_Fin: "is_Fin (assign (Higgs_L4_entries (Fin a) (Fin b) (Fin c)) (\<lambda>_. Fin 0) k)"
  by (rule assign_is_Fin) (simp_all add: Higgs_L4_entries_def)

lemma CT_L4_is_Fin:
  "is_Fin (assign (Higgs_CT_L4_entries (Fin a) (Fin b) (Fin c)) (\<lambda>_. Fin 0) k)"
  by (rule assign_is_Fin) (simp_all add: Higgs_CT_L4_entries_def)

lemma Hesse_sparse:
  assumes f2: "\<And>k. is_Fin (T2 k)" and f3: "\<And>k. is_Fin (T3 k)" and f4: "\<And>k. is_Fin (T4 k)"
  shows "Hesse T2 T3 T4 [Fin 0, Fin 0, Fin x, Fin 0, Fin y, Fin 0] a b =
    Fin (the_Fin (T2 (a, b)) + (the_Fin (T3 (a, b, 2)) * x + the_Fin (T3 (a, b, 4)) * y) +
      (the_Fin (T4 (a, b, 2, 2)) * x * x + the_Fin (T4 (a, b, 2, 4)) * x * y +
       the_Fin (T4 (a, b, 4, 2)) * y * x + the_Fin (T4 (a, b, 4, 4)) * y * y) / 2)"
proof -
  define t2 where "t2 k = the_Fin (T2 k)" for k
  define t3 where "t3 k = the_Fin (T3 k)" for k
  define t4 where "t4 k = the_Fin (T4 k)" for k
  have e2: "T2 = (\<lambda>k. Fin (t2 k))" using is_Fin_conv[OF f2] by (simp add: t2_def)
  have e3: "T3 = (\<lambda>k. Fin (t3 k))" using is_Fin_conv[OF f3] by (simp add: t3_def)
  have e4: "T4 = (\<lambda>k. Fin (t4 k))" using is_Fin_conv[OF f4] by (simp add: t4_def)
  show ?thesis
    unfolding Hesse_def sum_dbl_unroll e2 e3 e4
    by (simp add: algebra_simps)
qed

lemma Nabla_sparse:
  assumes f1: "\<And>k. is_Fin (T1 k)" and f2: "\<And>k. is_Fin (T2 k)"
    and f3: "\<And>k. is_Fin (T3 k)" and f4: "\<And>k. is_Fin (T4 k)"
  shows "Nabla T1 T2 T3 T4 [Fin 0, Fin 0, Fin x, Fin 0, Fin y, Fin 0] a =
    Fin (the_Fin (T1 a) + (the_Fin (T2 (a, 2)) * x + the_Fin (T2 (a, 4)) * y) +
      (the_Fin (T3 (a, 2, 2)) * x * x + the_Fin (T3 (a, 2, 4)) * x * y +
       the_Fin (T3 (a, 4, 2)) * y * x + the_Fin (T3 (a, 4, 4)) * y * y) / 2 +
      (the_Fin (T4 (a, 2, 2, 2)) * x * x * x + the_Fin (T4 (a, 2, 2, 4)) * x * x * y +
       the_Fin (T4 (a, 2, 4, 2)) * x * y * x + the_Fin (T4 (a, 2, 4, 4)) * x * y * y +
       the_Fin (T4 (a, 4, 2, 2)) * y * x * x + the_Fin (T4 (a, 4, 2, 4)) * y * x * y +
       the_Fin (T4 (a, 4, 4, 2)) * y * y * x + the_Fin (T4 (a, 4, 4, 4)) * y * y * y) / 6)"
proof -
  define t1 where "t1 k = the_Fin (T1 k)" for k
  define t2 where "t2 k = the_Fin (T2 k)" for k
  define t3 where "t3 k = the_Fin (T3 k)" for k
  define t4 where "t4 k = the_Fin (T4 k)" for k
  have e1: "T1 = (\<lambda>k. Fin (t1 k))" using is_Fin_conv[OF f1] by (simp add: t1_def)
  have e2: "T2 = (\<lambda>k. Fin (t2 k))" using is_Fin_conv[OF f2] by (simp add: t2_def)
  have e3: "T3 = (\<lambda>k. Fin (t3 k))" using is_Fin_conv[OF f3] by (simp add: t3_def)
  have e4: "T4 = (\<lambda>k. Fin (t4 k))" using is_Fin_conv[OF f4] by (simp add: t4_def)
  show ?thesis
    unfolding Nabla_def sum_dbl_unroll e1 e2 e3 e4
    by (simp add: algebra_simps add_divide_distrib)
qed

lemma L2_lookups:
  shows "assign (Higgs_L2_entries (Fin a) (Fin b)) (\<lambda>_. Fin 0) (2, 2) = Fin (- a)"
    and "assign (Higgs_L2_entries (Fin a) (Fin b)) (\<lambda>_. Fin 0) (2, 4) = Fin 0"
    and "assign (Higgs_L2_entries (Fin a) (Fin b)) (\<lambda>_. Fin 0) (4, 2) = Fin 0"
    and "assign (Higgs_L2_entries (Fin a) (Fin b)) (\<lambda>_. Fin 0) (4, 4) = Fin (- b)"
    and "assign (Higgs_L2_entries (Fin a) (Fin b)) (\<lambda>_. Fin 0) (0, 2) = Fin 0"
    and "assign (Higgs_L2_entries (Fin a) (Fin b)) (\<lambda>_. Fin 0) (0, 4) = Fin 0"
    and "assign (Higgs_L2_entries (Fin a) (Fin b)) (\<lambda>_. Fin 0) (1, 2) = Fin 0"
    and "assign (Higgs_L2_entries (Fin a) (Fin b)) (\<lambda>_. Fin 0) (1, 4) = Fin 0"
    and "assign (Higgs_L2_entries (Fin a) (Fin b)) (\<lambda>_. Fin 0) (3, 2) = Fin 0"
    and "assign (Higgs_L2_entries (Fin a) (Fin b)) (\<lambda>_. Fin 0) (3, 4) = Fin 0"
    and "assign (Higgs_L2_entries (Fin a) (Fin b)) (\<lambda>_. Fin 0) (5, 2) = Fin 0"
    and "assign (Higgs_L2_entries (Fin a) (Fin b)) (\<lambda>_. Fin 0) (5, 4) = Fin 0"
  by (simp_all add: Higgs_L2_entries_def)

lemma CT_L4_Hesse_lookups:
  shows "assign (Higgs_CT_L4_entries (Fin a) (Fin b) (Fin c)) (\<lambda>_. Fin 0) (2, 2, 2, 2) = Fin (6 * a)"
    and "assign (Higgs_CT_L4_entries (Fin a) (Fin b) (Fin c)) (\<lambda>_. Fin 0) (2, 2, 2, 4) = Fin 0"
    and "assign (Higgs_CT_L4_entries (Fin a) (Fin b) (Fin c)) (\<lambda>_. Fin 0) (2, 2, 4, 2) = Fin 0"
    and "assign (Higgs_CT_L4_entries (Fin a) (Fin b) (Fin c)) (\<lambda>_. Fin 0) (2, 2, 4, 4) = Fin b"
    and "assign (Higgs_CT_L4_entries (Fin a) (Fin b) (Fin c)) (\<lambda>_. Fin 0) (2, 4, 2, 2) = Fin 0"
    and "assign (Higgs_CT_L4_entries (Fin a) (Fin b) (Fin c)) (\<lambda>_. Fin 0) (2, 4, 2, 4) = Fin b"
    and "assign (Higgs_CT_L4_entries (Fin a) (Fin b) (Fin c)) (\<lambda>_. Fin 0) (2, 4, 4, 2) = Fin b"
    and "assign (Higgs_CT_L4_entries (Fin a) (Fin b) (Fin c)) (\<lambda>_. Fin 0) (2, 4, 4, 4) = Fin 0"
    and "assign (Higgs_CT_L4_entries (Fin a) (Fin b) (Fin c)) (\<lambda>_. Fin 0) (4, 2, 2, 2) = Fin 0"
    and "assign (Higgs_CT_L4_entries (Fin a) (Fin b) (Fin c)) (\<lambda>_. Fin 0) (4, 2, 2, 4) = Fin b"
    and "assign (Higgs_CT_L4_entries (Fin a) (Fin b) (Fin c)) (\<lambda>_. Fin 0) (4, 2, 4, 2) = Fin b"
    and "assign (Higgs_CT_L4_entries (Fin a) (Fin b) (Fin c)) (\<lambda>_. Fin 0) (4, 2, 4, 4) = Fin 0"
    and "assign (Higgs_CT_L4_entries (Fin a) (Fin b) (Fin c)) (\<lambda>_. Fin 0) (4, 4, 2, 2) = Fin b"
    and "assign (Higgs_CT_L4_entries (Fin a) (Fin b) (Fin c)) (\<lambda>_. Fin 0) (4, 4, 2, 4) = Fin 0"
    and "assign (Higgs_CT_L4_entries (Fin a) (Fin b) (Fin c)) (\<lambda>_. Fin 0) (4, 4, 4, 2) = Fin 0"
    and "assign (Higgs_CT_L4_entries (Fin a) (Fin b) (Fin c)) (\<lambda>_. Fin 0) (4, 4, 4, 4) = Fin (6 * c)"
  by (simp_all add: assign_lookup_distinct[OF CT_L4_distinct] Higgs_CT_L4_entries_def)

lemma L4_Hesse_lookups:
  shows "assign (Higgs_L4_entries (Fin a) (Fin b) (Fin c)) (\<lambda>_. Fin 0) (2, 2, 2, 2) = Fin (6 * a)"
    and "assign (Higgs_L4_entries (Fin a) (Fin b) (Fin c)) (\<lambda>_. Fin 0) (2, 2, 2, 4) = Fin 0"
    and "assign (Higgs_L4_entries (Fin a) (Fin b) (Fin c)) (\<lambda>_. Fin 0) (2, 2, 4, 2) = Fin 0"
    and "assign (Higgs_L4_entries (Fin a) (Fin b) (Fin c)) (\<lambda>_. Fin 0) (2, 2, 4, 4) = Fin b"
    and "assign (Higgs_L4_entries (Fin a) (Fin b) (Fin c)) (\<lambda>_. Fin 0) (2, 4, 2, 2) = Fin 0"
    and "assign (Higgs_L4_entries (Fin a) (Fin b) (Fin c)) (\<lambda>_. Fin 0) (2, 4, 2, 4) = Fin b"
    and "assign (Higgs_L4_entries (Fin a) (Fin b) (Fin c)) (\<lambda>_. Fin 0) (2, 4, 4, 2) = Fin b"
    and "assign (Higgs_L4_entries (Fin a) (Fin b) (Fin c)) (\<lambda>_. Fin 0) (2, 4, 4, 4) = Fin 0"
    and "assign (Higgs_L4_entries (Fin a) (Fin b) (Fin c)) (\<lambda>_. Fin 0) (4, 2, 2, 2) = Fin 0"
    and "assign (Higgs_L4_entries (Fin a) (Fin b) (Fin c)) (\<lambda>_. Fin 0) (4, 2, 2, 4) = Fin b"
    and "assign (Higgs_L4_entries (Fin a) (Fin b) (Fin c)) (\<lambda>_. Fin 0) (4, 2, 4, 2) = Fin b"
    and "assign (Higgs_L4_entries (Fin a) (Fin b) (Fin c)) (\<lambda>_. Fin 0) (4, 2, 4, 4) = Fin 0"
    and "assign (Higgs_L4_entries (Fin a) (Fin b) (Fin c)) (\<lambda>_. Fin 0) (4, 4, 2, 2) = Fin b"
    and "assign (Higgs_L4_entries (Fin a) (Fin b) (Fin c)) (\<lambda>_. Fin 0) (4, 4, 2, 4) = Fin 0"
    and "assign (Higgs_L4_entries (Fin a) (Fin b) (Fin c)) (\<lambda>_. Fin 0) (4, 4, 4, 2) = Fin 0"
    and "assign (Higgs_L4_entries (Fin a) (Fin b) (Fin c)) (\<lambda>_. Fin 0) (4, 4, 4, 4) = Fin (6 * c)"
  by (simp_all add: assign_lookup_distinct[OF L4_distinct] Higgs_L4_entries_def)

lemma CT_L4_Nabla_lookups:
  shows "assign (Higgs_CT_L4_entries (Fin a) (Fin b) (Fin c)) (\<lambda>_. Fin 0) (0, 2, 2, 2) = Fin 0"
    and "assign (Higgs_CT_L4_entries (Fin a) (Fin b) (Fin c)) (\<lambda>_. Fin 0) (0, 2, 2, 4) = Fin 0"
    and "assign (Higgs_CT_L4_entries (Fin a) (Fin b) (Fin c)) (\<lambda>_. Fin 0) (0, 2, 4, 2) = Fin 0"
    and "assign (Higgs_CT_L4_entries (Fin a) (Fin b) (Fin c)) (\<lambda>_. Fin 0) (0, 2, 4, 4) = Fin 0"
    and "assign (Higgs_CT_L4_entries (Fin a) (Fin b) (Fin c)) (\<lambda>_. Fin 0) (0, 4, 2, 2) = Fin 0"
    and "assign (Higgs_CT_L4_entries (Fin a) (Fin b) (Fin c)) (\<lambda>_. Fin 0) (0, 4, 2, 4) = Fin 0"
    and "assign (Higgs_CT_L4_entries (Fin a) (Fin b) (Fin c)) (\<lambda>_. Fin 0) (0, 4, 4, 2) = Fin 0"
    and "assign (Higgs_CT_L4_entries (Fin a) (Fin b) (Fin c)) (\<lambda>_. Fin 0) (0, 4, 4, 4) = Fin 0"
    and "assign (Higgs_CT_L4_entries (Fin a) (Fin b) (Fin c)) (\<lambda>_. Fin 0) (1, 2, 2, 2) = Fin 0"
    and "assign (Higgs_CT_L4_entries (Fin a) (Fin b) (Fin c)) (\<lambda>_. Fin 0) (1, 2, 2, 4) = Fin 0"
    and "assign (Higgs_CT_L4_entries (Fin a) (Fin b) (Fin c)) (\<lambda>_. Fin 0) (1, 2, 4, 2) = Fin 0"
    and "assign (Higgs_CT_L4_entries (Fin a) (Fin b) (Fin c)) (\<lambda>_. Fin 0) (1, 2, 4, 4) = Fin 0"
    and "assign (Higgs_CT_L4_entries (Fin a) (Fin b) (Fin c)) (\<lambda>_. Fin 0) (1, 4, 2, 2) = Fin 0"
    and "assign (Higgs_CT_L4_entries (Fin a) (Fin b) (Fin c)) (\<lambda>_. Fin 0) (1, 4, 2, 4) = Fin 0"
    and "assign (Higgs_CT_L4_entries (Fin a) (Fin b) (Fin c)) (\<lambda>_. Fin 0) (1, 4, 4, 2) = Fin 0"
    and "assign (Higgs_CT_L4_entries (Fin a) (Fin b) (Fin c)) (\<lambda>_. Fin 0) (1, 4, 4, 4) = Fin 0"
    and "assign (Higgs_CT_L4_entries (Fin a) (Fin b) (Fin c)) (\<lambda>_. Fin 0) (2, 2, 2, 2) = Fin (6 * a)"
    and "assign (Higgs_CT_L4_entries (Fin a) (Fin b) (Fin c)) (\<lambda>_. Fin 0) (2, 2, 2, 4) = Fin 0"
    and "assign (Higgs_CT_L4_entries (Fin a) (Fin b) (Fin c)) (\<lambda>_. Fin 0) (2, 2, 4, 2) = Fin 0"
    and "assign (Higgs_CT_L4_entries (Fin a) (Fin b) (Fin c)) (\<lambda>_. Fin 0) (2, 2, 4, 4) = Fin b"
    and "assign (Higgs_CT_L4_entries (Fin a) (Fin b) (Fin c)) (\<lambda>_. Fin 0) (2, 4, 2, 2) = Fin 0"
    and "assign (Higgs_CT_L4_entries (Fin a) (Fin b) (Fin c)) (\<lambda>_. Fin 0) (2, 4, 2, 4) = Fin b"
    and "assign (Higgs_CT_L4_entries (Fin a) (Fin b) (Fin c)) (\<lambda>_. Fin 0) (2, 4, 4, 2) = Fin b"
    and "assign (Higgs_CT_L4_entries (Fin a) (Fin b) (Fin c)) (\<lambda>_. Fin 0) (2, 4, 4, 4) = Fin 0"
    and "assign (Higgs_CT_L4_entries (Fin a) (Fin b) (Fin c)) (\<lambda>_. Fin 0) (3, 2, 2, 2) = Fin 0"
    and "assign (Higgs_CT_L4_entries (Fin a) (Fin b) (Fin c)) (\<lambda>_. Fin 0) (3, 2, 2, 4) = Fin 0"
    and "assign (Higgs_CT_L4_entries (Fin a) (Fin b) (Fin c)) (\<lambda>_. Fin 0) (3, 2, 4, 2) = Fin 0"
    and "assign (Higgs_CT_L4_entries (Fin a) (Fin b) (Fin c)) (\<lambda>_. Fin 0) (3, 2, 4, 4) = Fin 0"
    and "assign (Higgs_CT_L4_entries (Fin a) (Fin b) (Fin c)) (\<lambda>_. Fin 0) (3, 4, 2, 2) = Fin 0"
    and "assign (Higgs_CT_L4_entries (Fin a) (Fin b) (Fin c)) (\<lambda>_. Fin 0) (3, 4, 2, 4) = Fin 0"
    and "assign (Higgs_CT_L4_entries (Fin a) (Fin b) (Fin c)) (\<lambda>_. Fin 0) (3, 4, 4, 2) = Fin 0"
    and "assign (Higgs_CT_L4_entries (Fin a) (Fin b) (Fin c)) (\<lambda>_. Fin 0) (3, 4, 4, 4) = Fin 0"
    and "assign (Higgs_CT_L4_entries (Fin a) (Fin b) (Fin c)) (\<lambda>_. Fin 0) (4, 2, 2, 2) = Fin 0"
    and "assign (Higgs_CT_L4_entries (Fin a) (Fin b) (Fin c)) (\<lambda>_. Fin 0) (4, 2, 2, 4) = Fin b"
    and "assign (Higgs_CT_L4_entries (Fin a) (Fin b) (Fin c)) (\<lambda>_. Fin 0) (4, 2, 4, 2) = Fin b"
    and "assign (Higgs_CT_L4_entries (Fin a) (Fin b) (Fin c)) (\<lambda>_. Fin 0) (4, 2, 4, 4) = Fin 0"
    and "assign (Higgs_CT_L4_entries (Fin a) (Fin b) (Fin c)) (\<lambda>_. Fin 0) (4, 4, 2, 2) = Fin b"
    and "assign (Higgs_CT_L4_entries (Fin a) (Fin b) (Fin c)) (\<lambda>_. Fin 0) (4, 4, 2, 4) = Fin 0"
    and "assign (Higgs_CT_L4_entries (Fin a) (Fin b) (Fin c)) (\<lambda>_. Fin 0) (4, 4, 4, 2) = Fin 0"
    and "assign (Higgs_CT_L4_entries (Fin a) (Fin b) (Fin c)) (\<lambda>_. Fin 0) (4, 4, 4, 4) = Fin (6 * c)"
    and "assign (Higgs_CT_L4_entries (Fin a) (Fin b) (Fin c)) (\<lambda>_. Fin 0) (5, 2, 2, 2) = Fin 0"
    and "assign (Higgs_CT_L4_entries (Fin a) (Fin b) (Fin c)) (\<lambda>_. Fin 0) (5, 2, 2, 4) = Fin 0"
    and "assign (Higgs_CT_L4_entries (Fin a) (Fin b) (Fin c)) (\<lambda>_. Fin 0) (5, 2, 4, 2) = Fin 0"
    and "assign (Higgs_CT_L4_entries (Fin a) (Fin b) (Fin c)) (\<lambda>_. Fin 0) (5, 2, 4, 4) = Fin 0"
    and "assign (Higgs_CT_L4_entries (Fin a) (Fin b) (Fin c)) (\<lambda>_. Fin 0) (5, 4, 2, 2) = Fin 0"
    and "assign (Higgs_CT_L4_entries (Fin a) (Fin b) (Fin c)) (\<lambda>_. Fin 0) (5, 4, 2, 4) = Fin 0"
    and "assign (Higgs_CT_L4_entries (Fin a) (Fin b) (Fin c)) (\<lambda>_. Fin 0) (5, 4, 4, 2) = Fin 0"
    and "assign (Higgs_CT_L4_entries (Fin a) (Fin b) (Fin c)) (\<lambda>_. Fin 0) (5, 4, 4, 4) = Fin 0"
  by (simp_all add: assign_lookup_distinct[OF CT_L4_distinct] Higgs_CT_L4_entries_def)

section \<open>The counterterms of \<open>calc_CT\<close> in the counterterm tensors\<close>

lemma pow_dbl_m2: "x \<noteq> 0 \<Longrightarrow> pow_dbl (Fin x) (- 2) = Fin (1 / (x * x))"
  by (simp add: power_int_minus power2_eq_square divide_simps)

lemma HesseWeinberg_Fin:
  assumes "NHiggs * NHiggs \<le> length hw"
  shows "HesseWeinberg (map Fin hw) 2 2 = Fin (hw ! 14)"
    and "HesseWeinberg (map Fin hw) 2 4 = Fin (hw ! 26)"
    and "HesseWeinberg (map Fin hw) 4 2 = Fin (hw ! 16)"
    and "HesseWeinberg (map Fin hw) 3 3 = Fin (hw ! 21)"
    and "HesseWeinberg (map Fin hw) 4 4 = Fin (hw ! 28)"
    and "HesseWeinberg (map Fin hw) 5 5 = Fin (hw ! 35)"
proof -
  have "36 \<le> length hw" using assms by (simp add: NHiggs_eq)
  moreover from this have "hw \<noteq> []" by auto
  ultimately show "HesseWeinberg (map Fin hw) 2 2 = Fin (hw ! 14)"
    and "HesseWeinberg (map Fin hw) 2 4 = Fin (hw ! 26)"
    and "HesseWeinberg (map Fin hw) 4 2 = Fin (hw ! 16)"
    and "HesseWeinberg (map Fin hw) 3 3 = Fin (hw ! 21)"
    and "HesseWeinberg (map Fin hw) 4 4 = Fin (hw ! 28)"
    and "HesseWeinberg (map Fin hw) 5 5 = Fin (hw ! 35)"
    by (simp_all add: HesseWeinberg_def NHiggs_eq)
qed

lemma NablaWeinberg_Fin:
  assumes "NHiggs \<le> length nw"
  shows "map Fin nw ! 0 = Fin (nw ! 0)" "map Fin nw ! 1 = Fin (nw ! 1)"
    "map Fin nw ! 2 = Fin (nw ! 2)" "map Fin nw ! 3 = Fin (nw ! 3)"
    "map Fin nw ! 4 = Fin (nw ! 4)" "map Fin nw ! 5 = Fin (nw ! 5)"
proof -
  have "6 \<le> length nw" using assms by (simp add: NHiggs_eq)
  moreover from this have "nw \<noteq> []" by auto
  ultimately show "map Fin nw ! 0 = Fin (nw ! 0)" "map Fin nw ! 1 = Fin (nw ! 1)"
    "map Fin nw ! 2 = Fin (nw ! 2)" "map Fin nw ! 3 = Fin (nw ! 3)"
    "map Fin nw ! 4 = Fin (nw ! 4)" "map Fin nw ! 5 = Fin (nw ! 5)"
    by simp_all
qed

lemma calc_CT_Fin:
  assumes g: "SetCurvatureDone s" "CalcCouplingsdone s"
    and vv: "v s = Fin x" "vs s = Fin y" and nz: "x \<noteq> 0" "y \<noteq> 0"
    and len: "NHiggs \<le> length nw" "NHiggs * NHiggs \<le> length hw"
  shows "calc_CT s (map Fin nw) (map Fin hw) = Inr
    [Fin ((- (hw ! 14) * x - hw ! 26 * y + 3 * (hw ! 21) * x) / x / 2),
     Fin ((- (hw ! 14) + hw ! 21) * (1 / (x * x)) / 2),
     Fin (- (hw ! 26) / x / y),
     Fin ((- (hw ! 26) * x - y * (hw ! 28 - 3 * (hw ! 35))) / y / 2),
     Fin ((- (hw ! 28) + hw ! 35) * (1 / (y * y)) / 2),
     Fin (- (nw ! 0)), Fin (- (nw ! 1)), Fin (hw ! 21 * x - nw ! 2), Fin (- (nw ! 3)),
     Fin (hw ! 35 * y - nw ! 4), Fin (- (nw ! 5))]"
  unfolding calc_CT_def Let_def HesseWeinberg_Fin[OF len(2)] NablaWeinberg_Fin[OF len(1)] vv
    pow_dbl_m2[OF nz(1)] pow_dbl_m2[OF nz(2)]
  using g len nz by simp

lemma init_CT_state:
  assumes fresh: "\<not> SetCurvatureDone s"
    and cv: "C_vev0 (SMConstants s) = Fin x" and x: "x \<noteq> 0"
    and par: "6 \<le> length par" "par ! 3 = Fin y" and y: "y \<noteq> 0"
    and len: "NHiggs \<le> length nw" "NHiggs * NHiggs \<le> length hw"
  shows "\<exists>s1 s3. set_gen s par = Inr s1 \<and>
    init_CT ext s par (map Fin nw) (map Fin hw) = Inr s3 \<and>
    vevTree s3 = [Fin 0, Fin 0, Fin x, Fin 0, Fin y, Fin 0] \<and>
    v s3 = Fin x \<and> vs s3 = Fin y \<and>
    Curvature_Higgs_L1 s3 = (\<lambda>_. Fin 0) \<and>
    Curvature_Higgs_L2 s3 = Curvature_Higgs_L2 s1 \<and>
    Curvature_Higgs_L3 s3 = (\<lambda>_. Fin 0) \<and>
    Curvature_Higgs_L4 s3 = Curvature_Higgs_L4 s1 \<and>
    Curvature_Higgs_CT_L1 s3 =
      assign [(0, Fin (- (nw ! 0))), (1, Fin (- (nw ! 1))), (2, Fin (hw ! 21 * x - nw ! 2)),
              (3, Fin (- (nw ! 3))), (4, Fin (hw ! 35 * y - nw ! 4)), (5, Fin (- (nw ! 5)))]
        (\<lambda>_. Fin 0) \<and>
    Curvature_Higgs_CT_L2 s3 =
      assign (Higgs_L2_entries
          (Fin ((- (hw ! 14) * x - hw ! 26 * y + 3 * (hw ! 21) * x) / x / 2))
          (Fin ((- (hw ! 26) * x - y * (hw ! 28 - 3 * (hw ! 35))) / y / 2))) (\<lambda>_. Fin 0) \<and>
    Curvature_Higgs_CT_L3 s3 = (\<lambda>_. Fin 0) \<and>
    Curvature_Higgs_CT_L4 s3 =
      assign (Higgs_CT_L4_entries
          (Fin ((- (hw ! 14) + hw ! 21) * (1 / (x * x)) / 2))
          (Fin (- (hw ! 26) / x / y))
          (Fin ((- (hw ! 28) + hw ! 35) * (1 / (y * y)) / 2))) (\<lambda>_. Fin 0)"
proof -
  from par(1) obtain s1 where s1: "set_gen s par = Inr s1" using set_gen_Inr by blast
  let ?s2 = "CalculatePhysicalCouplings ext s1"
  let ?ct = "[Fin ((- (hw ! 14) * x - hw ! 26 * y + 3 * (hw ! 21) * x) / x / 2),
     Fin ((- (hw ! 14) + hw ! 21) * (1 / (x * x)) / 2),
     Fin (- (hw ! 26) / x / y),
     Fin ((- (hw ! 26) * x - y * (hw ! 28 - 3 * (hw ! 35))) / y / 2),
     Fin ((- (hw ! 28) + hw ! 35) * (1 / (y * y)) / 2),
     Fin (- (nw ! 0)), Fin (- (nw ! 1)), Fin (hw ! 21 * x - nw ! 2), Fin (- (nw ! 3)),
     Fin (hw ! 35 * y - nw ! 4), Fin (- (nw ! 5))]"
  have v1: "v s1 = Fin x" "vs s1 = Fin y"
    using set_gen_fields(3,4)[OF s1] cv par(2) by simp_all
  have t1: "vevTree s1 = [Fin 0, Fin 0, Fin x, Fin 0, Fin y, Fin 0]"
    using set_gen_fields(13)[OF s1] v1 by simp
  have c: "calc_CT ?s2 (map Fin nw) (map Fin hw) = Inr ?ct"
    by (rule calc_CT_Fin)
      (simp_all add: CalculatePhysicalCouplings_fields set_gen_fields(19)[OF s1] v1 x y len)
  have e: "NHiggs \<le> Curvature_Higgs_extent ?s2"
    by (simp add: CalculatePhysicalCouplings_fields set_gen_tensors(10)[OF s1 fresh])
  have "11 \<le> length ?ct" by simp
  then obtain s3 where s3: "set_CT_Pot_Par ?s2 ?ct = Inr s3"
    using set_CT_Pot_Par_Inr e by blast
  have i: "init_CT ext s par (map Fin nw) (map Fin hw) = Inr s3"
    unfolding init_CT_def s1 and_then_simps c s3 ..
  note T = set_gen_tensors[OF s1 fresh]
  note F = set_CT_Pot_Par_fields[OF s3, unfolded CalculatePhysicalCouplings_fields]
  show ?thesis
    using s1 i F(2-5) T(2-9) F(6-12) v1 t1 by simp
qed

section \<open>Mass matching\<close>

lemma VCounter_Hesse_matching:
  assumes fresh: "\<not> SetCurvatureDone s"
    and cv: "C_vev0 (SMConstants s) = Fin x" and x: "x \<noteq> 0"
    and par: "6 \<le> length par" "par ! 3 = Fin y" and y: "y \<noteq> 0"
    and len: "NHiggs \<le> length nw" "NHiggs * NHiggs \<le> length hw"
  shows "\<exists>s3. init_CT ext s par (map Fin nw) (map Fin hw) = Inr s3 \<and>
    VCounter_Hesse s3 (vevTree s3) 2 2 = Fin (- (hw ! 14)) \<and>
    VCounter_Hesse s3 (vevTree s3) 2 4 = Fin (- (hw ! 26)) \<and>
    VCounter_Hesse s3 (vevTree s3) 4 2 = Fin (- (hw ! 26)) \<and>
    VCounter_Hesse s3 (vevTree s3) 4 4 = Fin (- (hw ! 28))"
proof -
  from init_CT_state[OF assms, of ext] obtain s3
    where i: "init_CT ext s par (map Fin nw) (map Fin hw) = Inr s3"
      and t: "vevTree s3 = [Fin 0, Fin 0, Fin x, Fin 0, Fin y, Fin 0]"
      and c2: "Curvature_Higgs_CT_L2 s3 =
        assign (Higgs_L2_entries
          (Fin ((- (hw ! 14) * x - hw ! 26 * y + 3 * (hw ! 21) * x) / x / 2))
          (Fin ((- (hw ! 26) * x - y * (hw ! 28 - 3 * (hw ! 35))) / y / 2))) (\<lambda>_. Fin 0)"
      and c3: "Curvature_Higgs_CT_L3 s3 = (\<lambda>_. Fin 0)"
      and c4: "Curvature_Higgs_CT_L4 s3 =
        assign (Higgs_CT_L4_entries
          (Fin ((- (hw ! 14) + hw ! 21) * (1 / (x * x)) / 2))
          (Fin (- (hw ! 26) / x / y))
          (Fin ((- (hw ! 28) + hw ! 35) * (1 / (y * y)) / 2))) (\<lambda>_. Fin 0)"
    by blast
  have H: "VCounter_Hesse s3 (vevTree s3) a b =
    Fin (the_Fin (Curvature_Higgs_CT_L2 s3 (a, b)) +
      (the_Fin (Curvature_Higgs_CT_L3 s3 (a, b, 2)) * x +
       the_Fin (Curvature_Higgs_CT_L3 s3 (a, b, 4)) * y) +
      (the_Fin (Curvature_Higgs_CT_L4 s3 (a, b, 2, 2)) * x * x +
       the_Fin (Curvature_Higgs_CT_L4 s3 (a, b, 2, 4)) * x * y +
       the_Fin (Curvature_Higgs_CT_L4 s3 (a, b, 4, 2)) * y * x +
       the_Fin (Curvature_Higgs_CT_L4 s3 (a, b, 4, 4)) * y * y) / 2)" for a b
    unfolding VCounter_Hesse_def t
    by (rule Hesse_sparse) (simp_all add: c2 c3 c4 L2_is_Fin CT_L4_is_Fin)
  have "VCounter_Hesse s3 (vevTree s3) 2 2 = Fin (- (hw ! 14))"
    unfolding H unfolding c2 c3 c4 L2_lookups CT_L4_Hesse_lookups the_Fin_Fin
    using x y by (simp add: field_simps)
  moreover have "VCounter_Hesse s3 (vevTree s3) 2 4 = Fin (- (hw ! 26))"
    unfolding H unfolding c2 c3 c4 L2_lookups CT_L4_Hesse_lookups the_Fin_Fin
    using x y by (simp add: field_simps)
  moreover have "VCounter_Hesse s3 (vevTree s3) 4 2 = Fin (- (hw ! 26))"
    unfolding H unfolding c2 c3 c4 L2_lookups CT_L4_Hesse_lookups the_Fin_Fin
    using x y by (simp add: field_simps)
  moreover have "VCounter_Hesse s3 (vevTree s3) 4 4 = Fin (- (hw ! 28))"
    unfolding H unfolding c2 c3 c4 L2_lookups CT_L4_Hesse_lookups the_Fin_Fin
    using x y by (simp add: field_simps)
  ultimately show ?thesis using i by blast
qed

text \<open>
  C2. On a new object with finite nonzero \<open>C_vev0\<close> and hidden-sector VEV, and finite
  one-loop derivatives, the run \<open>set_gen\<close>, diagonalization, \<open>calc_CT\<close>, \<open>set_CT_Pot_Par\<close>
  succeeds, and the Hessian of the counterterm potential at the tree-level VEV is the
  negative of the one-loop Hessian at the entries (2,2), (2,4) and (4,4); at (4,2) it is
  the negative of the one-loop entry (2,4), the only one of the two \<open>calc_CT\<close> reads, which
  is the entry (4,2) of a symmetric Hessian. At each of these entries the sum of the
  tree-level, counterterm and one-loop Hessians is the tree-level Hessian.
\<close>

theorem counterterm_mass_matching:
  assumes "\<not> SetCurvatureDone s"
    and "C_vev0 (SMConstants s) = Fin x" and "x \<noteq> 0"
    and "6 \<le> length par" and "par ! 3 = Fin y" and "y \<noteq> 0"
    and "NHiggs \<le> length nw" and "NHiggs * NHiggs \<le> length hw"
  shows "\<exists>s3. init_CT ext s par (map Fin nw) (map Fin hw) = Inr s3 \<and>
    VCounter_Hesse s3 (vevTree s3) 2 2 = - HesseWeinberg (map Fin hw) 2 2 \<and>
    VCounter_Hesse s3 (vevTree s3) 2 4 = - HesseWeinberg (map Fin hw) 2 4 \<and>
    VCounter_Hesse s3 (vevTree s3) 4 2 = - HesseWeinberg (map Fin hw) 2 4 \<and>
    VCounter_Hesse s3 (vevTree s3) 4 4 = - HesseWeinberg (map Fin hw) 4 4 \<and>
    (HesseWeinberg (map Fin hw) 4 2 = HesseWeinberg (map Fin hw) 2 4 \<longrightarrow>
       VCounter_Hesse s3 (vevTree s3) 4 2 = - HesseWeinberg (map Fin hw) 4 2) \<and>
    VTree_Hesse s3 (vevTree s3) 2 2 + VCounter_Hesse s3 (vevTree s3) 2 2 +
      HesseWeinberg (map Fin hw) 2 2 = VTree_Hesse s3 (vevTree s3) 2 2 \<and>
    VTree_Hesse s3 (vevTree s3) 2 4 + VCounter_Hesse s3 (vevTree s3) 2 4 +
      HesseWeinberg (map Fin hw) 2 4 = VTree_Hesse s3 (vevTree s3) 2 4 \<and>
    VTree_Hesse s3 (vevTree s3) 4 2 + VCounter_Hesse s3 (vevTree s3) 4 2 +
      HesseWeinberg (map Fin hw) 2 4 = VTree_Hesse s3 (vevTree s3) 4 2 \<and>
    VTree_Hesse s3 (vevTree s3) 4 4 + VCounter_Hesse s3 (vevTree s3) 4 4 +
      HesseWeinberg (map Fin hw) 4 4 = VTree_Hesse s3 (vevTree s3) 4 4"
proof -
  from VCounter_Hesse_matching[OF assms, of ext] obtain s3
    where i: "init_CT ext s par (map Fin nw) (map Fin hw) = Inr s3"
      and h: "VCounter_Hesse s3 (vevTree s3) 2 2 = Fin (- (hw ! 14))"
        "VCounter_Hesse s3 (vevTree s3) 2 4 = Fin (- (hw ! 26))"
        "VCounter_Hesse s3 (vevTree s3) 4 2 = Fin (- (hw ! 26))"
        "VCounter_Hesse s3 (vevTree s3) 4 4 = Fin (- (hw ! 28))"
    by blast
  note W = HesseWeinberg_Fin[OF assms(8)]
  show ?thesis
    by (rule exI[of _ s3]) (simp add: i h W plus_cancel_Fin)
qed

theorem counterterm_mass_matching_witness:
  "\<not> SetCurvatureDone (Class_VDM_new \<lparr>C_vev0 = Fin 246\<rparr>) \<and>
   C_vev0 (SMConstants (Class_VDM_new \<lparr>C_vev0 = Fin 246\<rparr>)) = Fin 246 \<and> (246::real) \<noteq> 0 \<and>
   (6::nat) \<le> length [Fin 95, Fin 650, Fin 246, Fin 1000, Fin (3 / 10), Fin 1000] \<and>
   [Fin 95, Fin 650, Fin 246, Fin 1000, Fin (3 / 10), Fin 1000] ! 3 = Fin 1000 \<and>
   (1000::real) \<noteq> 0 \<and>
   NHiggs \<le> length (replicate 6 (1::real)) \<and>
   NHiggs * NHiggs \<le> length (replicate 36 (2::real)) \<and>
   (\<exists>s3. init_CT zero_collaborator (Class_VDM_new \<lparr>C_vev0 = Fin 246\<rparr>)
            [Fin 95, Fin 650, Fin 246, Fin 1000, Fin (3 / 10), Fin 1000]
            (map Fin (replicate 6 1)) (map Fin (replicate 36 2)) = Inr s3 \<and>
          VCounter_Hesse s3 (vevTree s3) 2 2 = Fin (- 2) \<and>
          VCounter_Hesse s3 (vevTree s3) 2 4 = Fin (- 2) \<and>
          VCounter_Hesse s3 (vevTree s3) 4 4 = Fin (- 2))"
proof -
  let ?S = "Class_VDM_new \<lparr>C_vev0 = Fin 246\<rparr>"
  let ?P = "[Fin 95, Fin 650, Fin 246, Fin 1000, Fin (3 / 10), Fin 1000]"
  have a: "\<not> SetCurvatureDone ?S" "C_vev0 (SMConstants ?S) = Fin 246"
    by (simp_all add: Class_VDM_new_def)
  have b: "(246::real) \<noteq> 0" "(1000::real) \<noteq> 0" by simp_all
  have c: "(6::nat) \<le> length ?P" "?P ! 3 = Fin 1000" by simp_all
  have d: "NHiggs \<le> length (replicate 6 (1::real))"
    "NHiggs * NHiggs \<le> length (replicate 36 (2::real))"
    by (simp_all add: NHiggs_eq)
  have w: "HesseWeinberg (map Fin (replicate 36 2)) 2 2 = Fin 2"
    "HesseWeinberg (map Fin (replicate 36 2)) 2 4 = Fin 2"
    "HesseWeinberg (map Fin (replicate 36 2)) 4 4 = Fin 2"
    by (simp_all add: HesseWeinberg_def NHiggs_eq)
  from counterterm_mass_matching[OF a(1) a(2) b(1) c(1) c(2) b(2) d, of zero_collaborator]
  obtain s3 where "init_CT zero_collaborator ?S ?P (map Fin (replicate 6 1))
      (map Fin (replicate 36 2)) = Inr s3"
    "VCounter_Hesse s3 (vevTree s3) 2 2 = - HesseWeinberg (map Fin (replicate 36 2)) 2 2"
    "VCounter_Hesse s3 (vevTree s3) 2 4 = - HesseWeinberg (map Fin (replicate 36 2)) 2 4"
    "VCounter_Hesse s3 (vevTree s3) 4 4 = - HesseWeinberg (map Fin (replicate 36 2)) 4 4"
    by blast
  then have "\<exists>s3. init_CT zero_collaborator ?S ?P (map Fin (replicate 6 1))
      (map Fin (replicate 36 2)) = Inr s3 \<and>
          VCounter_Hesse s3 (vevTree s3) 2 2 = Fin (- 2) \<and>
          VCounter_Hesse s3 (vevTree s3) 2 4 = Fin (- 2) \<and>
          VCounter_Hesse s3 (vevTree s3) 4 4 = Fin (- 2)"
    unfolding w by auto
  then show ?thesis using a b c d by (intro conjI)
qed

section \<open>Tadpole matching\<close>

lemma CT_L1_lookups:
  fixes d0 :: dbl
  shows "assign [(0::nat, d0), (1, d1), (2, d2), (3, d3), (4, d4), (5, d5)] (\<lambda>_. Fin 0) 0 = d0"
    and "assign [(0::nat, d0), (1, d1), (2, d2), (3, d3), (4, d4), (5, d5)] (\<lambda>_. Fin 0) 1 = d1"
    and "assign [(0::nat, d0), (1, d1), (2, d2), (3, d3), (4, d4), (5, d5)] (\<lambda>_. Fin 0) 2 = d2"
    and "assign [(0::nat, d0), (1, d1), (2, d2), (3, d3), (4, d4), (5, d5)] (\<lambda>_. Fin 0) 3 = d3"
    and "assign [(0::nat, d0), (1, d1), (2, d2), (3, d3), (4, d4), (5, d5)] (\<lambda>_. Fin 0) 4 = d4"
    and "assign [(0::nat, d0), (1, d1), (2, d2), (3, d3), (4, d4), (5, d5)] (\<lambda>_. Fin 0) 5 = d5"
  by simp_all

lemma CT_L1_is_Fin:
  "is_Fin (assign [(0::nat, Fin d0), (1, Fin d1), (2, Fin d2), (3, Fin d3), (4, Fin d4),
      (5, Fin d5)] (\<lambda>_. Fin 0) k)"
  by (rule assign_is_Fin) simp_all

lemma less6_cases:
  assumes "i < (6::nat)"
  obtains "i = 0" | "i = 1" | "i = 2" | "i = 3" | "i = 4" | "i = 5"
  using assms by arith

lemma tadpole_sums:
  assumes fresh: "\<not> SetCurvatureDone s"
    and cv: "C_vev0 (SMConstants s) = Fin x" and x: "x \<noteq> 0"
    and par: "6 \<le> length par" "par ! 3 = Fin y" and y: "y \<noteq> 0"
    and len: "NHiggs \<le> length nw" "NHiggs * NHiggs \<le> length hw"
  shows "\<exists>s3. init_CT ext s par (map Fin nw) (map Fin hw) = Inr s3 \<and>
    v s3 = Fin x \<and> vs s3 = Fin y \<and>
    tadpole_sum (map Fin nw) 0 s3 = Fin 0 \<and>
    tadpole_sum (map Fin nw) 1 s3 = Fin 0 \<and>
    tadpole_sum (map Fin nw) 2 s3 = Fin (hw ! 21 * x) \<and>
    tadpole_sum (map Fin nw) 3 s3 = Fin 0 \<and>
    tadpole_sum (map Fin nw) 4 s3 = Fin (hw ! 35 * y) \<and>
    tadpole_sum (map Fin nw) 5 s3 = Fin 0 \<and>
    (\<forall>i<6. VCounter_Nabla s3 (vevTree s3) i + map Fin nw ! i = Fin 0)"
proof -
  from init_CT_state[OF assms, of ext] obtain s3
    where i: "init_CT ext s par (map Fin nw) (map Fin hw) = Inr s3"
      and t: "vevTree s3 = [Fin 0, Fin 0, Fin x, Fin 0, Fin y, Fin 0]"
      and vv: "v s3 = Fin x" "vs s3 = Fin y"
      and l1: "Curvature_Higgs_L1 s3 = (\<lambda>_. Fin 0)"
      and c1: "Curvature_Higgs_CT_L1 s3 =
        assign [(0, Fin (- (nw ! 0))), (1, Fin (- (nw ! 1))), (2, Fin (hw ! 21 * x - nw ! 2)),
              (3, Fin (- (nw ! 3))), (4, Fin (hw ! 35 * y - nw ! 4)), (5, Fin (- (nw ! 5)))]
          (\<lambda>_. Fin 0)"
      and c2: "Curvature_Higgs_CT_L2 s3 =
        assign (Higgs_L2_entries
          (Fin ((- (hw ! 14) * x - hw ! 26 * y + 3 * (hw ! 21) * x) / x / 2))
          (Fin ((- (hw ! 26) * x - y * (hw ! 28 - 3 * (hw ! 35))) / y / 2))) (\<lambda>_. Fin 0)"
      and c3: "Curvature_Higgs_CT_L3 s3 = (\<lambda>_. Fin 0)"
      and c4: "Curvature_Higgs_CT_L4 s3 =
        assign (Higgs_CT_L4_entries
          (Fin ((- (hw ! 14) + hw ! 21) * (1 / (x * x)) / 2))
          (Fin (- (hw ! 26) / x / y))
          (Fin ((- (hw ! 28) + hw ! 35) * (1 / (y * y)) / 2))) (\<lambda>_. Fin 0)"
    by blast
  note N = NablaWeinberg_Fin[OF len(1)]
  have S: "tadpole_sum (map Fin nw) 0 s3 = Fin 0"
    "tadpole_sum (map Fin nw) 1 s3 = Fin 0"
    "tadpole_sum (map Fin nw) 2 s3 = Fin (hw ! 21 * x)"
    "tadpole_sum (map Fin nw) 3 s3 = Fin 0"
    "tadpole_sum (map Fin nw) 4 s3 = Fin (hw ! 35 * y)"
    "tadpole_sum (map Fin nw) 5 s3 = Fin 0"
    unfolding tadpole_sum_def l1 c1 CT_L1_lookups N by simp_all
  have G: "VCounter_Nabla s3 (vevTree s3) a =
    Fin (the_Fin (Curvature_Higgs_CT_L1 s3 a) +
      (the_Fin (Curvature_Higgs_CT_L2 s3 (a, 2)) * x +
       the_Fin (Curvature_Higgs_CT_L2 s3 (a, 4)) * y) +
      (the_Fin (Curvature_Higgs_CT_L3 s3 (a, 2, 2)) * x * x +
       the_Fin (Curvature_Higgs_CT_L3 s3 (a, 2, 4)) * x * y +
       the_Fin (Curvature_Higgs_CT_L3 s3 (a, 4, 2)) * y * x +
       the_Fin (Curvature_Higgs_CT_L3 s3 (a, 4, 4)) * y * y) / 2 +
      (the_Fin (Curvature_Higgs_CT_L4 s3 (a, 2, 2, 2)) * x * x * x +
       the_Fin (Curvature_Higgs_CT_L4 s3 (a, 2, 2, 4)) * x * x * y +
       the_Fin (Curvature_Higgs_CT_L4 s3 (a, 2, 4, 2)) * x * y * x +
       the_Fin (Curvature_Higgs_CT_L4 s3 (a, 2, 4, 4)) * x * y * y +
       the_Fin (Curvature_Higgs_CT_L4 s3 (a, 4, 2, 2)) * y * x * x +
       the_Fin (Curvature_Higgs_CT_L4 s3 (a, 4, 2, 4)) * y * x * y +
       the_Fin (Curvature_Higgs_CT_L4 s3 (a, 4, 4, 2)) * y * y * x +
       the_Fin (Curvature_Higgs_CT_L4 s3 (a, 4, 4, 4)) * y * y * y) / 6)" for a
    unfolding VCounter_Nabla_def t
    by (rule Nabla_sparse) (simp_all add: c1 c2 c3 c4 CT_L1_is_Fin L2_is_Fin CT_L4_is_Fin)
  have g0: "VCounter_Nabla s3 (vevTree s3) 0 + map Fin nw ! 0 = Fin 0"
    unfolding G unfolding c1 c2 c3 c4 CT_L1_lookups L2_lookups CT_L4_Nabla_lookups the_Fin_Fin N
    by simp
  have g1: "VCounter_Nabla s3 (vevTree s3) 1 + map Fin nw ! 1 = Fin 0"
    unfolding G unfolding c1 c2 c3 c4 CT_L1_lookups L2_lookups CT_L4_Nabla_lookups the_Fin_Fin N
    by simp
  have g2: "VCounter_Nabla s3 (vevTree s3) 2 + map Fin nw ! 2 = Fin 0"
    unfolding G unfolding c1 c2 c3 c4 CT_L1_lookups L2_lookups CT_L4_Nabla_lookups the_Fin_Fin N
    using x y by (simp add: field_simps)
  have g3: "VCounter_Nabla s3 (vevTree s3) 3 + map Fin nw ! 3 = Fin 0"
    unfolding G unfolding c1 c2 c3 c4 CT_L1_lookups L2_lookups CT_L4_Nabla_lookups the_Fin_Fin N
    by simp
  have g4: "VCounter_Nabla s3 (vevTree s3) 4 + map Fin nw ! 4 = Fin 0"
    unfolding G unfolding c1 c2 c3 c4 CT_L1_lookups L2_lookups CT_L4_Nabla_lookups the_Fin_Fin N
    using x y by (simp add: field_simps)
  have g5: "VCounter_Nabla s3 (vevTree s3) 5 + map Fin nw ! 5 = Fin 0"
    unfolding G unfolding c1 c2 c3 c4 CT_L1_lookups L2_lookups CT_L4_Nabla_lookups the_Fin_Fin N
    by simp
  have g: "\<forall>i<6. VCounter_Nabla s3 (vevTree s3) i + map Fin nw ! i = Fin 0"
  proof (intro allI impI)
    fix i :: nat
    assume "i < 6"
    then show "VCounter_Nabla s3 (vevTree s3) i + map Fin nw ! i = Fin 0"
      by (rule less6_cases) (simp_all only: g0 g1 g2 g3 g4 g5)
  qed
  show ?thesis using i vv S g by blast
qed

text \<open>
  C3 (as the code has it). After \<open>calc_CT\<close> and \<open>set_CT_Pot_Par\<close> the sum of the tree-level
  rank-1 entry, the counterterm rank-1 entry \<open>Curvature_Higgs_CT_L1[i]\<close> and
  \<open>NablaWeinberg(i)\<close> is zero in the directions 0, 1, 3 and 5 that carry no VEV. In the
  two VEV directions the counterterm \<open>dT3\<close> (\<open>dT5\<close>) carries the offset of the spec's
  tadpole condition, and the sum is \<open>HesseWeinberg(3,3) * v\<close> in direction 2 and
  \<open>HesseWeinberg(5,5) * vs\<close> in direction 4. What is zero in every direction is the first
  derivative of the whole counterterm potential at the tree-level VEV plus the one-loop
  gradient.
\<close>

theorem counterterm_tadpole_matching:
  assumes "\<not> SetCurvatureDone s"
    and "C_vev0 (SMConstants s) = Fin x" and "x \<noteq> 0"
    and "6 \<le> length par" and "par ! 3 = Fin y" and "y \<noteq> 0"
    and "NHiggs \<le> length nw" and "NHiggs * NHiggs \<le> length hw"
  shows "\<exists>s3. init_CT ext s par (map Fin nw) (map Fin hw) = Inr s3 \<and>
    tadpole_sum (map Fin nw) 0 s3 = Fin 0 \<and>
    tadpole_sum (map Fin nw) 1 s3 = Fin 0 \<and>
    tadpole_sum (map Fin nw) 2 s3 = HesseWeinberg (map Fin hw) 3 3 * v s3 \<and>
    tadpole_sum (map Fin nw) 3 s3 = Fin 0 \<and>
    tadpole_sum (map Fin nw) 4 s3 = HesseWeinberg (map Fin hw) 5 5 * vs s3 \<and>
    tadpole_sum (map Fin nw) 5 s3 = Fin 0 \<and>
    (\<forall>i<6. VCounter_Nabla s3 (vevTree s3) i + map Fin nw ! i = Fin 0)"
proof -
  from tadpole_sums[OF assms, of ext] obtain s3
    where i: "init_CT ext s par (map Fin nw) (map Fin hw) = Inr s3"
      and vv: "v s3 = Fin x" "vs s3 = Fin y"
      and S: "tadpole_sum (map Fin nw) 0 s3 = Fin 0"
        "tadpole_sum (map Fin nw) 1 s3 = Fin 0"
        "tadpole_sum (map Fin nw) 2 s3 = Fin (hw ! 21 * x)"
        "tadpole_sum (map Fin nw) 3 s3 = Fin 0"
        "tadpole_sum (map Fin nw) 4 s3 = Fin (hw ! 35 * y)"
        "tadpole_sum (map Fin nw) 5 s3 = Fin 0"
      and g: "\<forall>i<6. VCounter_Nabla s3 (vevTree s3) i + map Fin nw ! i = Fin 0"
    by blast
  note W = HesseWeinberg_Fin[OF assms(8)]
  have s2: "tadpole_sum (map Fin nw) 2 s3 = HesseWeinberg (map Fin hw) 3 3 * v s3"
    unfolding S W vv by simp
  have s4: "tadpole_sum (map Fin nw) 4 s3 = HesseWeinberg (map Fin hw) 5 5 * vs s3"
    unfolding S W vv by simp
  show ?thesis
    using i S(1,2,4,6) s2 s4 g by blast
qed

theorem counterterm_tadpole_matching_witness:
  "\<not> SetCurvatureDone (Class_VDM_new \<lparr>C_vev0 = Fin 246\<rparr>) \<and>
   C_vev0 (SMConstants (Class_VDM_new \<lparr>C_vev0 = Fin 246\<rparr>)) = Fin 246 \<and> (246::real) \<noteq> 0 \<and>
   (6::nat) \<le> length [Fin 95, Fin 650, Fin 246, Fin 1000, Fin (3 / 10), Fin 1000] \<and>
   [Fin 95, Fin 650, Fin 246, Fin 1000, Fin (3 / 10), Fin 1000] ! 3 = Fin 1000 \<and>
   (1000::real) \<noteq> 0 \<and>
   NHiggs \<le> length (replicate 6 (1::real)) \<and>
   NHiggs * NHiggs \<le> length (replicate 36 (2::real)) \<and>
   (\<exists>s3. init_CT zero_collaborator (Class_VDM_new \<lparr>C_vev0 = Fin 246\<rparr>)
            [Fin 95, Fin 650, Fin 246, Fin 1000, Fin (3 / 10), Fin 1000]
            (map Fin (replicate 6 1)) (map Fin (replicate 36 2)) = Inr s3 \<and>
          tadpole_sum (map Fin (replicate 6 1)) 0 s3 = Fin 0 \<and>
          VCounter_Nabla s3 (vevTree s3) 2 + map Fin (replicate 6 1) ! 2 = Fin 0)"
proof -
  let ?S = "Class_VDM_new \<lparr>C_vev0 = Fin 246\<rparr>"
  let ?P = "[Fin 95, Fin 650, Fin 246, Fin 1000, Fin (3 / 10), Fin 1000]"
  have a: "\<not> SetCurvatureDone ?S" "C_vev0 (SMConstants ?S) = Fin 246"
    by (simp_all add: Class_VDM_new_def)
  have b: "(246::real) \<noteq> 0" "(1000::real) \<noteq> 0" by simp_all
  have c: "(6::nat) \<le> length ?P" "?P ! 3 = Fin 1000" by simp_all
  have d: "NHiggs \<le> length (replicate 6 (1::real))"
    "NHiggs * NHiggs \<le> length (replicate 36 (2::real))"
    by (simp_all add: NHiggs_eq)
  from counterterm_tadpole_matching[OF a(1) a(2) b(1) c(1) c(2) b(2) d, of zero_collaborator]
  obtain s3 where "init_CT zero_collaborator ?S ?P (map Fin (replicate 6 1))
      (map Fin (replicate 36 2)) = Inr s3"
    "tadpole_sum (map Fin (replicate 6 1)) 0 s3 = Fin 0"
    "\<forall>i<6. VCounter_Nabla s3 (vevTree s3) i + map Fin (replicate 6 1) ! i = Fin 0"
    by blast
  then have "\<exists>s3. init_CT zero_collaborator ?S ?P (map Fin (replicate 6 1))
      (map Fin (replicate 36 2)) = Inr s3 \<and>
          tadpole_sum (map Fin (replicate 6 1)) 0 s3 = Fin 0 \<and>
          VCounter_Nabla s3 (vevTree s3) 2 + map Fin (replicate 6 1) ! 2 = Fin 0"
    by auto
  then show ?thesis using a b c d by (intro conjI)
qed

text \<open>
  The claim as stated, in direction 2, for a one-loop gradient of 1 in every direction and
  a one-loop Hessian of 2 in every entry: the sum of the three rank-1 quantities is
  \<open>2 * 246 = 492\<close>, not zero.
\<close>

theorem tadpole_sum_counterexample:
  "result_of (tadpole_sum (map Fin (replicate 6 1)) 2)
     (init_CT zero_collaborator (Class_VDM_new \<lparr>C_vev0 = Fin 246\<rparr>)
        [Fin 95, Fin 650, Fin 246, Fin 1000, Fin (3 / 10), Fin 1000]
        (map Fin (replicate 6 1)) (map Fin (replicate 36 2))) = Inr (Fin 492)"
proof -
  let ?S = "Class_VDM_new \<lparr>C_vev0 = Fin 246\<rparr>"
  let ?P = "[Fin 95, Fin 650, Fin 246, Fin 1000, Fin (3 / 10), Fin 1000]"
  have a: "\<not> SetCurvatureDone ?S" "C_vev0 (SMConstants ?S) = Fin 246"
    by (simp_all add: Class_VDM_new_def)
  have b: "(246::real) \<noteq> 0" "(1000::real) \<noteq> 0" by simp_all
  have c: "(6::nat) \<le> length ?P" "?P ! 3 = Fin 1000" by simp_all
  have d: "NHiggs \<le> length (replicate 6 (1::real))"
    "NHiggs * NHiggs \<le> length (replicate 36 (2::real))"
    by (simp_all add: NHiggs_eq)
  from tadpole_sums[OF a(1) a(2) b(1) c(1) c(2) b(2) d, of zero_collaborator]
  obtain s3 where i: "init_CT zero_collaborator ?S ?P (map Fin (replicate 6 1))
      (map Fin (replicate 36 2)) = Inr s3"
    and s: "tadpole_sum (map Fin (replicate 6 1)) 2 s3 = Fin (replicate 36 2 ! 21 * 246)"
    by blast
  show ?thesis unfolding i result_of_simps s by simp
qed

section \<open>The round trip of the reparametrization\<close>

lemma rotation_trace:
  fixes c s p q :: real
  assumes "s * s + c * c = 1"
  shows "(p * c * c + q * s * s) + (q * c * c + p * s * s) = p + q"
proof -
  have "(p * c * c + q * s * s) + (q * c * c + p * s * s) = (p + q) * (s * s + c * c)"
    by (simp add: algebra_simps)
  then show ?thesis unfolding assms by simp
qed

lemma rotation_discriminant:
  fixes c s p q :: real
  assumes "s * s + c * c = 1"
  shows "(((p * c * c + q * s * s) - (q * c * c + p * s * s)) / 2)\<^sup>2 + ((p - q) * s * c)\<^sup>2 =
    ((q - p) / 2)\<^sup>2"
proof -
  have "(((p * c * c + q * s * s) - (q * c * c + p * s * s)) / 2)\<^sup>2 + ((p - q) * s * c)\<^sup>2 =
    ((q - p) / 2)\<^sup>2 * (s * s + c * c)\<^sup>2"
    by (simp add: power2_eq_square field_simps)
  then show ?thesis unfolding assms by simp
qed

lemma sin_cos_square: "sin t * sin t + cos t * cos t = (1::real)"
  using sin_cos_squared_add[of t] by (simp add: power2_eq_square)

lemma rotated_block_eigenvalues:
  fixes m1 m2 t :: real
  assumes "0 \<le> m1" and "m1 \<le> m2"
  shows "eigenvalues2 (m1 * m1 * cos t * cos t + m2 * m2 * sin t * sin t)
           ((m1 * m1 - m2 * m2) * sin t * cos t)
           (m2 * m2 * cos t * cos t + m1 * m1 * sin t * sin t) = (m1\<^sup>2, m2\<^sup>2)"
proof -
  have "m1 * m1 \<le> m2 * m2" using assms by (simp add: mult_mono)
  then have rt: "sqrt (((m2 * m2 - m1 * m1) / 2)\<^sup>2) = (m2 * m2 - m1 * m1) / 2"
    by simp
  show ?thesis
    unfolding eigenvalues2_def rotation_trace[OF sin_cos_square]
      rotation_discriminant[OF sin_cos_square] rt
    by (simp add: power2_eq_square field_simps)
qed

lemma mass_block_set_gen:
  assumes fresh: "\<not> SetCurvatureDone s"
    and cv: "C_vev0 (SMConstants s) = Fin cv"
    and nz: "vin \<noteq> 0" "y \<noteq> 0"
  shows "\<exists>s'. set_gen s (Fin m1 # Fin m2 # Fin vin # Fin y # Fin t # Fin mx # rest) = Inr s' \<and>
    mass_block s' =
      (Fin ((m1 * m1 * cos t * cos t + m2 * m2 * sin t * sin t) * (cv / vin)\<^sup>2),
       Fin ((m1 * m1 - m2 * m2) * sin t * cos t * (cv / vin)),
       Fin (m2 * m2 * cos t * cos t + m1 * m1 * sin t * sin t))"
proof -
  let ?par = "Fin m1 # Fin m2 # Fin vin # Fin y # Fin t # Fin mx # rest"
  let ?lamH = "(m1 * m1 * cos t * cos t + m2 * m2 * sin t * sin t) / (2 * vin * vin)"
  let ?kap = "(m1 * m1 - m2 * m2) * sin t * cos t / (vin * y)"
  let ?lamS = "(m2 * m2 * cos t * cos t + m1 * m1 * sin t * sin t) / (2 * y * y)"
  have "6 \<le> length ?par" by simp
  then obtain s' where s': "set_gen s ?par = Inr s'" using set_gen_Inr by blast
  note F = set_gen_fields[OF s']
  have vv: "v s' = Fin cv" "vs s' = Fin y" using F(3,4) cv by simp_all
  have lH: "lambdaH s' = Fin ?lamH" unfolding F(5) using nz by simp
  have kp: "kappa s' = Fin ?kap" unfolding F(6) using nz by simp
  have lS: "lambdaS s' = Fin ?lamS" unfolding F(7) using nz by simp
  have mH: "muHSq s' = Fin (y * y * ?kap / 2 + cv * cv * ?lamH)"
    unfolding F(9) vv lH kp by simp
  have mS: "muSSq s' = Fin (?kap * cv * cv / 2 + ?lamS * y * y)"
    unfolding F(10) vv lS kp by simp
  have t: "vevTree s' = [Fin 0, Fin 0, Fin cv, Fin 0, Fin y, Fin 0]"
    unfolding F(13) vv ..
  note T = set_gen_tensors[OF s' fresh]
  have l2: "Curvature_Higgs_L2 s' =
    assign (Higgs_L2_entries (Fin (y * y * ?kap / 2 + cv * cv * ?lamH))
      (Fin (?kap * cv * cv / 2 + ?lamS * y * y))) (\<lambda>_. Fin 0)"
    unfolding T(3) mH mS ..
  have l4: "Curvature_Higgs_L4 s' =
    assign (Higgs_L4_entries (Fin ?lamH) (Fin ?kap) (Fin ?lamS)) (\<lambda>_. Fin 0)"
    unfolding T(5) lH kp lS ..
  have H: "VTree_Hesse s' (vevTree s') a b =
    Fin (the_Fin (Curvature_Higgs_L2 s' (a, b)) +
      (the_Fin (Curvature_Higgs_L3 s' (a, b, 2)) * cv +
       the_Fin (Curvature_Higgs_L3 s' (a, b, 4)) * y) +
      (the_Fin (Curvature_Higgs_L4 s' (a, b, 2, 2)) * cv * cv +
       the_Fin (Curvature_Higgs_L4 s' (a, b, 2, 4)) * cv * y +
       the_Fin (Curvature_Higgs_L4 s' (a, b, 4, 2)) * y * cv +
       the_Fin (Curvature_Higgs_L4 s' (a, b, 4, 4)) * y * y) / 2)" for a b
    unfolding VTree_Hesse_def t
    by (rule Hesse_sparse) (simp_all add: l2 T(4) l4 L2_is_Fin L4_is_Fin)
  have h22: "VTree_Hesse s' (vevTree s') 2 2 =
    Fin ((m1 * m1 * cos t * cos t + m2 * m2 * sin t * sin t) * (cv / vin)\<^sup>2)"
    unfolding H unfolding l2 T(4) l4 L2_lookups L4_Hesse_lookups the_Fin_Fin
    using nz by (simp add: field_simps power2_eq_square)
  have h24: "VTree_Hesse s' (vevTree s') 2 4 =
    Fin ((m1 * m1 - m2 * m2) * sin t * cos t * (cv / vin))"
    unfolding H unfolding l2 T(4) l4 L2_lookups L4_Hesse_lookups the_Fin_Fin
    using nz by (simp add: field_simps)
  have h44: "VTree_Hesse s' (vevTree s') 4 4 =
    Fin (m2 * m2 * cos t * cos t + m1 * m1 * sin t * sin t)"
    unfolding H unfolding l2 T(4) l4 L2_lookups L4_Hesse_lookups the_Fin_Fin
    using nz by (simp add: field_simps)
  show ?thesis using s' h22 h24 h44 by (simp add: mass_block_def)
qed

lemma mass_block_ReadAndSet:
  assumes fresh: "\<not> SetCurvatureDone s" and u: "\<not> UseIndexCol s"
    and cv: "C_vev0 (SMConstants s) = Fin cv"
    and par: "6 \<le> length par"
    and nz: "vin \<noteq> 0" "mx \<noteq> 0" "g \<noteq> 0"
  shows "\<exists>par' s'. ReadAndSet s tmp0 [Num m1, Num m2, Num mx, Num t, Num vin, Num g] par =
      Inr (par', s') \<and>
    mass_block s' =
      (Fin ((m1 * m1 * cos t * cos t + m2 * m2 * sin t * sin t) * (cv / vin)\<^sup>2),
       Fin ((m1 * m1 - m2 * m2) * sin t * cos t * (cv / vin)),
       Fin (m2 * m2 * cos t * cos t + m1 * m1 * sin t * sin t))"
proof -
  let ?s = "s\<lparr>MH1 := Fin m1, MH2 := Fin m2, MX := Fin mx, alpha := Fin t, v := Fin vin,
               gX := Fin g, vs := Fin (mx / g)\<rparr>"
  have y: "mx / g \<noteq> 0" using nz by simp
  have f: "\<not> SetCurvatureDone ?s" using fresh by simp
  have c: "C_vev0 (SMConstants ?s) = Fin cv" using cv by simp
  from mass_block_set_gen[OF f c nz(1) y, of m1 m2 t mx "drop 6 par"]
  obtain s' where s': "set_gen ?s (Fin m1 # Fin m2 # Fin vin # Fin (mx / g) # Fin t # Fin mx #
      drop 6 par) = Inr s'"
    and m: "mass_block s' =
      (Fin ((m1 * m1 * cos t * cos t + m2 * m2 * sin t * sin t) * (cv / vin)\<^sup>2),
       Fin ((m1 * m1 - m2 * m2) * sin t * cos t * (cv / vin)),
       Fin (m2 * m2 * cos t * cos t + m1 * m1 * sin t * sin t))"
    by blast
  have "ReadAndSet s tmp0 [Num m1, Num m2, Num mx, Num t, Num vin, Num g] par =
    Inr (Fin m1 # Fin m2 # Fin vin # Fin (mx / g) # Fin t # Fin mx # drop 6 par, s')"
    using ReadAndSet_six[OF par u, of tmp0 m1 m2 mx t vin g "[]"] s' nz by simp
  then show ?thesis using m by blast
qed

lemma round_trip_exact:
  assumes "diag_masses (mass_block s) = Some (m1, m2)"
  shows "round_trip m1 m2 s"
  using assms by (simp add: round_trip_def within_rel_def)

lemma round_trip_bound:
  assumes r: "round_trip m1 m2 s" and m: "mass_block s = (Fin a, Fin b, Fin d)"
    and p: "0 \<le> m1" "0 \<le> m2"
  shows "a + d \<le> (m1\<^sup>2 + m2\<^sup>2) * (1 + 1 / 10 ^ 8)\<^sup>2"
proof -
  let ?e1 = "fst (eigenvalues2 a b d)" and ?e2 = "snd (eigenvalues2 a b d)"
  have w: "\<bar>sqrt ?e1 - m1\<bar> \<le> 1 / 10 ^ 8 * \<bar>m1\<bar>" "\<bar>sqrt ?e2 - m2\<bar> \<le> 1 / 10 ^ 8 * \<bar>m2\<bar>"
    using r unfolding round_trip_def diag_masses_def m within_rel_def by simp_all
  have "sqrt ?e1 \<le> m1 + 1 / 10 ^ 8 * m1" using w(1) p(1) by linarith
  then have "sqrt ?e1 \<le> m1 * (1 + 1 / 10 ^ 8)" by (simp add: algebra_simps)
  then have 1: "?e1 \<le> (m1 * (1 + 1 / 10 ^ 8))\<^sup>2" by (rule sqrt_le_D)
  have "sqrt ?e2 \<le> m2 + 1 / 10 ^ 8 * m2" using w(2) p(2) by linarith
  then have "sqrt ?e2 \<le> m2 * (1 + 1 / 10 ^ 8)" by (simp add: algebra_simps)
  then have 2: "?e2 \<le> (m2 * (1 + 1 / 10 ^ 8))\<^sup>2" by (rule sqrt_le_D)
  have "a + d = ?e1 + ?e2" by (simp add: eigenvalues2_def)
  also have "\<dots> \<le> (m1 * (1 + 1 / 10 ^ 8))\<^sup>2 + (m2 * (1 + 1 / 10 ^ 8))\<^sup>2"
    using 1 2 by (rule add_mono)
  also have "\<dots> = (m1\<^sup>2 + m2\<^sup>2) * (1 + 1 / 10 ^ 8)\<^sup>2"
    by (simp only: power_mult_distrib distrib_right)
  finally show ?thesis .
qed

text \<open>
  C1 (as the code has it). For the input point \<open>m1 = 95\<close>, \<open>m2 = 650\<close>, hidden-sector mass
  1000 with gauge coupling 1 (hidden-sector VEV 1000), mixing angle 0.3 and electroweak VEV
  246, read by \<open>ReadAndSet\<close> into a new object whose constant \<open>C_vev0\<close> is \<open>cv\<close>: the
  block of the tree-level Hessian at the stored tree-level VEV in the directions 2 and 4 is
  the rotated mass matrix with its (2,2) entry scaled by \<open>(cv / 246)\<^sup>2\<close> and its (2,4) entry
  by \<open>cv / 246\<close>. When \<open>C_vev0\<close> equals the electroweak VEV of the input, the eigenvalues are
  exactly \<open>95\<^sup>2\<close> and \<open>650\<^sup>2\<close>, so the two masses are recovered.
\<close>

theorem reparametrization_round_trip:
  assumes "\<not> SetCurvatureDone s" and "\<not> UseIndexCol s"
    and "C_vev0 (SMConstants s) = Fin cv" and "6 \<le> length par"
  shows "\<exists>par' s'.
    ReadAndSet s tmp0 [Num 95, Num 650, Num 1000, Num (3 / 10), Num 246, Num 1] par =
      Inr (par', s') \<and>
    mass_block s' =
      (Fin ((95 * 95 * cos (3 / 10) * cos (3 / 10) + 650 * 650 * sin (3 / 10) * sin (3 / 10)) *
            (cv / 246)\<^sup>2),
       Fin ((95 * 95 - 650 * 650) * sin (3 / 10) * cos (3 / 10) * (cv / 246)),
       Fin (650 * 650 * cos (3 / 10) * cos (3 / 10) + 95 * 95 * sin (3 / 10) * sin (3 / 10))) \<and>
    (cv = 246 \<longrightarrow> diag_masses (mass_block s') = Some (95, 650) \<and> round_trip 95 650 s')"
proof -
  have nz: "(246::real) \<noteq> 0" "(1000::real) \<noteq> 0" "(1::real) \<noteq> 0" by simp_all
  from mass_block_ReadAndSet[OF assms nz, of tmp0 95 650 "3 / 10"]
  obtain par' s' where R:
    "ReadAndSet s tmp0 [Num 95, Num 650, Num 1000, Num (3 / 10), Num 246, Num 1] par =
      Inr (par', s')"
    and m: "mass_block s' =
      (Fin ((95 * 95 * cos (3 / 10) * cos (3 / 10) + 650 * 650 * sin (3 / 10) * sin (3 / 10)) *
            (cv / 246)\<^sup>2),
       Fin ((95 * 95 - 650 * 650) * sin (3 / 10) * cos (3 / 10) * (cv / 246)),
       Fin (650 * 650 * cos (3 / 10) * cos (3 / 10) + 95 * 95 * sin (3 / 10) * sin (3 / 10)))"
    by blast
  have e: "diag_masses (mass_block s') = Some (95, 650)" if "cv = 246"
  proof -
    have "eigenvalues2
        (95 * 95 * cos (3 / 10) * cos (3 / 10) + 650 * 650 * sin (3 / 10) * sin (3 / 10))
        ((95 * 95 - 650 * 650) * sin (3 / 10) * cos (3 / 10))
        (650 * 650 * cos (3 / 10) * cos (3 / 10) + 95 * 95 * sin (3 / 10) * sin (3 / 10)) =
      (95\<^sup>2, 650\<^sup>2)"
      by (rule rotated_block_eigenvalues) simp_all
    then show ?thesis
      unfolding m diag_masses_def that by simp
  qed
  show ?thesis
    using R m e round_trip_exact by blast
qed

theorem reparametrization_round_trip_witness:
  "\<not> SetCurvatureDone (Class_VDM_new \<lparr>C_vev0 = Fin 246\<rparr>) \<and>
   \<not> UseIndexCol (Class_VDM_new \<lparr>C_vev0 = Fin 246\<rparr>) \<and>
   C_vev0 (SMConstants (Class_VDM_new \<lparr>C_vev0 = Fin 246\<rparr>)) = Fin 246 \<and>
   (6::nat) \<le> length (replicate 6 (Fin 0)) \<and>
   (\<exists>par' s'.
      ReadAndSet (Class_VDM_new \<lparr>C_vev0 = Fin 246\<rparr>) (Fin 0)
        [Num 95, Num 650, Num 1000, Num (3 / 10), Num 246, Num 1] (replicate 6 (Fin 0)) =
        Inr (par', s') \<and>
      diag_masses (mass_block s') = Some (95, 650) \<and> round_trip 95 650 s')"
proof -
  let ?S = "Class_VDM_new \<lparr>C_vev0 = Fin 246\<rparr>"
  have a: "\<not> SetCurvatureDone ?S" "\<not> UseIndexCol ?S" "C_vev0 (SMConstants ?S) = Fin 246"
    by (simp_all add: Class_VDM_new_def)
  have h: "(6::nat) \<le> length (replicate 6 (Fin 0))" by simp
  from reparametrization_round_trip[OF a h, of "Fin 0"]
  have "\<exists>par' s'.
      ReadAndSet ?S (Fin 0)
        [Num 95, Num 650, Num 1000, Num (3 / 10), Num 246, Num 1] (replicate 6 (Fin 0)) =
        Inr (par', s') \<and>
      diag_masses (mass_block s') = Some (95, 650) \<and> round_trip 95 650 s'"
    by blast
  then show ?thesis using a h by (intro conjI)
qed

text \<open>
  The claim as stated, on a new object whose \<open>C_vev0\<close> is 246.22 (the constant is derived
  from the Fermi constant and is not 246): the masses are not recovered to within
  \<open>10\<^sup>-\<^sup>8\<close>.
\<close>

theorem round_trip_counterexample:
  "result_of (round_trip 95 650 \<circ> snd)
     (ReadAndSet (Class_VDM_new \<lparr>C_vev0 = Fin (24622 / 100)\<rparr>) (Fin 0)
        [Num 95, Num 650, Num 1000, Num (3 / 10), Num 246, Num 1] (replicate 6 (Fin 0))) =
   Inr False"
proof -
  let ?S = "Class_VDM_new \<lparr>C_vev0 = Fin (24622 / 100)\<rparr>"
  let ?A = "95 * 95 * cos (3 / 10 :: real) * cos (3 / 10) +
    650 * 650 * sin (3 / 10) * sin (3 / 10)"
  let ?D = "650 * 650 * cos (3 / 10 :: real) * cos (3 / 10) +
    95 * 95 * sin (3 / 10) * sin (3 / 10)"
  let ?r = "(24622 / 100 / 246 :: real)"
  have a: "\<not> SetCurvatureDone ?S" "\<not> UseIndexCol ?S"
    "C_vev0 (SMConstants ?S) = Fin (24622 / 100)"
    by (simp_all add: Class_VDM_new_def)
  have h: "(6::nat) \<le> length (replicate 6 (Fin 0))" by simp
  have nz: "(246::real) \<noteq> 0" "(1000::real) \<noteq> 0" "(1::real) \<noteq> 0" by simp_all
  from mass_block_ReadAndSet[OF a h nz, of "Fin 0" 95 650 "3 / 10"]
  obtain par' s' where R:
    "ReadAndSet ?S (Fin 0) [Num 95, Num 650, Num 1000, Num (3 / 10), Num 246, Num 1]
       (replicate 6 (Fin 0)) = Inr (par', s')"
    and m: "mass_block s' =
      (Fin (?A * ?r\<^sup>2), Fin ((95 * 95 - 650 * 650) * sin (3 / 10) * cos (3 / 10) * ?r), Fin ?D)"
    by blast
  have "\<not> round_trip 95 650 s'"
  proof
    assume "round_trip 95 650 s'"
    from round_trip_bound[OF this m]
    have b: "?A * ?r\<^sup>2 + ?D \<le> (95\<^sup>2 + 650\<^sup>2) * (1 + 1 / 10 ^ 8)\<^sup>2" by simp
    have s: "?A + ?D = 95 * 95 + 650 * 650"
      using rotation_trace[OF sin_cos_square[of "3 / 10"], where p = "95 * 95"
          and q = "650 * 650"]
      by (simp add: mult.assoc)
    have cc: "cos (3 / 10 :: real) * cos (3 / 10) = 1 - sin (3 / 10) * sin (3 / 10)"
      using sin_cos_square[of "3 / 10 :: real"] by linarith
    have "0 \<le> sin (3 / 10 :: real) * sin (3 / 10)" by (rule zero_le_square)
    then have "0 \<le> (650 * 650 - 95 * 95) * (sin (3 / 10 :: real) * sin (3 / 10))"
      by simp
    moreover have "?A = 95 * 95 + (650 * 650 - 95 * 95) * (sin (3 / 10) * sin (3 / 10))"
      unfolding mult.assoc cc by (simp add: algebra_simps)
    ultimately have A: "95 * 95 \<le> ?A" by linarith
    have "?A * ?r\<^sup>2 + ?D = (?A + ?D) + ?A * (?r\<^sup>2 - 1)" by (simp add: algebra_simps)
    moreover have "95 * 95 * (?r\<^sup>2 - 1) \<le> ?A * (?r\<^sup>2 - 1)"
      using A by (intro mult_right_mono) (simp_all add: power2_eq_square)
    ultimately have "(95 * 95 + 650 * 650) + 95 * 95 * (?r\<^sup>2 - 1) \<le>
      (95\<^sup>2 + 650\<^sup>2) * (1 + 1 / 10 ^ 8)\<^sup>2"
      using b s by linarith
    then show False by (simp add: power2_eq_square)
  qed
  then show ?thesis unfolding R by simp
qed

end
